theory Spec2Isabelle
  imports Complex_Main "HOL-Library.AList"
begin

section \<open>Python values, exceptions and observable effects\<close>

text \<open>
  The scripts of the repository are single-threaded Python programs that read files, call a
  few libraries, print, and write files.  A method is embedded as a function from the
  object's attributes and the answers of the library calls it makes to its return value, the
  updated attributes and the list of effects it has had, in program order.

  An \<open>exn\<close> is an instance of a subclass of Python's \<open>Exception\<close>, the class named by every
  handler of these scripts (\<open>except Exception as e\<close>): \<open>exn_class\<close> is its class name and
  \<open>exn_str\<close> is \<open>str(e)\<close>.  Asynchronous interpreter signals outside that class
  (\<open>KeyboardInterrupt\<close>, \<open>SystemExit\<close>) are not part of the model.  A library call answers
  \<open>Inl e\<close> when it raises \<open>e\<close> and \<open>Inr v\<close> when it returns \<open>v\<close>.
\<close>

datatype exn = Exn (exn_class: string) (exn_str: string)

datatype pyval =
    VNone
  | VBool bool
  | VInt int
  | VNum real
  | VNaN
  | VInf bool
  | VStr string
  | VList "pyval list"
  | VDict "(string \<times> pyval) list"

text \<open>
  \<open>VNum\<close> is a finite floating-point number, read as the real number it denotes (zero is
  read as \<open>+0.0\<close>; the arithmetic of section Tables does not round, that of section
  Double-precision numbers does); \<open>VNaN\<close> is \<open>nan\<close>, \<open>VInf True\<close> is \<open>inf\<close>
  and \<open>VInf False\<close> is \<open>-inf\<close>, the results numpy gives for a division by zero.

  Effects.  \<open>Print t vs\<close> is a call of \<open>print\<close> whose text is the template \<open>t\<close> of the source
  (an f-string with its replacement fields written \<open>{}\<close>, or \<open>{:fmt}\<close> with the format of the
  source) filled with the values \<open>vs\<close>.  \<open>Input p\<close> is a call of \<open>input(p)\<close>, which blocks
  until a line is typed.  \<open>HttpGet url params\<close> is one call of \<open>requests.get\<close>.
  \<open>WriteFile path\<close> is a file opened for writing or written by a library, and
  \<open>WriteLine t vs\<close> one call of \<open>f.write\<close> on the file opened last, with the template and
  values of its text.  \<open>Mkdir path\<close>
  is a directory creation.  \<open>Plot name\<close> is a figure drawn, saved or shown.
  \<open>Traceback e\<close> is what the interpreter writes to standard error when \<open>e\<close> reaches the top
  level of a script uncaught.
\<close>

datatype event =
    Print string "pyval list"
  | Input string
  | HttpGet string "(string \<times> pyval) list"
  | WriteFile string
  | WriteLine string "pyval list"
  | Mkdir string
  | Plot string
  | Traceback exn

text \<open>What a method call ends with: a returned value or a propagated exception.\<close>

datatype 'a outcome = Returns 'a | Raises exn

fun is_print :: "event \<Rightarrow> bool" where
  "is_print (Print _ _) = True"
| "is_print _ = False"

fun is_input :: "event \<Rightarrow> bool" where
  "is_input (Input _) = True"
| "is_input _ = False"

fun is_http_get :: "event \<Rightarrow> bool" where
  "is_http_get (HttpGet _ _) = True"
| "is_http_get _ = False"

fun is_write :: "event \<Rightarrow> bool" where
  "is_write (WriteFile _) = True"
| "is_write _ = False"

text \<open>Python's truth value of a returned object (\<open>if x:\<close>, \<open>not x\<close>).\<close>

fun truthy :: "pyval \<Rightarrow> bool" where
  "truthy VNone = False"
| "truthy (VBool b) = b"
| "truthy (VInt i) = (i \<noteq> 0)"
| "truthy (VNum r) = (r \<noteq> 0)"
| "truthy VNaN = True"
| "truthy (VInf _) = True"
| "truthy (VStr s) = (s \<noteq> [])"
| "truthy (VList xs) = (xs \<noteq> [])"
| "truthy (VDict kvs) = (kvs \<noteq> [])"


text \<open>
  A program over attributes \<open>'s\<close>: from the attributes before to the outcome, the
  attributes after and the effects.  An exception ends the program where it is raised and
  keeps the attributes assigned so far and the effects had so far.  Newlines at the start
  of a printed message are left out of the templates.
\<close>

type_synonym ('s, 'a) prog = "'s \<Rightarrow> 'a outcome \<times> 's \<times> event list"

definition ret :: "'a \<Rightarrow> ('s, 'a) prog" where
  "ret a s = (Returns a, s, [])"

definition raise :: "exn \<Rightarrow> ('s, 'a) prog" where
  "raise e s = (Raises e, s, [])"

definition emit :: "event \<Rightarrow> ('s, unit) prog" where
  "emit ev s = (Returns (), s, [ev])"

text \<open>A library call with its answer.\<close>

definition lib :: "exn + 'a \<Rightarrow> ('s, 'a) prog" where
  "lib r s = (case r of Inl e \<Rightarrow> (Raises e, s, []) | Inr v \<Rightarrow> (Returns v, s, []))"

definition get_self :: "('s, 's) prog" where
  "get_self s = (Returns s, s, [])"

definition set_self :: "('s \<Rightarrow> 's) \<Rightarrow> ('s, unit) prog" where
  "set_self f s = (Returns (), f s, [])"

definition do_then :: "('s, 'a) prog \<Rightarrow> ('a \<Rightarrow> ('s, 'b) prog) \<Rightarrow> ('s, 'b) prog" where
  "do_then m f s =
     (case m s of
        (Raises e, s', out) \<Rightarrow> (Raises e, s', out)
      | (Returns a, s', out) \<Rightarrow>
          (case f a s' of (r, s'', out') \<Rightarrow> (r, s'', out @ out')))"

text \<open>Statements in sequence.\<close>

fun seqs :: "('s, unit) prog list \<Rightarrow> ('s, unit) prog" where
  "seqs [] = ret ()"
| "seqs (m # ms) = do_then m (\<lambda>_. seqs ms)"

text \<open>\<open>try: m except Exception as e: h e\<close>.\<close>

definition try_except :: "('s, 'a) prog \<Rightarrow> (exn \<Rightarrow> ('s, 'a) prog) \<Rightarrow> ('s, 'a) prog" where
  "try_except m h s =
     (case m s of
        (Raises e, s', out) \<Rightarrow> (case h e s' of (r, s'', out') \<Rightarrow> (r, s'', out @ out'))
      | (Returns a, s', out) \<Rightarrow> (Returns a, s', out))"

definition result :: "'a outcome \<times> 's \<times> event list \<Rightarrow> 'a outcome" where
  "result r = fst r"

definition self_after :: "'a outcome \<times> 's \<times> event list \<Rightarrow> 's" where
  "self_after r = fst (snd r)"

definition effects :: "'a outcome \<times> 's \<times> event list \<Rightarrow> event list" where
  "effects r = snd (snd r)"

text \<open>
  Division of Python numbers: a zero divisor raises \<open>ZeroDivisionError\<close>.  It is written
  out because HOL's \<open>x / 0\<close> is \<open>0\<close>.
\<close>

definition checked_div :: "real \<Rightarrow> real \<Rightarrow> exn + real" where
  "checked_div a b =
     (if b = 0 then Inl (Exn ''ZeroDivisionError'' ''division by zero'') else Inr (a / b))"


section \<open>Double-precision numbers\<close>

text \<open>
  A Python \<open>float\<close> is an IEEE 754 binary64 number, and every arithmetic operation on
  floats returns the exact result rounded to the nearest such number, a tie going to the
  one whose significand is even.  A finite double is read as the real number it denotes.
  \<open>dbl x\<close> is \<open>x\<close> rounded to 53 significant bits: with \<open>2 ^ e \<le> \<bar>x\<bar> < 2 ^ (e + 1)\<close> the
  doubles around \<open>x\<close> are the multiples of \<open>ulp x = 2 ^ (e - 52)\<close>.  The exponent is not
  bounded here: overflow to infinity and the subnormal numbers below \<open>2 ^ -1022\<close> are not
  modelled, so \<open>dbl\<close> is the rounding of binary64 for \<open>2 ^ -1022 \<le> \<bar>x\<bar> < 2 ^ 1023\<close>.
\<close>

definition round_half_even :: "real \<Rightarrow> int" where
  "round_half_even r =
     (if r - of_int \<lfloor>r\<rfloor> < 1 / 2 then \<lfloor>r\<rfloor>
      else if r - of_int \<lfloor>r\<rfloor> > 1 / 2 then \<lfloor>r\<rfloor> + 1
      else if even \<lfloor>r\<rfloor> then \<lfloor>r\<rfloor> else \<lfloor>r\<rfloor> + 1)"

definition ulp :: "real \<Rightarrow> real" where
  "ulp x = 2 powi (\<lfloor>log 2 \<bar>x\<bar>\<rfloor> - 52)"

definition dbl :: "real \<Rightarrow> real" where
  "dbl x = (if x = 0 then 0 else sgn x * (of_int (round_half_even (\<bar>x\<bar> / ulp x)) * ulp x))"

text \<open>
  \<open>a + b\<close>, \<open>a * b\<close> and \<open>a / b\<close> on floats.  An \<open>int\<close> operand is converted first
  (\<open>dbl\<close> of it) where the source has one.  Division by zero raises.
\<close>

definition dadd :: "real \<Rightarrow> real \<Rightarrow> real" where
  "dadd a b = dbl (a + b)"

definition dmul :: "real \<Rightarrow> real \<Rightarrow> real" where
  "dmul a b = dbl (a * b)"

definition ddiv :: "real \<Rightarrow> real \<Rightarrow> exn + real" where
  "ddiv a b =
     (if b = 0 then Inl (Exn ''ZeroDivisionError'' ''float division by zero'')
      else Inr (dbl (a / b)))"

text \<open>The expression \<open>(a / b) * 100\<close> on floats.\<close>

definition pct_of :: "real \<Rightarrow> real \<Rightarrow> exn + real" where
  "pct_of a b = (case ddiv a b of Inl e \<Rightarrow> Inl e | Inr q \<Rightarrow> Inr (dmul q 100))"


section \<open>Tables\<close>

text \<open>
  Sequencing of library answers: the first exception ends the computation.
\<close>

definition and_then :: "exn + 'a \<Rightarrow> ('a \<Rightarrow> exn + 'b) \<Rightarrow> exn + 'b" where
  "and_then r f = (case r of Inl e \<Rightarrow> Inl e | Inr v \<Rightarrow> f v)"

fun all_ok :: "(exn + 'a) list \<Rightarrow> exn + 'a list" where
  "all_ok [] = Inr []"
| "all_ok (r # rs) =
     (case r of
        Inl e \<Rightarrow> Inl e
      | Inr v \<Rightarrow> (case all_ok rs of Inl e \<Rightarrow> Inl e | Inr vs \<Rightarrow> Inr (v # vs)))"

text \<open>
  Floating-point arithmetic as numpy and pandas do it on numbers: no exception, a division
  by zero gives \<open>inf\<close> or \<open>nan\<close>, and \<open>nan\<close> propagates.  \<open>fl\<close> is the floating-point value
  of a cell; a cell that is not a number makes the operation raise \<open>TypeError\<close>.
\<close>

fun fl :: "pyval \<Rightarrow> pyval option" where
  "fl (VInt i) = Some (VNum (real_of_int i))"
| "fl (VNum r) = Some (VNum r)"
| "fl (VBool b) = Some (VNum (if b then 1 else 0))"
| "fl VNaN = Some VNaN"
| "fl (VInf s) = Some (VInf s)"
| "fl _ = None"

fun fdiv :: "pyval \<Rightarrow> pyval \<Rightarrow> pyval" where
  "fdiv (VNum a) (VNum b) =
     (if b = 0 then (if a = 0 then VNaN else VInf (a > 0)) else VNum (a / b))"
| "fdiv (VNum a) (VInf _) = VNum 0"
| "fdiv (VInf s) (VNum b) = VInf (if b \<ge> 0 then s else \<not> s)"
| "fdiv _ _ = VNaN"

fun fmul :: "pyval \<Rightarrow> pyval \<Rightarrow> pyval" where
  "fmul (VNum a) (VNum b) = VNum (a * b)"
| "fmul (VInf s) (VNum b) = (if b = 0 then VNaN else VInf (s = (b > 0)))"
| "fmul (VNum a) (VInf s) = (if a = 0 then VNaN else VInf (s = (a > 0)))"
| "fmul (VInf s) (VInf t) = VInf (s = t)"
| "fmul _ _ = VNaN"

fun fsub :: "pyval \<Rightarrow> pyval \<Rightarrow> pyval" where
  "fsub (VNum a) (VNum b) = VNum (a - b)"
| "fsub (VInf s) (VNum b) = VInf s"
| "fsub (VNum a) (VInf s) = VInf (\<not> s)"
| "fsub (VInf s) (VInf t) = (if s = t then VNaN else VInf s)"
| "fsub _ _ = VNaN"

definition np_op :: "(pyval \<Rightarrow> pyval \<Rightarrow> pyval) \<Rightarrow> pyval \<Rightarrow> pyval \<Rightarrow> exn + pyval" where
  "np_op f x y =
     (case (fl x, fl y) of
        (Some a, Some b) \<Rightarrow> Inr (f a b)
      | _ \<Rightarrow> Inl (Exn ''TypeError'' ''unsupported operand type(s)''))"

text \<open>
  A DataFrame: its columns in order, each with its values; all columns have as many values
  as the table has rows.  A Series is a list of values.
\<close>

type_synonym series = "pyval list"
type_synonym frame = "(string \<times> series) list"

definition frame_columns :: "frame \<Rightarrow> string list" where
  "frame_columns df = map fst df"

text \<open>\<open>len(df)\<close>.\<close>

definition frame_len :: "frame \<Rightarrow> nat" where
  "frame_len df = (case df of [] \<Rightarrow> 0 | (_, vs) # _ \<Rightarrow> length vs)"

text \<open>\<open>df[c]\<close> raises \<open>KeyError\<close> for a column the table does not have.\<close>

definition frame_col :: "frame \<Rightarrow> string \<Rightarrow> exn + series" where
  "frame_col df c = (case map_of df c of None \<Rightarrow> Inl (Exn ''KeyError'' c) | Some vs \<Rightarrow> Inr vs)"

text \<open>\<open>df[[c1, c2, ...]]\<close>.\<close>

definition frame_select :: "frame \<Rightarrow> string list \<Rightarrow> exn + frame" where
  "frame_select df cs = all_ok (map (\<lambda>c. and_then (frame_col df c) (\<lambda>vs. Inr (c, vs))) cs)"

text \<open>\<open>df[c] = vs\<close> replaces the column or adds it after the others.\<close>

definition frame_assign :: "string \<Rightarrow> series \<Rightarrow> frame \<Rightarrow> frame" where
  "frame_assign c vs df = AList.update c vs df"

text \<open>\<open>df[msk]\<close>: the rows at which the mask is true.\<close>

definition series_filter :: "bool list \<Rightarrow> series \<Rightarrow> series" where
  "series_filter msk vs = map snd (filter fst (zip msk vs))"

definition frame_filter :: "bool list \<Rightarrow> frame \<Rightarrow> frame" where
  "frame_filter msk df = map (\<lambda>(c, vs). (c, series_filter msk vs)) df"

text \<open>\<open>s.iloc[0]\<close> raises \<open>IndexError\<close> on an empty Series.\<close>

definition iloc0 :: "series \<Rightarrow> exn + pyval" where
  "iloc0 vs =
     (case vs of
        [] \<Rightarrow> Inl (Exn ''IndexError'' ''single positional indexer is out-of-bounds'')
      | v # _ \<Rightarrow> Inr v)"

text \<open>\<open>df[c].iloc[0]\<close>.\<close>

definition first_cell :: "frame \<Rightarrow> string \<Rightarrow> exn + pyval" where
  "first_cell df c = and_then (frame_col df c) iloc0"

text \<open>Arithmetic of two Series of one table, and of a Series and a number.\<close>

definition series_op ::
  "(pyval \<Rightarrow> pyval \<Rightarrow> pyval) \<Rightarrow> series \<Rightarrow> series \<Rightarrow> exn + series" where
  "series_op f xs ys = all_ok (map2 (np_op f) xs ys)"

definition series_op_scalar ::
  "(pyval \<Rightarrow> pyval \<Rightarrow> pyval) \<Rightarrow> series \<Rightarrow> pyval \<Rightarrow> exn + series" where
  "series_op_scalar f xs y = all_ok (map (\<lambda>x. np_op f x y) xs)"

text \<open>\<open>s.shift(1)\<close> and \<open>s.diff()\<close>: the first row has no predecessor and gets \<open>nan\<close>.\<close>

definition shift1 :: "series \<Rightarrow> series" where
  "shift1 vs = (case vs of [] \<Rightarrow> [] | _ # _ \<Rightarrow> VNaN # butlast vs)"

definition diff1 :: "series \<Rightarrow> exn + series" where
  "diff1 vs = series_op fsub vs (shift1 vs)"

text \<open>\<open>df.dropna()\<close> keeps the rows in which no cell is missing (\<open>nan\<close> or \<open>None\<close>).\<close>

fun isna :: "pyval \<Rightarrow> bool" where
  "isna VNaN = True"
| "isna VNone = True"
| "isna _ = False"

definition notna_mask :: "frame \<Rightarrow> bool list" where
  "notna_mask df =
     foldr (\<lambda>(c, vs) m. map2 (\<lambda>v b. \<not> isna v \<and> b) vs m) df (replicate (frame_len df) True)"

definition dropna :: "frame \<Rightarrow> frame" where
  "dropna df = frame_filter (notna_mask df) df"

text \<open>
  The rows of a table as the numeric matrix scikit-learn works on; an estimator or scaler
  given a cell that is not a finite number raises \<open>ValueError\<close>.  Booleans count as
  \<open>1\<close> and \<open>0\<close>.  A text cell is taken not to spell a number (numpy would convert one
  that does): the typed-in tables hold no text, and \<open>pd.read_csv\<close> turns the text of a
  numeric column into numbers itself.
\<close>

fun finite_num :: "pyval \<Rightarrow> exn + real" where
  "finite_num (VInt i) = Inr (real_of_int i)"
| "finite_num (VNum r) = Inr r"
| "finite_num (VBool b) = Inr (if b then 1 else 0)"
| "finite_num _ = Inl (Exn ''ValueError'' ''Input contains NaN, infinity or a non-number'')"

definition to_vector :: "series \<Rightarrow> exn + real list" where
  "to_vector vs = all_ok (map finite_num vs)"

definition to_matrix :: "frame \<Rightarrow> exn + real list list" where
  "to_matrix df = all_ok (map to_vector (transpose (map snd df)))"


text \<open>
  Files read with \<open>gpd.read_file\<close>: a path that exists is mapped to the answer the
  library gives for it (the table, or the exception raised while opening or parsing), and a
  path that does not exist makes the library raise.
\<close>

type_synonym files = "string \<rightharpoonup> (exn + frame)"

definition path_exists :: "files \<Rightarrow> string \<Rightarrow> bool" where
  "path_exists fs path = (fs path \<noteq> None)"

definition gpd_read_file :: "files \<Rightarrow> string \<Rightarrow> exn + frame" where
  "gpd_read_file fs path =
     (case fs path of
        None \<Rightarrow> Inl (Exn ''DataSourceError'' (path @ '': No such file or directory''))
      | Some r \<Rightarrow> r)"

text \<open>
  The end of a script: an exception that reaches the top level makes the interpreter write
  the traceback, which ends with the exception's class and message, and exit with status 1.
\<close>

definition run_script :: "('s, 'a) prog \<Rightarrow> 's \<Rightarrow> nat \<times> event list" where
  "run_script m s =
     (case m s of
        (Returns _, _, out) \<Rightarrow> (0, out)
      | (Raises e, _, out) \<Rightarrow> (1, out @ [Traceback e]))"

text \<open>
  The answers of the plotting library to a method that draws and saves a figure, prints
  where it saved it and then calls \<open>plt.show()\<close>: first the drawing and saving, second the
  showing.
\<close>

type_synonym plot_answers = "(exn + unit) \<times> (exn + unit)"

text \<open>
  A value printed with a numeric format (\<open>{:,.0f}\<close>, \<open>{:.1f}\<close>): formatting anything but a
  number raises.
\<close>

definition print_f :: "string \<Rightarrow> pyval list \<Rightarrow> pyval \<Rightarrow> ('s, unit) prog" where
  "print_f t vs v =
     (case fl v of
        None \<Rightarrow> raise (Exn ''TypeError'' ''unsupported format string'')
      | Some _ \<Rightarrow> emit (Print t (vs @ [v])))"

definition write_f :: "string \<Rightarrow> pyval list \<Rightarrow> pyval \<Rightarrow> ('s, unit) prog" where
  "write_f t vs v =
     (case fl v of
        None \<Rightarrow> raise (Exn ''TypeError'' ''unsupported format string'')
      | Some _ \<Rightarrow> emit (WriteLine t (vs @ [v])))"


section \<open>src/district_processor.py\<close>

text \<open>
  \<open>CA13Processor\<close>: both tables are \<open>None\<close> after the constructor.  The library and the
  user answer through \<open>processor_env\<close>: the shapefiles on disk, \<open>int(input(..))\<close> (the number
  typed, or \<open>EOFError\<close> or \<open>ValueError\<close>), \<open>sorted(column.unique())\<close>, the creation of the
  output directory, \<open>to_file\<close>, the drawing and saving of the maps, \<open>plt.show()\<close>, and the
  coordinate system and area of the district.
\<close>

record CA13Processor =
  cp_district_data :: "frame option"
  cp_ca13_data :: "frame option"

record processor_env =
  pe_files :: files
  pe_typed :: "exn + int"
  pe_sorted_unique :: "series \<Rightarrow> exn + pyval"
  pe_mkdir :: "exn + unit"
  pe_to_file :: "exn + unit"
  pe_plotted :: "exn + unit"
  pe_shown :: "exn + unit"
  pe_crs :: pyval
  pe_area_km2 :: "pyval option"

definition CA13Processor_init :: CA13Processor where
  "CA13Processor_init = \<lparr>cp_district_data = None, cp_ca13_data = None\<rparr>"

definition shapefile_path :: string where
  "shapefile_path = ''data/ca_cong_adopted_2021/CD_Final 2021-12-20.shp''"

definition district_cols :: "string list" where
  "district_cols = [''DISTRICT'', ''District'', ''CD'', ''CD_NUM'', ''CONG_DIST'']"

text \<open>
  \<open>columns[i]\<close> for an integer \<open>i\<close>: positions \<open>0\<close> to \<open>len - 1\<close>, and \<open>-1\<close> down to \<open>-len\<close>
  for the same elements taken from the back; any other integer raises \<open>IndexError\<close>.
\<close>

definition py_index :: "'a list \<Rightarrow> int \<Rightarrow> exn + 'a" where
  "py_index xs i =
     (if 0 \<le> i \<and> i < int (length xs) then Inr (xs ! nat i)
      else if i < 0 \<and> - int (length xs) \<le> i then Inr (xs ! nat (int (length xs) + i))
      else Inl (Exn ''IndexError'' ''index out of bounds''))"

text \<open>
  \<open>str(cell).strip() == '13'\<close>, by the kind of cell: the text of an integer is its decimal
  numeral, a string is stripped of the white space at both ends, and the text of any other
  value (\<open>13.0\<close>, \<open>nan\<close>, \<open>None\<close>, \<open>True\<close>) is never \<open>13\<close>.
\<close>

definition is_space :: "char \<Rightarrow> bool" where
  "is_space ch = (ch \<in> set [CHR '' '', CHR 0x09, CHR 0x0A, CHR 0x0B, CHR 0x0C, CHR 0x0D])"

definition py_strip :: "string \<Rightarrow> string" where
  "py_strip t = rev (dropWhile is_space (rev (dropWhile is_space t)))"

fun str_strip_is_13 :: "pyval \<Rightarrow> bool" where
  "str_strip_is_13 (VInt i) = (i = 13)"
| "str_strip_is_13 (VStr t) = (py_strip t = ''13'')"
| "str_strip_is_13 _ = False"

text \<open>
  The search for the district column (lines 30-45): the first candidate that is a column
  of the table; when there is none, the columns are listed and a number is asked for.
\<close>

definition ask_for_column :: "frame \<Rightarrow> ('s, unit) prog" where
  "ask_for_column df =
     seqs
       ([emit (Print ''Could not automatically find district column.'' []),
         emit (Print ''Please select the column containing district numbers:'' [])]
        @ map (\<lambda>(i, col). emit (Print ''{}: {}'' [VInt (int i), VStr col]))
            (enumerate 0 (frame_columns df))
        @ [emit (Input ''Enter column number: '')])"

definition choose_district_column :: "processor_env \<Rightarrow> frame \<Rightarrow> (CA13Processor, string) prog" where
  "choose_district_column env df =
     (case find (\<lambda>col. col \<in> set (frame_columns df)) district_cols of
        Some district_col \<Rightarrow> ret district_col
      | None \<Rightarrow>
          do_then (ask_for_column df) (\<lambda>_.
          do_then (lib (pe_typed env)) (\<lambda>col_idx.
          lib (py_index (frame_columns df) col_idx))))"

text \<open>\<open>create_district_maps\<close> (lines 76-115) catches what the plotting raises.\<close>

definition create_district_maps :: "processor_env \<Rightarrow> (CA13Processor, unit) prog" where
  "create_district_maps env =
     do_then get_self (\<lambda>self.
       case cp_ca13_data self of
         None \<Rightarrow> emit (Print ''No data loaded'' [])
       | Some _ \<Rightarrow>
           try_except
             (seqs [lib (pe_plotted env),
                    emit (Mkdir ''data/maps''),
                    emit (Plot ''data/maps/CA13_maps.png''),
                    emit (Print ''Saved maps to: {}'' [VStr ''data/maps/CA13_maps.png'']),
                    lib (pe_shown env)])
             (\<lambda>e. emit (Print ''Error creating maps: {}'' [VStr (exn_str e)])))"

text \<open>Extraction of district 13, saving and maps (lines 47-70).\<close>

definition extract_ca13 ::
  "processor_env \<Rightarrow> frame \<Rightarrow> string \<Rightarrow> (CA13Processor, pyval) prog" where
  "extract_ca13 env df district_col =
     do_then (emit (Print ''Extracting District 13 using column: {}'' [VStr district_col])) (\<lambda>_.
     do_then (lib (frame_col df district_col)) (\<lambda>col.
     do_then (set_self (\<lambda>self.
                self\<lparr>cp_ca13_data := Some (frame_filter (map str_strip_is_13 col) df)\<rparr>)) (\<lambda>_.
     if frame_len (frame_filter (map str_strip_is_13 col) df) = 0 then
       do_then (emit (Print ''Error: Could not find District 13'' [])) (\<lambda>_.
       do_then (lib (pe_sorted_unique env col)) (\<lambda>districts.
       do_then (emit (Print ''Available districts: {}'' [districts])) (\<lambda>_.
       ret (VBool False))))
     else
       do_then (lib (pe_mkdir env)) (\<lambda>_.
       do_then (emit (Mkdir ''data/processed'')) (\<lambda>_.
       do_then (lib (pe_to_file env)) (\<lambda>_.
       do_then (emit (WriteFile ''data/processed/CA13_boundary.geojson'')) (\<lambda>_.
       do_then (emit (Print ''Saved CA-13 boundary to: {}''
                        [VStr ''data/processed/CA13_boundary.geojson''])) (\<lambda>_.
       do_then (create_district_maps env) (\<lambda>_.
       ret (VBool True))))))))))"

text \<open>\<open>process_district_data\<close> (lines 14-74): the whole body is inside one \<open>try\<close>.\<close>

definition process_district_data :: "processor_env \<Rightarrow> (CA13Processor, pyval) prog" where
  "process_district_data env =
     try_except
       (if \<not> path_exists (pe_files env) shapefile_path then
          do_then (emit (Print ''Error: Shapefile not found at {}'' [VStr shapefile_path])) (\<lambda>_.
          ret (VBool False))
        else
          do_then (emit (Print ''Loading district data...'' [])) (\<lambda>_.
          do_then (lib (gpd_read_file (pe_files env) shapefile_path)) (\<lambda>df.
          do_then (set_self (\<lambda>self. self\<lparr>cp_district_data := Some df\<rparr>)) (\<lambda>_.
          do_then (emit (Print ''Available columns: {}''
                           [VList (map VStr (frame_columns df))])) (\<lambda>_.
          do_then (choose_district_column env df) (\<lambda>district_col.
          extract_ca13 env df district_col))))))
       (\<lambda>e. do_then (emit (Print ''Error processing district data: {}'' [VStr (exn_str e)])) (\<lambda>_.
             ret (VBool False)))"

text \<open>\<open>analyze_district_data\<close> (lines 117-137).\<close>

definition analyze_district_data :: "processor_env \<Rightarrow> (CA13Processor, unit) prog" where
  "analyze_district_data env =
     do_then get_self (\<lambda>self.
       case cp_ca13_data self of
         None \<Rightarrow> emit (Print ''No data loaded'' [])
       | Some ca13 \<Rightarrow> seqs
           ([emit (Print ''CA-13 District Analysis:'' []),
             emit (Print (replicate 50 CHR ''-'') []),
             emit (Print ''Number of geometric features: {}'' [VInt (int (frame_len ca13))]),
             emit (Print ''Coordinate system: {}'' [pe_crs env]),
             (case pe_area_km2 env of
                None \<Rightarrow> ret ()
              | Some a \<Rightarrow> print_f ''Approximate district area: {:.2f} km2'' [] a),
             emit (Print ''Available attributes:'' [])]
            @ map (\<lambda>col. do_then (lib (first_cell ca13 col)) (\<lambda>v.
                     emit (Print ''- {}: {}'' [VStr col, v])))
                (filter (\<lambda>col. col \<noteq> ''geometry'') (frame_columns ca13))
            @ [emit (Print (replicate 50 CHR ''-'') [])]))"

text \<open>The entry point (lines 139-149).\<close>

definition CA13Processor_main :: "processor_env \<Rightarrow> nat \<times> event list" where
  "CA13Processor_main env =
     run_script
       (do_then (emit (Print ''CA-13 District Data Processor'' [])) (\<lambda>_.
        do_then (emit (Print (replicate 50 CHR ''='') [])) (\<lambda>_.
        do_then (process_district_data env) (\<lambda>ok.
          if truthy ok then
            do_then (analyze_district_data env) (\<lambda>_.
            emit (Print
              ''Processing complete! Check the data/processed and data/maps directories for outputs.''
              []))
          else emit (Print
            ''Processing failed. Please check the error messages above.'' [])))))
       CA13Processor_init"


section \<open>ca13-initial-setup.py\<close>

text \<open>
  \<open>CA13Analyzer\<close> and its loader of the census table (lines 57-65); \<open>read_csv\<close> is the
  answer of \<open>pd.read_csv(file_path)\<close>.
\<close>

record CA13Analyzer =
  district_boundary :: "frame option"
  precinct_data :: "frame option"
  census_data :: "frame option"
  election_data :: "frame option"

definition load_census_data :: "(exn + frame) \<Rightarrow> (CA13Analyzer, pyval) prog" where
  "load_census_data read_csv =
     try_except
       (do_then (lib read_csv) (\<lambda>df.
        do_then (set_self (\<lambda>self. self\<lparr>census_data := Some df\<rparr>)) (\<lambda>_.
        do_then (emit (Print ''Successfully loaded census data'' [])) (\<lambda>_.
        ret (VBool True)))))
       (\<lambda>e. do_then (emit (Print ''Error loading census data: {}'' [VStr (exn_str e)])) (\<lambda>_.
             ret (VBool False)))"


section \<open>src/demographic_analyzer.py\<close>

text \<open>
  \<open>CA13DemographicAnalyzer\<close>: \<open>district_data\<close> is \<open>None\<close> until \<open>load_data\<close> assigns the
  table.  The constructor creates the output directory (\<open>made\<close> is the answer of \<open>mkdir\<close>).
\<close>

record CA13DemographicAnalyzer =
  da_district_data :: "frame option"

definition CA13DemographicAnalyzer_init :: "(exn + unit) \<Rightarrow> (CA13DemographicAnalyzer, unit) prog" where
  "CA13DemographicAnalyzer_init made =
     seqs [lib made, emit (Mkdir ''data/analysis''),
           set_self (\<lambda>self. self\<lparr>da_district_data := None\<rparr>)]"

text \<open>\<open>load_data\<close> (lines 15-25).\<close>

definition CA13DemographicAnalyzer_load_data :: "files \<Rightarrow> (CA13DemographicAnalyzer, pyval) prog" where
  "CA13DemographicAnalyzer_load_data fs =
     try_except
       (do_then (lib (gpd_read_file fs ''data/processed/CA13_boundary.geojson'')) (\<lambda>df.
        do_then (set_self (\<lambda>self. self\<lparr>da_district_data := Some df\<rparr>)) (\<lambda>_.
        do_then (emit (Print ''Successfully loaded CA-13 data'' [])) (\<lambda>_.
        ret (VBool True)))))
       (\<lambda>e. do_then (emit (Print ''Error loading data: {}'' [VStr (exn_str e)])) (\<lambda>_.
             ret (VBool False)))"

text \<open>
  The dictionary \<open>demographics\<close> (lines 34-41) has six fixed keys.  Each value is
  \<open>self.district_data[column].iloc[0]\<close>, evaluated in the order of the source.
\<close>

record demographics =
  dm_population :: pyval
  dm_cvap :: pyval
  dm_hispanic :: pyval
  dm_black :: pyval
  dm_asian :: pyval
  dm_white :: pyval

definition extract_demographics :: "frame \<Rightarrow> exn + demographics" where
  "extract_demographics df =
     and_then (first_cell df ''POPULATION'') (\<lambda>p.
     and_then (first_cell df ''CVAP_19'') (\<lambda>c.
     and_then (first_cell df ''HSP_CVAP_1'') (\<lambda>h.
     and_then (first_cell df ''DOJ_NH_BLK'') (\<lambda>b.
     and_then (first_cell df ''DOJ_NH_ASN'') (\<lambda>a.
     and_then (first_cell df ''NH_WHT_CVA'') (\<lambda>w.
       Inr \<lparr>dm_population = p, dm_cvap = c, dm_hispanic = h, dm_black = b,
            dm_asian = a, dm_white = w\<rparr>))))))"

text \<open>
  The expression \<open>(x / cvap_total) * 100\<close> on the numbers of a table, and the dictionary
  \<open>demographic_pcts\<close> (lines 44-50).
\<close>

definition np_pct :: "pyval \<Rightarrow> pyval \<Rightarrow> exn + pyval" where
  "np_pct x y = and_then (np_op fdiv x y) (\<lambda>q. np_op fmul q (VInt 100))"

definition demographic_pcts :: "demographics \<Rightarrow> exn + (string \<times> pyval) list" where
  "demographic_pcts d =
     (let cvap_total = dm_cvap d in
      and_then (np_pct (dm_hispanic d) cvap_total) (\<lambda>h.
      and_then (np_pct (dm_black d) cvap_total) (\<lambda>b.
      and_then (np_pct (dm_asian d) cvap_total) (\<lambda>a.
      and_then (np_pct (dm_white d) cvap_total) (\<lambda>w.
        Inr [(''Hispanic'', h), (''Black'', b), (''Asian'', a), (''White'', w)])))))"

text \<open>
  \<open>create_demographic_plots\<close> (lines 67-94) draws a pie and a bar chart of the
  percentages, saves the figure, prints where, and shows it.
\<close>

definition create_demographic_plots ::
  "plot_answers \<Rightarrow> (string \<times> pyval) list \<Rightarrow> (CA13DemographicAnalyzer, unit) prog" where
  "create_demographic_plots plotted pcts =
     seqs [lib (fst plotted),
           emit (Plot ''data/analysis/CA13_demographics.png''),
           emit (Print ''Saved demographic visualizations to: {}''
                   [VStr ''data/analysis/CA13_demographics.png'']),
           lib (snd plotted)]"

text \<open>
  \<open>save_analysis\<close> (lines 96-120); \<open>opened\<close> is the answer of \<open>open(.., 'w')\<close>.  The three
  district properties are looked up while the report is being written.
\<close>

definition save_analysis ::
  "(exn + unit) \<Rightarrow> demographics \<Rightarrow> (string \<times> pyval) list \<Rightarrow>
     (CA13DemographicAnalyzer, unit) prog" where
  "save_analysis opened d pcts =
     do_then get_self (\<lambda>self. seqs
       ([lib opened,
         emit (WriteFile ''data/analysis/CA13_demographic_analysis.txt''),
         emit (WriteLine ''CA-13 Congressional District Demographic Analysis'' []),
         emit (WriteLine (replicate 50 CHR ''='') []),
         emit (WriteLine ''Population Statistics:'' []),
         emit (WriteLine (replicate 20 CHR ''-'') []),
         write_f ''{}: {:,.0f}'' [VStr ''Total Population''] (dm_population d),
         write_f ''{}: {:,.0f}'' [VStr ''Citizen Voting Age Population''] (dm_cvap d),
         write_f ''{}: {:,.0f}'' [VStr ''Hispanic CVAP''] (dm_hispanic d),
         write_f ''{}: {:,.0f}'' [VStr ''Black (Non-Hispanic) CVAP''] (dm_black d),
         write_f ''{}: {:,.0f}'' [VStr ''Asian (Non-Hispanic) CVAP''] (dm_asian d),
         write_f ''{}: {:,.0f}'' [VStr ''White (Non-Hispanic) CVAP''] (dm_white d),
         emit (WriteLine ''CVAP Demographic Percentages:'' []),
         emit (WriteLine (replicate 20 CHR ''-'') [])]
        @ map (\<lambda>(grp, pct). write_f ''{}: {:.1f}%'' [VStr grp] pct) pcts
        @ [emit (WriteLine ''District Properties:'' []),
           emit (WriteLine (replicate 20 CHR ''-'') []),
           do_then (lib (case da_district_data self of
                           None \<Rightarrow> Inl (Exn ''TypeError'' ''NoneType object is not subscriptable'')
                         | Some df \<Rightarrow> first_cell df ''IDEAL_VALU''))
             (write_f ''Ideal Value: {:,.0f}'' []),
           do_then (lib (case da_district_data self of
                           None \<Rightarrow> Inl (Exn ''TypeError'' ''NoneType object is not subscriptable'')
                         | Some df \<Rightarrow> first_cell df ''DEVIATION''))
             (write_f ''Deviation: {:,.0f}'' []),
           do_then (lib (case da_district_data self of
                           None \<Rightarrow> Inl (Exn ''TypeError'' ''NoneType object is not subscriptable'')
                         | Some df \<Rightarrow> first_cell df ''F_DEVIATIO''))
             (write_f ''Deviation Percentage: {:.2f}%'' []),
           emit (Print ''Saved detailed analysis to: {}''
                   [VStr ''data/analysis/CA13_demographic_analysis.txt''])]))"

text \<open>\<open>analyze_demographics\<close> (lines 27-65).  Nothing is caught.\<close>

definition analyze_demographics ::
  "plot_answers \<Rightarrow> (exn + unit) \<Rightarrow> (CA13DemographicAnalyzer, unit) prog" where
  "analyze_demographics plotted opened =
     do_then get_self (\<lambda>self.
       case da_district_data self of
         None \<Rightarrow> emit (Print ''No data loaded'' [])
       | Some df \<Rightarrow>
           do_then (lib (extract_demographics df)) (\<lambda>d.
           do_then (lib (demographic_pcts d)) (\<lambda>pcts. seqs
             ([emit (Print ''CA-13 Demographic Analysis'' []),
               emit (Print (replicate 50 CHR ''='') []),
               print_f ''Total Population: {:,.0f}'' [] (dm_population d),
               print_f ''Citizen Voting Age Population: {:,.0f}'' [] (dm_cvap d),
               emit (Print ''CVAP Demographic Breakdown:'' [])]
              @ map (\<lambda>(grp, pct). print_f ''{}: {:.1f}%'' [VStr grp] pct) pcts
              @ [create_demographic_plots plotted pcts,
                 save_analysis opened d pcts]))))"

text \<open>The entry point (lines 122-128).\<close>

definition CA13DemographicAnalyzer_main ::
  "(exn + unit) \<Rightarrow> files \<Rightarrow> plot_answers \<Rightarrow> (exn + unit) \<Rightarrow> nat \<times> event list" where
  "CA13DemographicAnalyzer_main made fs plotted opened =
     run_script
       (do_then (CA13DemographicAnalyzer_init made) (\<lambda>_.
        do_then (emit (Print ''Entry'' [])) (\<lambda>_.
        do_then (CA13DemographicAnalyzer_load_data fs) (\<lambda>ok.
          if truthy ok then analyze_demographics plotted opened
          else emit (Print
            ''Failed to load data. Please ensure the processed data file exists.'' [])))))
       \<lparr>da_district_data = None\<rparr>"

text \<open>The columns \<open>analyze_demographics\<close> reads before it prints anything.\<close>

definition required_columns :: "string list" where
  "required_columns =
     [''POPULATION'', ''CVAP_19'', ''HSP_CVAP_1'', ''DOJ_NH_BLK'', ''DOJ_NH_ASN'',
      ''NH_WHT_CVA'']"


section \<open>src/models/data-collection.py\<close>

text \<open>
  An HTTP response as the scripts use it: the status code, the body as text, and the answer
  of \<open>response.json()\<close>.  \<open>raise_for_status\<close> raises for the codes 400 to 599.
\<close>

record response =
  status_code :: int
  body_text :: string
  body_json :: "exn + pyval"

definition raise_for_status :: "response \<Rightarrow> exn + unit" where
  "raise_for_status r =
     (if 400 \<le> status_code r \<and> status_code r < 600
      then Inl (Exn ''HTTPError'' ''Client or Server Error'') else Inr ())"

text \<open>The comparisons \<open>cell == 'CALIFORNIA'\<close> and \<open>cell == 13\<close> of a Series with a constant.\<close>

fun eq_str :: "string \<Rightarrow> pyval \<Rightarrow> bool" where
  "eq_str c (VStr s) = (s = c)"
| "eq_str c _ = False"

definition eq_num :: "real \<Rightarrow> pyval \<Rightarrow> bool" where
  "eq_num c v = (fl v = Some (VNum c))"

text \<open>The rows of California's district 13 (lines 22-25).\<close>

definition ca13_rows :: "frame \<Rightarrow> exn + frame" where
  "ca13_rows df =
     and_then (frame_col df ''state'') (\<lambda>state.
     and_then (frame_col df ''district'') (\<lambda>district.
       Inr (frame_filter
              (map2 (\<and>) (map (eq_str ''CALIFORNIA'') state) (map (eq_num 13) district)) df)))"

text \<open>The two share columns (lines 28-33).\<close>

definition add_vote_shares :: "frame \<Rightarrow> exn + frame" where
  "add_vote_shares ca13_data =
     and_then (frame_col ca13_data ''democratic_votes'') (\<lambda>dv.
     and_then (frame_col ca13_data ''total_votes'') (\<lambda>tv.
     and_then (series_op fdiv dv tv) (\<lambda>q.
     and_then (series_op_scalar fmul q (VInt 100)) (\<lambda>dshare.
     let ca13_data = frame_assign ''democratic_vote_share'' dshare ca13_data in
     and_then (frame_col ca13_data ''republican_votes'') (\<lambda>rv.
     and_then (frame_col ca13_data ''total_votes'') (\<lambda>tv.
     and_then (series_op fdiv rv tv) (\<lambda>q.
     and_then (series_op_scalar fmul q (VInt 100)) (\<lambda>rshare.
       Inr (frame_assign ''republican_vote_share'' rshare ca13_data)))))))))"

text \<open>
  \<open>get_election_data\<close> (lines 5-40).  \<open>got\<close> is the answer of \<open>requests.get(url)\<close> and
  \<open>read_csv\<close> is \<open>pd.read_csv\<close> on the text of the body.  The function returns the table or
  \<open>None\<close>.
\<close>

definition get_election_data ::
  "(exn + response) \<Rightarrow> (string \<Rightarrow> exn + frame) \<Rightarrow> (unit, frame option) prog" where
  "get_election_data got read_csv =
     do_then (emit (Print ''Downloading election data...'' [])) (\<lambda>_.
     try_except
       (do_then (emit (HttpGet
          ''https://raw.githubusercontent.com/MEDSL/2018-2022-house-elections-results/main/2020_house_precinct_election_results.csv''
          [])) (\<lambda>_.
        do_then (lib got) (\<lambda>response.
        do_then (lib (raise_for_status response)) (\<lambda>_.
        do_then (lib (read_csv (body_text response))) (\<lambda>df.
        do_then (lib (ca13_rows df)) (\<lambda>ca13_data.
        do_then (lib (add_vote_shares ca13_data)) (\<lambda>ca13_data.
        do_then (emit (Print ''Election data downloaded successfully'' [])) (\<lambda>_.
        ret (Some ca13_data)))))))))
       (\<lambda>e. do_then (emit (Print ''Error downloading election data: {}'' [VStr (exn_str e)]))
          (\<lambda>_. ret None)))"


section \<open>src/financial/fec-data-fetcher.py\<close>

text \<open>
  \<open>FECDataFetcher\<close> keeps the key it was constructed with; the base URL and the data
  directory are constants.  The constructor creates the data directory (\<open>made\<close> is the
  answer of \<open>mkdir\<close>, whose exception propagates).
\<close>

record FECDataFetcher =
  api_key :: string

definition base_url :: string where
  "base_url = ''https://api.open.fec.gov/v1''"

definition FECDataFetcher_init :: "(exn + unit) \<Rightarrow> string \<Rightarrow> FECDataFetcher outcome \<times> event list" where
  "FECDataFetcher_init made key =
     (case made of
        Inl e \<Rightarrow> (Raises e, [])
      | Inr _ \<Rightarrow> (Returns \<lparr>api_key = key\<rparr>, [Mkdir ''data/campaign_finance'']))"

text \<open>
  The entry point (lines 136-143) binds \<open>API_KEY\<close> to a string literal of forty characters
  and constructs the fetcher with it.  The characters of that credential are not repeated
  here; nothing below depends on them.
\<close>

definition API_KEY :: string where
  "API_KEY = replicate 40 CHR ''*''"

text \<open>
  The network: \<open>requests.get(url, params=params)\<close> answers with a response or raises.
  \<open>fec_saved\<close> is the answer of writing the raw candidate file.
\<close>

record fec_env =
  fec_get :: "string \<Rightarrow> (string \<times> pyval) list \<Rightarrow> exn + response"
  fec_saved :: "exn + unit"

text \<open>
  \<open>d[k]\<close>, \<open>d.get(k)\<close> and iteration on the objects \<open>response.json()\<close> returns.
\<close>

fun py_getitem :: "pyval \<Rightarrow> string \<Rightarrow> exn + pyval" where
  "py_getitem (VDict kvs) k =
     (case map_of kvs k of None \<Rightarrow> Inl (Exn ''KeyError'' k) | Some v \<Rightarrow> Inr v)"
| "py_getitem _ k = Inl (Exn ''TypeError'' ''object is not subscriptable with a string'')"

fun py_get :: "pyval \<Rightarrow> string \<Rightarrow> exn + pyval" where
  "py_get (VDict kvs) k = (case map_of kvs k of None \<Rightarrow> Inr VNone | Some v \<Rightarrow> Inr v)"
| "py_get _ k = Inl (Exn ''AttributeError'' ''object has no attribute get'')"

fun py_iter :: "pyval \<Rightarrow> exn + pyval list" where
  "py_iter (VList xs) = Inr xs"
| "py_iter (VDict kvs) = Inr (map (\<lambda>kv. VStr (fst kv)) kvs)"
| "py_iter (VStr t) = Inr (map (\<lambda>ch. VStr [ch]) t)"
| "py_iter _ = Inl (Exn ''TypeError'' ''object is not iterable'')"

text \<open>The body of the loop that prints one candidate (lines 62-66).\<close>

definition print_candidate :: "pyval \<Rightarrow> ('s, unit) prog" where
  "print_candidate candidate =
     do_then (lib (py_get candidate ''name'')) (\<lambda>nm.
     do_then (emit (Print ''Name: {}'' [nm])) (\<lambda>_.
     do_then (lib (py_get candidate ''party'')) (\<lambda>pty.
     do_then (emit (Print ''Party: {}'' [pty])) (\<lambda>_.
     do_then (lib (py_get candidate ''candidate_id'')) (\<lambda>cid.
     do_then (emit (Print ''Candidate ID: {}'' [cid])) (\<lambda>_.
     emit (Print (replicate 50 CHR ''-'') [])))))))"

definition candidates_params :: "FECDataFetcher \<Rightarrow> (string \<times> pyval) list" where
  "candidates_params self =
     [(''api_key'', VStr (api_key self)), (''state'', VStr ''CA''), (''district'', VStr ''13''),
      (''election_year'', VInt 2024), (''per_page'', VInt 100)]"

text \<open>\<open>fetch_ca13_candidates\<close> (lines 38-76).\<close>

definition fetch_ca13_candidates :: "fec_env \<Rightarrow> (FECDataFetcher, pyval) prog" where
  "fetch_ca13_candidates env =
     try_except
       (do_then get_self (\<lambda>self.
        do_then (emit (Print ''Fetching CA-13 candidates...'' [])) (\<lambda>_.
        do_then (emit (HttpGet (base_url @ ''/candidates/search'') (candidates_params self))) (\<lambda>_.
        do_then (lib (fec_get env (base_url @ ''/candidates/search'') (candidates_params self)))
          (\<lambda>response.
        if status_code response = 200 then
          do_then (lib (body_json response)) (\<lambda>data.
          do_then (lib (fec_saved env)) (\<lambda>_.
          do_then (emit (WriteFile ''data/campaign_finance/ca13_candidates_raw.json'')) (\<lambda>_.
          do_then (emit (Print ''Found Candidates:'' [])) (\<lambda>_.
          do_then (emit (Print (replicate 50 CHR ''-'') [])) (\<lambda>_.
          do_then (lib (py_getitem data ''results'')) (\<lambda>results.
          do_then (lib (py_iter results)) (\<lambda>candidates.
          do_then (seqs (map print_candidate candidates)) (\<lambda>_.
          lib (py_getitem data ''results'')))))))))
        else
          do_then (emit (Print ''Error fetching candidates: {}'' [VInt (status_code response)]))
            (\<lambda>_.
          do_then (emit (Print ''{}'' [VStr (body_text response)])) (\<lambda>_.
          ret VNone)))))))
       (\<lambda>e. do_then (emit (Print ''Error: {}'' [VStr (exn_str e)])) (\<lambda>_. ret VNone))"

definition financials_params :: "FECDataFetcher \<Rightarrow> string \<Rightarrow> (string \<times> pyval) list" where
  "financials_params self candidate_id =
     [(''api_key'', VStr (api_key self)), (''candidate_id'', VStr candidate_id),
      (''per_page'', VInt 100)]"

text \<open>\<open>fetch_candidate_financials\<close> (lines 78-97).\<close>

definition fetch_candidate_financials :: "fec_env \<Rightarrow> string \<Rightarrow> (FECDataFetcher, pyval) prog" where
  "fetch_candidate_financials env candidate_id =
     try_except
       (do_then get_self (\<lambda>self.
        do_then (emit (HttpGet (base_url @ ''/candidate/'' @ candidate_id @ ''/totals'')
                         (financials_params self candidate_id))) (\<lambda>_.
        do_then (lib (fec_get env (base_url @ ''/candidate/'' @ candidate_id @ ''/totals'')
                        (financials_params self candidate_id))) (\<lambda>response.
        if status_code response = 200 then
          do_then (lib (body_json response)) (\<lambda>data.
          lib (py_getitem data ''results''))
        else
          do_then (emit (Print ''Error fetching financials for candidate {}: {}''
                           [VStr candidate_id, VInt (status_code response)])) (\<lambda>_.
          ret VNone)))))
       (\<lambda>e. do_then (emit (Print ''Error: {}'' [VStr (exn_str e)])) (\<lambda>_. ret VNone))"


section \<open>src/models: the scripts that fit an estimator\<close>













subsection \<open>data-collection-fec.py\<close>




subsection \<open>congressional-model-v3.py\<close>





subsection \<open>congressional-model-v4.py\<close>







subsection \<open>congressional-model-v1.py\<close>











subsection \<open>election-prediction-2024.py\<close>






subsection \<open>turnout-prediction-2024.py\<close>





subsection \<open>presidential-prediction-2024.py\<close>






subsection \<open>electoral-strategy-model.py\<close>


record precinct_data =
  precinct_id :: "int list"
  dem_vote_share :: "real list"
  pd_turnout_rate :: "real list"
  median_income :: "real list"
  college_edu_rate :: "real list"
  pd_unemployment_rate :: "real list"
  turnout_shift :: "real list"
  performance_improved :: "real list"








section \<open>src/financial/ca13-finance-analyzer.py\<close>

text \<open>
  \<open>CA13FinanceAnalyzer\<close>.  The attribute \<open>data\<close> exists only once \<open>load_data\<close> has assigned
  it: \<open>fa_data = None\<close> is the object without that attribute.
\<close>

record CA13FinanceAnalyzer =
  fa_data :: "pyval option"

text \<open>
  \<open>load_data\<close> (lines 15-23).  \<open>loaded\<close> is the answer of
  \<open>open(...)\<close> followed by \<open>json.load(f)\<close>.  The \<open>try\<close> body has no \<open>return\<close>: on success
  the method falls off its end and returns \<open>None\<close>.
\<close>

definition CA13FinanceAnalyzer_load_data ::
  "(exn + pyval) \<Rightarrow> CA13FinanceAnalyzer \<Rightarrow> pyval \<times> CA13FinanceAnalyzer \<times> event list" where
  "CA13FinanceAnalyzer_load_data loaded self =
     (case loaded of
        Inr d \<Rightarrow>
          (VNone, self\<lparr>fa_data := Some d\<rparr>,
           [Print ''Successfully loaded campaign finance data'' []])
      | Inl e \<Rightarrow>
          (VBool False, self,
           [Print ''Error loading data: {}'' [VStr (exn_str e)]]))"

text \<open>
  \<open>__init__\<close> (lines 9-13): two path attributes (not modelled, they never change), the
  creation of the visualization directory, whose failure propagates, and a call of
  \<open>load_data\<close> as a statement: its return value is dropped.
\<close>

definition CA13FinanceAnalyzer_init ::
  "(exn + unit) \<Rightarrow> (exn + pyval) \<Rightarrow> CA13FinanceAnalyzer outcome \<times> event list" where
  "CA13FinanceAnalyzer_init mkdir loaded =
     (case mkdir of
        Inl e \<Rightarrow> (Raises e, [])
      | Inr _ \<Rightarrow>
          (case CA13FinanceAnalyzer_load_data loaded \<lparr>fa_data = None\<rparr> of
             (_, self, out) \<Rightarrow> (Returns self, Mkdir ''data/visualizations'' # out)))"

text \<open>
  One entry of \<open>self.data['candidates']\<close>, as \<open>fetch_and_save_all_data\<close> writes it:
  \<open>financial_data\<close> is the list the FEC totals endpoint returned (dictionaries from field
  names to numbers) and \<open>candidate_info\<close> the candidate's record; either key may be
  absent (\<open>None\<close>).
\<close>

record candidate_entry =
  financial_data :: "(string \<rightharpoonup> real) list option"
  candidate_info :: "(string \<rightharpoonup> string) option"

record summary =
  name :: string
  party :: string
  receipts :: real
  disbursements :: real
  cash_on_hand :: real
  individual_contributions :: real
  pac_contributions :: real
  operating_expenditures :: real

text \<open>\<open>d.get(k, default)\<close>.\<close>

definition dict_get :: "('k \<rightharpoonup> 'v) \<Rightarrow> 'k \<Rightarrow> 'v \<Rightarrow> 'v" where
  "dict_get d k dflt = (case d k of None \<Rightarrow> dflt | Some v \<Rightarrow> v)"

text \<open>
  The body of the loop of \<open>prepare_financial_summary\<close> (lines 29-43).
  \<open>info.get('financial_data', [{}])[0]\<close> raises \<open>IndexError\<close> on an empty list.
\<close>

definition summary_of :: "string \<Rightarrow> candidate_entry \<Rightarrow> exn + summary" where
  "summary_of nm info =
     (case (case financial_data info of None \<Rightarrow> [Map.empty] | Some l \<Rightarrow> l) of
        [] \<Rightarrow> Inl (Exn ''IndexError'' ''list index out of range'')
      | fd # _ \<Rightarrow>
          (let ci = (case candidate_info info of None \<Rightarrow> Map.empty | Some c \<Rightarrow> c) in
           Inr \<lparr>name = nm,
                party = dict_get ci ''party'' ''Unknown'',
                receipts = dict_get fd ''receipts'' 0,
                disbursements = dict_get fd ''disbursements'' 0,
                cash_on_hand = dict_get fd ''cash_on_hand_end_period'' 0,
                individual_contributions = dict_get fd ''individual_contributions'' 0,
                pac_contributions = dict_get fd ''pac_contributions'' 0,
                operating_expenditures = dict_get fd ''operating_expenditures'' 0\<rparr>))"

fun prepare_financial_summary :: "(string \<times> candidate_entry) list \<Rightarrow> exn + summary list" where
  "prepare_financial_summary [] = Inr []"
| "prepare_financial_summary ((nm, info) # rest) =
     (case summary_of nm info of
        Inl e \<Rightarrow> Inl e
      | Inr s \<Rightarrow>
          (case prepare_financial_summary rest of
             Inl e \<Rightarrow> Inl e
           | Inr ss \<Rightarrow> Inr (s # ss)))"

text \<open>
  Line 119: \<open>row['disbursements']/row['receipts']*100 if row['receipts'] > 0 else 0\<close>.
\<close>

definition burn_rate :: "summary \<Rightarrow> exn + real" where
  "burn_rate row =
     (if receipts row > 0
      then (case checked_div (disbursements row) (receipts row) of
              Inl e \<Rightarrow> Inl e
            | Inr q \<Rightarrow> Inr (q * 100))
      else Inr 0)"

text \<open>
  Line 53: \<open>df.sort_values('receipts', ascending=False)\<close>.  A table built from no summary
  at all has no columns, and sorting it by \<open>receipts\<close> raises \<open>KeyError\<close>.
\<close>

definition sort_by_receipts :: "summary list \<Rightarrow> exn + summary list" where
  "sort_by_receipts df =
     (if df = [] then Inl (Exn ''KeyError'' ''receipts'')
      else Inr (sort_key (\<lambda>row. - receipts row) df))"

text \<open>
  The loop over the top fundraisers (lines 113-119): the first three rows of the sorted
  table, each printed with its burn rate.  An exception of the burn-rate expression would
  end the loop and propagate.
\<close>

fun top_fundraisers_loop :: "summary list \<Rightarrow> unit outcome \<times> event list" where
  "top_fundraisers_loop [] = (Returns (), [])"
| "top_fundraisers_loop (row # rest) =
     (case burn_rate row of
        Inl e \<Rightarrow>
          (Raises e,
           [Print ''{} ({}):'' [VStr (name row), VStr (party row)],
            Print ''  Total Raised: ${:,.2f}'' [VNum (receipts row)],
            Print ''  Cash on Hand: ${:,.2f}'' [VNum (cash_on_hand row)]])
      | Inr b \<Rightarrow>
          (case top_fundraisers_loop rest of
             (r, out) \<Rightarrow>
               (r,
                [Print ''{} ({}):'' [VStr (name row), VStr (party row)],
                 Print ''  Total Raised: ${:,.2f}'' [VNum (receipts row)],
                 Print ''  Cash on Hand: ${:,.2f}'' [VNum (cash_on_hand row)],
                 Print ''  Burn Rate: {:.1f}%'' [VNum b]] @ out)))"

definition top_fundraisers :: "summary list \<Rightarrow> unit outcome \<times> event list" where
  "top_fundraisers df_sorted =
     (case top_fundraisers_loop (take 3 df_sorted) of
        (r, out) \<Rightarrow> (r, Print ''Top Fundraisers:'' [] # out))"

section \<open>src/election_analyzer.py\<close>

text \<open>
  \<open>CA13ElectionAnalyzer\<close>.  Only \<open>total_cvap\<close> is read by the methods; the constructor
  sets it to the \<open>int\<close> \<open>393416\<close>.
\<close>

record CA13ElectionAnalyzer =
  total_cvap :: real

definition CA13ElectionAnalyzer_init :: CA13ElectionAnalyzer where
  "CA13ElectionAnalyzer_init = \<lparr>total_cvap = 393416\<rparr>"

record group_data =
  eligible :: real
  potential_turnout :: real
  turnout_rate :: real

text \<open>
  The dictionary \<open>historical_turnout\<close> (lines 27-32), in insertion order.  A decimal
  literal denotes the double nearest to it.
\<close>

definition historical_turnout :: "(string \<times> real) list" where
  "historical_turnout =
     [(''Hispanic'', dbl 0.54), (''Black'', dbl 0.63), (''Asian'', dbl 0.59),
      (''White'', dbl 0.71)]"

text \<open>
  The \<open>if\<close>/\<open>elif\<close> chain of lines 40-47 has no \<open>else\<close>: for another group the variable
  \<open>pct\<close> keeps the value of the iteration before (\<open>None\<close>: not yet bound).
\<close>

definition group_pct :: "string \<Rightarrow> real option \<Rightarrow> real option" where
  "group_pct grp prev =
     (if grp = ''Hispanic'' then Some (dbl 0.502)
      else if grp = ''Black'' then Some (dbl 0.041)
      else if grp = ''Asian'' then Some (dbl 0.062)
      else if grp = ''White'' then Some (dbl 0.371)
      else prev)"

text \<open>
  The loop of lines 38-56, with the local variables \<open>pct\<close>, \<open>demographic_voters\<close> and
  \<open>total_potential_voters\<close> as accumulators.  Line 49 multiplies the \<open>int\<close> \<open>total_cvap\<close>
  by a float, lines 50 and 56 multiply and add floats (the first addition is to the
  \<open>int\<close> \<open>0\<close>).
\<close>

fun voter_loop ::
  "real \<Rightarrow> (string \<times> real) list \<Rightarrow> real option \<Rightarrow> (string \<times> group_data) list \<Rightarrow> real \<Rightarrow>
     exn + ((string \<times> group_data) list \<times> real)" where
  "voter_loop cvap [] pct demographic_voters total_potential_voters =
     Inr (demographic_voters, total_potential_voters)"
| "voter_loop cvap ((grp, rate) # rest) pct demographic_voters total_potential_voters =
     (case group_pct grp pct of
        None \<Rightarrow> Inl (Exn ''UnboundLocalError'' ''pct'')
      | Some p \<Rightarrow>
          (let eligible_voters = dmul (dbl cvap) p;
               potential_voters = dmul eligible_voters rate
           in voter_loop cvap rest (Some p)
                (AList.update grp
                   \<lparr>eligible = eligible_voters, potential_turnout = potential_voters,
                    turnout_rate = rate\<rparr> demographic_voters)
                (dadd total_potential_voters potential_voters)))"

definition print_num :: "string \<Rightarrow> exn + real \<Rightarrow> ('s, unit) prog" where
  "print_num t r = do_then (lib r) (\<lambda>v. emit (Print t [VNum v]))"

definition write_num :: "string \<Rightarrow> exn + real \<Rightarrow> ('s, unit) prog" where
  "write_num t r = do_then (lib r) (\<lambda>v. emit (WriteLine t [VNum v]))"

text \<open>
  The body of the loop of \<open>create_turnout_analysis\<close> (lines 71-76).  The values of the
  dictionary and the total are floats, as \<open>analyze_voter_potential\<close> passes them.
\<close>

definition print_group :: "real \<Rightarrow> string \<times> group_data \<Rightarrow> ('s, unit) prog" where
  "print_group total_potential_voters = (\<lambda>(grp, data). seqs
     [emit (Print ''{}:'' [VStr grp]),
      emit (Print ''  Eligible Voters: {:,.0f}'' [VNum (eligible data)]),
      emit (Print ''  Expected Turnout: {:,.0f}'' [VNum (potential_turnout data)]),
      emit (Print ''  Historical Turnout Rate: {:.1f}%''
              [VNum (dmul (turnout_rate data) 100)]),
      print_num ''  % of Total Expected Turnout: {:.1f}%''
        (pct_of (potential_turnout data) total_potential_voters)])"

text \<open>The body of the loop of \<open>save_turnout_analysis\<close> (lines 130-135).\<close>

definition write_group :: "real \<Rightarrow> string \<times> group_data \<Rightarrow> ('s, unit) prog" where
  "write_group total_potential_voters = (\<lambda>(grp, data). seqs
     [emit (WriteLine ''{}:'' [VStr grp]),
      emit (WriteLine ''  Eligible Voters: {:,.0f}'' [VNum (eligible data)]),
      emit (WriteLine ''  Expected Turnout: {:,.0f}'' [VNum (potential_turnout data)]),
      emit (WriteLine ''  Historical Turnout Rate: {:.1f}%''
              [VNum (dmul (turnout_rate data) 100)]),
      write_num ''  % of Total Expected Turnout: {:.1f}%''
        (pct_of (potential_turnout data) total_potential_voters)])"

text \<open>\<open>create_turnout_analysis\<close> (lines 62-76).\<close>

definition create_turnout_analysis ::
  "(string \<times> group_data) list \<Rightarrow> real \<Rightarrow> (CA13ElectionAnalyzer, unit) prog" where
  "create_turnout_analysis demographic_voters total_potential_voters =
     do_then get_self (\<lambda>self. seqs
       ([emit (Print ''Potential Voter Turnout Analysis:'' []),
         emit (Print (replicate 50 CHR ''-'') []),
         emit (Print ''Total CVAP: {:,.0f}'' [VNum (total_cvap self)]),
         emit (Print ''Estimated Total Turnout: {:,.0f}'' [VNum total_potential_voters]),
         print_num ''Estimated Turnout Rate: {:.1f}%''
           (pct_of total_potential_voters (dbl (total_cvap self))),
         emit (Print ''Breakdown by Demographic:'' [])]
        @ map (print_group total_potential_voters) demographic_voters))"

text \<open>
  \<open>create_turnout_visualizations\<close> (lines 78-114) only calls the plotting library on the
  eligible, expected and rate figures, saves the figure, prints where, and shows it.
\<close>

definition create_turnout_visualizations ::
  "plot_answers \<Rightarrow> (string \<times> group_data) list \<Rightarrow> (CA13ElectionAnalyzer, unit) prog" where
  "create_turnout_visualizations plotted demographic_voters =
     seqs
       [lib (fst plotted),
        emit (Plot ''data/analysis/CA13_turnout_analysis.png''),
        emit (Print ''Saved turnout visualizations to: {}''
                [VStr ''data/analysis/CA13_turnout_analysis.png'']),
        lib (snd plotted)]"

text \<open>
  \<open>save_turnout_analysis\<close> (lines 116-137); \<open>opened\<close> is the answer of \<open>open(.., 'w')\<close>.
\<close>

definition save_turnout_analysis ::
  "(exn + unit) \<Rightarrow> (string \<times> group_data) list \<Rightarrow> real \<Rightarrow> (CA13ElectionAnalyzer, unit) prog" where
  "save_turnout_analysis opened demographic_voters total_potential_voters =
     do_then get_self (\<lambda>self. seqs
       ([lib opened,
         emit (WriteFile ''data/analysis/CA13_turnout_analysis.txt''),
         emit (WriteLine ''CA-13 Congressional District Turnout Analysis'' []),
         emit (WriteLine (replicate 50 CHR ''='') []),
         emit (WriteLine ''Total CVAP: {:,.0f}'' [VNum (total_cvap self)]),
         emit (WriteLine ''Estimated Total Turnout: {:,.0f}'' [VNum total_potential_voters]),
         write_num ''Estimated Turnout Rate: {:.1f}%''
           (pct_of total_potential_voters (dbl (total_cvap self))),
         emit (WriteLine ''Demographic Breakdown:'' []),
         emit (WriteLine (replicate 20 CHR ''-'') [])]
        @ map (write_group total_potential_voters) demographic_voters
        @ [emit (Print ''Saved detailed turnout analysis to: {}''
                   [VStr ''data/analysis/CA13_turnout_analysis.txt''])]))"

text \<open>
  \<open>analyze_voter_potential\<close> (lines 16-60).  \<open>read_text\<close> is the answer of opening and
  reading the demographic report, whose text is not used afterwards.  Nothing is caught.
\<close>

definition analyze_voter_potential ::
  "(exn + string) \<Rightarrow> plot_answers \<Rightarrow> (exn + unit) \<Rightarrow> (CA13ElectionAnalyzer, unit) prog" where
  "analyze_voter_potential read_text plotted opened =
     do_then (lib read_text) (\<lambda>demographic_text.
     do_then (emit (Print ''CA-13 Voter Analysis'' [])) (\<lambda>_.
     do_then (emit (Print (replicate 50 CHR ''='') [])) (\<lambda>_.
     do_then get_self (\<lambda>self.
     do_then (lib (voter_loop (total_cvap self) historical_turnout None [] 0))
       (\<lambda>(demographic_voters, total_potential_voters). seqs
          [create_turnout_analysis demographic_voters total_potential_voters,
           create_turnout_visualizations plotted demographic_voters,
           save_turnout_analysis opened demographic_voters total_potential_voters])))))"

text \<open>
  The figures a run has printed under \<open>% of Total Expected Turnout\<close>, in order.
\<close>

fun share_figures :: "event list \<Rightarrow> real list" where
  "share_figures [] = []"
| "share_figures (Print t [VNum v] # es) =
     (if t = ''  % of Total Expected Turnout: {:.1f}%'' then v # share_figures es
      else share_figures es)"
| "share_figures (_ # es) = share_figures es"


section \<open>Vocabulary of the statements\<close>

text \<open>What one round of the printing loop prints when the total is not zero.\<close>

definition group_lines :: "real \<Rightarrow> string \<times> group_data \<Rightarrow> event list" where
  "group_lines tot = (\<lambda>(grp, data).
     [Print ''{}:'' [VStr grp],
      Print ''  Eligible Voters: {:,.0f}'' [VNum (eligible data)],
      Print ''  Expected Turnout: {:,.0f}'' [VNum (potential_turnout data)],
      Print ''  Historical Turnout Rate: {:.1f}%'' [VNum (dmul (turnout_rate data) 100)],
      Print ''  % of Total Expected Turnout: {:.1f}%''
        [VNum (dmul (dbl (potential_turnout data / tot)) 100)]])"

text \<open>
  The relative error of one rounding is at most \<open>2 ^ -53\<close>: the factors by which a
  positive result can be smaller or greater than the exact one.
\<close>

abbreviation (input) rel_lo :: real where
  "rel_lo \<equiv> 1 - 1 / 2 ^ 53"

abbreviation (input) rel_hi :: real where
  "rel_hi \<equiv> 1 + 1 / 2 ^ 53"

text \<open>
  What the loop of \<open>analyze_voter_potential\<close> computes from \<open>total_cvap = c\<close>: the
  potential turnout of a group with share \<open>k\<close> and rate \<open>r\<close>, and the running total.
\<close>

abbreviation (input) group_potential :: "real \<Rightarrow> real \<Rightarrow> real \<Rightarrow> real" where
  "group_potential c k r \<equiv> dmul (dmul (dbl c) (dbl k)) (dbl r)"

abbreviation (input) running_total :: "real \<Rightarrow> real" where
  "running_total c \<equiv>
     dadd (dadd (dadd (dadd 0 (group_potential c 0.502 0.54)) (group_potential c 0.041 0.63))
       (group_potential c 0.062 0.59)) (group_potential c 0.371 0.71)"







text \<open>
  A share column \<open>sh\<close> is, row by row, the votes divided by the total and multiplied by 100
  as numpy computes it.
\<close>

definition shares_ok :: "series \<Rightarrow> series \<Rightarrow> series \<Rightarrow> bool" where
  "shares_ok votes tot sh \<longleftrightarrow>
     length sh = min (length votes) (length tot)
     \<and> (\<forall>i<length sh. np_pct (votes ! i) (tot ! i) = Inr (sh ! i))"

fun is_float :: "pyval \<Rightarrow> bool" where
  "is_float (VNum _) = True"
| "is_float VNaN = True"
| "is_float (VInf _) = True"
| "is_float _ = False"

text \<open>A program none of whose effects satisfies \<open>P\<close>, whatever the attributes.\<close>

definition silent :: "(event \<Rightarrow> bool) \<Rightarrow> ('s, 'a) prog \<Rightarrow> bool" where
  "silent P m \<longleftrightarrow> (\<forall>s. filter P (effects (m s)) = [])"

text \<open>Concrete worlds on which the statements are evaluated.\<close>

definition example_table :: frame where
  "example_table = [(''DISTRICT'', [VInt 12, VInt 13]), (''geometry'', [VStr ''a'', VStr ''b''])]"

definition example_table_unnamed :: frame where
  "example_table_unnamed = [(''ID'', [VInt 12, VInt 13]), (''geometry'', [VStr ''a'', VStr ''b''])]"

definition example_env :: "files \<Rightarrow> processor_env" where
  "example_env fs =
     \<lparr>pe_files = fs, pe_typed = Inr 0, pe_sorted_unique = (\<lambda>_. Inr VNone),
      pe_mkdir = Inr (), pe_to_file = Inr (), pe_plotted = Inr (), pe_shown = Inr (),
      pe_crs = VNone, pe_area_km2 = None\<rparr>"

definition example_fec :: "(exn + response) \<Rightarrow> fec_env" where
  "example_fec answer = \<lparr>fec_get = (\<lambda>url params. answer), fec_saved = Inr ()\<rparr>"

definition example_body :: pyval where
  "example_body = VDict [(''results'', VList [VDict [(''name'', VStr ''A'')]])]"







section \<open>Properties of the finance analyzer\<close>

lemma burn_rate_cases:
  "burn_rate row =
     Inr (if receipts row > 0 then disbursements row / receipts row * 100 else 0)"
  by (simp add: burn_rate_def checked_div_def)

lemma top_fundraisers_loop_returns: "fst (top_fundraisers_loop rows) = Returns ()"
  by (induction rows) (auto simp: burn_rate_cases split: prod.splits)

lemma top_fundraisers_returns: "fst (top_fundraisers df_sorted) = Returns ()"
  using top_fundraisers_loop_returns [of "take 3 df_sorted"]
  by (auto simp: top_fundraisers_def split: prod.splits)

lemma summary_of_defaults:
  "summary_of nm \<lparr>financial_data = None, candidate_info = ci\<rparr> = Inr s \<Longrightarrow>
     receipts s = 0 \<and> disbursements s = 0"
  by (auto simp: summary_of_def dict_get_def Let_def)

text \<open>
  C9.  \<open>CA13FinanceAnalyzer.load_data\<close> returns \<open>False\<close> when opening or parsing the JSON
  file raises, and \<open>None\<close> when it succeeds; whatever the file does, the returned value is
  not \<open>True\<close> and is falsy.  The constructor drops that value: when it returns after a
  failed load, the object it has built has no \<open>data\<close> attribute, and after a successful
  load the attribute holds the parsed document.
\<close>

theorem C9_load_data_return_falsy:
  "fst (CA13FinanceAnalyzer_load_data (Inl e) self) = VBool False
   \<and> fst (CA13FinanceAnalyzer_load_data (Inr d) self) = VNone
   \<and> fst (CA13FinanceAnalyzer_load_data loaded self) \<noteq> VBool True
   \<and> \<not> truthy (fst (CA13FinanceAnalyzer_load_data loaded self))
   \<and> fa_data (fst (snd (CA13FinanceAnalyzer_load_data (Inl e) self))) = fa_data self
   \<and> fst (CA13FinanceAnalyzer_init (Inr ()) (Inl e)) = Returns \<lparr>fa_data = None\<rparr>
   \<and> fst (CA13FinanceAnalyzer_init (Inr ()) (Inr d)) = Returns \<lparr>fa_data = Some d\<rparr>"
  by (cases loaded) (simp_all add: CA13FinanceAnalyzer_load_data_def CA13FinanceAnalyzer_init_def)

text \<open>
  C10.  The burn-rate expression of \<open>analyze_campaign_finances\<close> divides only when
  \<open>receipts > 0\<close> and is \<open>0\<close> otherwise: for every row it yields a number and never the
  division-by-zero error, so whenever the table has a row (the sort of line 53 succeeds)
  the loop over the top fundraisers runs to its end; a row built from an entry without
  financial data (every field defaulted to \<open>0\<close>) has burn rate \<open>0\<close>.
\<close>

theorem C10_burn_rate_never_divides_by_zero:
  "burn_rate row =
     Inr (if receipts row > 0 then disbursements row / receipts row * 100 else 0)
   \<and> (\<forall>e. burn_rate row \<noteq> Inl e)
   \<and> (df \<noteq> [] \<longrightarrow>
        (\<exists>df_sorted. sort_by_receipts df = Inr df_sorted
           \<and> fst (top_fundraisers df_sorted) = Returns ()))
   \<and> (summary_of nm \<lparr>financial_data = None, candidate_info = ci\<rparr> = Inr s
        \<longrightarrow> burn_rate s = Inr 0)"
proof -
  have a: "burn_rate row =
     Inr (if receipts row > 0 then disbursements row / receipts row * 100 else 0)"
    by (rule burn_rate_cases)
  have b: "\<forall>e. burn_rate row \<noteq> Inl e"
    by (simp add: burn_rate_cases)
  have c: "df \<noteq> [] \<longrightarrow>
        (\<exists>df_sorted. sort_by_receipts df = Inr df_sorted
           \<and> fst (top_fundraisers df_sorted) = Returns ())"
    by (simp add: sort_by_receipts_def top_fundraisers_returns)
  have d: "summary_of nm \<lparr>financial_data = None, candidate_info = ci\<rparr> = Inr s
        \<longrightarrow> burn_rate s = Inr 0"
    using summary_of_defaults [of nm ci s] by (simp add: burn_rate_cases)
  from a b c d show ?thesis by blast
qed

theorem C10_burn_rate_witness:
  "burn_rate \<lparr>name = ''A'', party = ''DEM'', receipts = 0, disbursements = 500,
        cash_on_hand = 0, individual_contributions = 0, pac_contributions = 0,
        operating_expenditures = 0\<rparr> = Inr 0
   \<and> burn_rate \<lparr>name = ''B'', party = ''REP'', receipts = 200, disbursements = 50,
        cash_on_hand = 150, individual_contributions = 0, pac_contributions = 0,
        operating_expenditures = 0\<rparr> = Inr 25
   \<and> (\<exists>df_sorted.
        sort_by_receipts
          [\<lparr>name = ''A'', party = ''DEM'', receipts = 0, disbursements = 500,
            cash_on_hand = 0, individual_contributions = 0, pac_contributions = 0,
            operating_expenditures = 0\<rparr>] = Inr df_sorted
        \<and> fst (top_fundraisers df_sorted) = Returns ())
   \<and> summary_of ''A'' \<lparr>financial_data = None, candidate_info = None\<rparr> =
        Inr \<lparr>name = ''A'', party = ''Unknown'', receipts = 0, disbursements = 0,
          cash_on_hand = 0, individual_contributions = 0, pac_contributions = 0,
          operating_expenditures = 0\<rparr>
   \<and> burn_rate \<lparr>name = ''A'', party = ''Unknown'', receipts = 0, disbursements = 0,
          cash_on_hand = 0, individual_contributions = 0, pac_contributions = 0,
          operating_expenditures = 0\<rparr> = Inr 0"
  using
    C10_burn_rate_never_divides_by_zero
      [of "\<lparr>name = ''A'', party = ''DEM'', receipts = 0, disbursements = 500,
        cash_on_hand = 0, individual_contributions = 0, pac_contributions = 0,
        operating_expenditures = 0\<rparr>"
        "[\<lparr>name = ''A'', party = ''DEM'', receipts = 0, disbursements = 500,
            cash_on_hand = 0, individual_contributions = 0, pac_contributions = 0,
            operating_expenditures = 0\<rparr>]" "''A''" None
        "\<lparr>name = ''A'', party = ''Unknown'', receipts = 0, disbursements = 0,
          cash_on_hand = 0, individual_contributions = 0, pac_contributions = 0,
          operating_expenditures = 0\<rparr>"]
    C10_burn_rate_never_divides_by_zero
      [of "\<lparr>name = ''B'', party = ''REP'', receipts = 200, disbursements = 50,
        cash_on_hand = 150, individual_contributions = 0, pac_contributions = 0,
        operating_expenditures = 0\<rparr>" "[]" "''A''" None
        "\<lparr>name = ''A'', party = ''Unknown'', receipts = 0, disbursements = 0,
          cash_on_hand = 0, individual_contributions = 0, pac_contributions = 0,
          operating_expenditures = 0\<rparr>"]
  by (simp add: summary_of_def dict_get_def)

section \<open>Properties of the election analyzer\<close>

lemmas prog_defs = ret_def raise_def emit_def lib_def get_self_def set_self_def do_then_def
  try_except_def print_num_def write_num_def

lemma seqs_append: "seqs (ms @ ns) = do_then (seqs ms) (\<lambda>_. seqs ns)"
  by (induction ms) (auto simp: prog_defs fun_eq_iff split: prod.splits outcome.splits)

subsection \<open>Rounding\<close>

lemma round_half_even_error: "\<bar>of_int (round_half_even r) - r\<bar> \<le> 1 / 2"
  unfolding round_half_even_def by (auto simp: abs_if) linarith+

lemma round_half_even_eqI: "\<bar>r - of_int n\<bar> < 1 / 2 \<Longrightarrow> round_half_even r = n"
  unfolding round_half_even_def
  by (auto simp: abs_if split: if_splits) linarith+

lemma round_half_even_tieI:
  assumes "\<bar>r - of_int n\<bar> \<le> 1 / 2" and "even n"
  shows "round_half_even r = n"
proof -
  consider "\<bar>r - of_int n\<bar> < 1 / 2" | "r = of_int n + 1 / 2" | "r = of_int n - 1 / 2"
    using assms(1) by argo
  then show ?thesis
  proof cases
    case 1 then show ?thesis by (rule round_half_even_eqI)
  next
    case 2
    then have "\<lfloor>r\<rfloor> = n" by (intro floor_unique) simp_all
    then show ?thesis using 2 assms(2) by (simp add: round_half_even_def)
  next
    case 3
    then have f: "\<lfloor>r\<rfloor> = n - 1" by (intro floor_unique) simp_all
    then show ?thesis using 3 assms(2) by (simp add: round_half_even_def)
  qed
qed

lemma ulp_eqI:
  assumes "2 powi k \<le> \<bar>x\<bar>" "\<bar>x\<bar> < 2 powi (k + 1)"
  shows "ulp x = 2 powi (k - 52)"
proof -
  have pos: "0 < \<bar>x\<bar>"
    using assms(1) by (smt (verit) zero_less_power_int)
  have "\<lfloor>log 2 \<bar>x\<bar>\<rfloor> = k"
    using assms pos powr_real_of_int' [of 2 k] powr_real_of_int' [of 2 "k + 1"]
    by (simp add: floor_log_eq_powr_iff)
  then show ?thesis by (simp add: ulp_def)
qed

lemma ulp_pos: "0 < ulp x"
  by (simp add: ulp_def)

lemma ulp_le: "x \<noteq> 0 \<Longrightarrow> ulp x * 2 ^ 52 \<le> \<bar>x\<bar>"
proof -
  assume x: "x \<noteq> 0"
  define k where "k = \<lfloor>log 2 \<bar>x\<bar>\<rfloor>"
  have "2 powr real_of_int k \<le> \<bar>x\<bar>"
    using x floor_log_eq_powr_iff [of "\<bar>x\<bar>" 2 k] by (simp add: k_def)
  then have "2 powi k \<le> \<bar>x\<bar>"
    by (simp add: powr_real_of_int')
  moreover have "(2::real) powi k = 2 powi (k - 52) * 2 ^ 52"
    by (simp add: power_int_diff)
  ultimately show ?thesis by (simp add: ulp_def k_def)
qed

text \<open>How a rounding is evaluated: the exponent and the significand are given.\<close>

lemma dbl_eval:
  assumes "2 powi k \<le> \<bar>x\<bar>" "\<bar>x\<bar> < 2 powi (k + 1)"
    and "\<bar>\<bar>x\<bar> / 2 powi (k - 52) - of_int n\<bar> < 1 / 2"
    and "y = sgn x * (of_int n * 2 powi (k - 52))"
  shows "dbl x = y"
proof -
  have "x \<noteq> 0" using assms(1) by (smt (verit) zero_less_power_int abs_zero)
  moreover have "ulp x = 2 powi (k - 52)" using assms(1,2) by (rule ulp_eqI)
  moreover have "round_half_even (\<bar>x\<bar> / 2 powi (k - 52)) = n"
    using assms(3) by (rule round_half_even_eqI)
  ultimately show ?thesis using assms(4) by (simp add: dbl_def)
qed

lemma dbl_eval_tie:
  assumes "2 powi k \<le> \<bar>x\<bar>" "\<bar>x\<bar> < 2 powi (k + 1)"
    and "\<bar>\<bar>x\<bar> / 2 powi (k - 52) - of_int n\<bar> \<le> 1 / 2" and "even n"
    and "y = sgn x * (of_int n * 2 powi (k - 52))"
  shows "dbl x = y"
proof -
  have "x \<noteq> 0" using assms(1) by (smt (verit) zero_less_power_int abs_zero)
  moreover have "ulp x = 2 powi (k - 52)" using assms(1,2) by (rule ulp_eqI)
  moreover have "round_half_even (\<bar>x\<bar> / 2 powi (k - 52)) = n"
    using assms(3,4) by (rule round_half_even_tieI)
  ultimately show ?thesis using assms(5) by (simp add: dbl_def)
qed

lemma dbl_minus: "dbl (- x) = - dbl x"
  by (simp add: dbl_def ulp_def)

lemma abs_scale: "0 < (u::real) \<Longrightarrow> \<bar>a * u - b\<bar> = \<bar>a - b / u\<bar> * u"
proof -
  assume u: "0 < u"
  then have "a * u - b = (a - b / u) * u" by (simp add: field_simps)
  then show ?thesis using u by (simp add: abs_mult)
qed

text \<open>One rounding changes a number by at most the fraction \<open>2 ^ -53\<close> of it.\<close>

lemma dbl_error: "\<bar>dbl x - x\<bar> \<le> \<bar>x\<bar> / 2 ^ 53"
proof (cases "x = 0")
  case True then show ?thesis by (simp add: dbl_def)
next
  case False
  let ?u = "ulp x"
  let ?n = "round_half_even (\<bar>x\<bar> / ?u)"
  have u: "0 < ?u" by (rule ulp_pos)
  have "dbl x - x = sgn x * (of_int ?n * ?u - \<bar>x\<bar>)"
    using False by (simp add: dbl_def right_diff_distrib sgn_if)
  then have "\<bar>dbl x - x\<bar> = \<bar>of_int ?n * ?u - \<bar>x\<bar>\<bar>"
    using False by (simp add: abs_mult abs_sgn_eq)
  also have "\<dots> = \<bar>of_int ?n - \<bar>x\<bar> / ?u\<bar> * ?u"
    using u by (rule abs_scale)
  also have "\<dots> \<le> 1 / 2 * ?u"
    using round_half_even_error [of "\<bar>x\<bar> / ?u"] u by (intro mult_right_mono) simp_all
  also have "\<dots> \<le> \<bar>x\<bar> / 2 ^ 53"
    using ulp_le [OF False] by (simp add: field_simps)
  finally show ?thesis .
qed

lemma dbl_bounds:
  assumes "0 < x"
  shows "x * rel_lo \<le> dbl x" and "dbl x \<le> x * rel_hi" and "0 < dbl x"
proof -
  have e: "\<bar>dbl x - x\<bar> \<le> x / 2 ^ 53"
    using dbl_error [of x] assms by simp
  have l: "x * rel_lo = x - x / 2 ^ 53" and r: "x * rel_hi = x + x / 2 ^ 53"
    by (simp_all add: algebra_simps)
  show a: "x * rel_lo \<le> dbl x"
    unfolding l using e by linarith
  show "dbl x \<le> x * rel_hi"
    unfolding r using e by linarith
  have "0 < x * rel_lo" using assms by simp
  then show "0 < dbl x" using a by linarith
qed

lemma dbl_eq_0_iff: "dbl x = 0 \<longleftrightarrow> x = 0"
proof
  assume "dbl x = 0"
  then have "\<bar>x\<bar> \<le> \<bar>x\<bar> / 2 ^ 53" using dbl_error [of x] by simp
  then show "x = 0" by simp
next
  assume "x = 0" then show "dbl x = 0" by (simp add: dbl_def)
qed

lemma dmul_bounds:
  assumes "0 < x" "0 < y"
  shows "x * y * rel_lo \<le> dmul x y" and "dmul x y \<le> x * y * rel_hi" and "0 < dmul x y"
  using dbl_bounds [of "x * y"] assms by (simp_all add: dmul_def)

lemma dadd_bounds:
  assumes "0 \<le> s" "0 < p" "0 < l" "l \<le> 1" "1 \<le> h" "s * l \<le> t" "t \<le> s * h"
  shows "(s + p) * (l * rel_lo) \<le> dadd t p" and "dadd t p \<le> (s + p) * (h * rel_hi)"
    and "0 < dadd t p"
proof -
  have "p * l \<le> p" using assms(2,4) by (simp add: mult_left_le)
  then have a: "(s + p) * l \<le> t + p" using assms(6) by (simp add: algebra_simps)
  have "0 < (s + p) * l" using assms(1,2,3) by simp
  then have tp: "0 < t + p" using a by linarith
  have "p \<le> p * h" using assms(2,5) by simp
  then have b: "t + p \<le> (s + p) * h" using assms(7) by (simp add: algebra_simps)
  have "(s + p) * l * rel_lo \<le> (t + p) * rel_lo"
    using a by (intro mult_right_mono) simp_all
  also have "\<dots> \<le> dadd t p"
    using dbl_bounds(1) [OF tp] by (simp add: dadd_def)
  finally show "(s + p) * (l * rel_lo) \<le> dadd t p" by (simp add: mult.assoc)
  have "dadd t p \<le> (t + p) * rel_hi"
    using dbl_bounds(2) [OF tp] by (simp add: dadd_def)
  also have "\<dots> \<le> (s + p) * h * rel_hi"
    using b by (intro mult_right_mono) simp_all
  finally show "dadd t p \<le> (s + p) * (h * rel_hi)" by (simp add: mult.assoc)
  show "0 < dadd t p" using dbl_bounds(3) [OF tp] by (simp add: dadd_def)
qed

text \<open>The running total of four positive numbers, against their exact sum.\<close>

lemma total_bounds:
  assumes "0 < p1" "0 < p2" "0 < p3" "0 < p4"
  shows "(p1 + p2 + p3 + p4) * (rel_lo * rel_lo * rel_lo * rel_lo)
           \<le> dadd (dadd (dadd (dadd 0 p1) p2) p3) p4"
    and "dadd (dadd (dadd (dadd 0 p1) p2) p3) p4
           \<le> (p1 + p2 + p3 + p4) * (rel_hi * rel_hi * rel_hi * rel_hi)"
    and "0 < dadd (dadd (dadd (dadd 0 p1) p2) p3) p4"
proof -
  have a1: "(0 + p1) * (1 * rel_lo) \<le> dadd 0 p1" "dadd 0 p1 \<le> (0 + p1) * (1 * rel_hi)"
    using dadd_bounds [of 0 p1 1 1 0] assms(1) by simp_all
  have a2: "(0 + p1 + p2) * (1 * rel_lo * rel_lo) \<le> dadd (dadd 0 p1) p2"
     "dadd (dadd 0 p1) p2 \<le> (0 + p1 + p2) * (1 * rel_hi * rel_hi)"
    using dadd_bounds [of "0 + p1" p2 "1 * rel_lo" "1 * rel_hi" "dadd 0 p1"] a1 assms
    by simp_all
  have a3: "(0 + p1 + p2 + p3) * (1 * rel_lo * rel_lo * rel_lo) \<le> dadd (dadd (dadd 0 p1) p2) p3"
     "dadd (dadd (dadd 0 p1) p2) p3 \<le> (0 + p1 + p2 + p3) * (1 * rel_hi * rel_hi * rel_hi)"
    using dadd_bounds [of "0 + p1 + p2" p3 "1 * rel_lo * rel_lo" "1 * rel_hi * rel_hi"
        "dadd (dadd 0 p1) p2"] a2 assms
    by simp_all
  have a4: "(0 + p1 + p2 + p3 + p4) * (1 * rel_lo * rel_lo * rel_lo * rel_lo)
              \<le> dadd (dadd (dadd (dadd 0 p1) p2) p3) p4"
     "dadd (dadd (dadd (dadd 0 p1) p2) p3) p4
        \<le> (0 + p1 + p2 + p3 + p4) * (1 * rel_hi * rel_hi * rel_hi * rel_hi)"
     "0 < dadd (dadd (dadd (dadd 0 p1) p2) p3) p4"
    using dadd_bounds [of "0 + p1 + p2 + p3" p4 "1 * rel_lo * rel_lo * rel_lo"
        "1 * rel_hi * rel_hi * rel_hi" "dadd (dadd (dadd 0 p1) p2) p3"] a3 assms
    by simp_all
  from a4 show "(p1 + p2 + p3 + p4) * (rel_lo * rel_lo * rel_lo * rel_lo)
           \<le> dadd (dadd (dadd (dadd 0 p1) p2) p3) p4"
    and "dadd (dadd (dadd (dadd 0 p1) p2) p3) p4
           \<le> (p1 + p2 + p3 + p4) * (rel_hi * rel_hi * rel_hi * rel_hi)"
    and "0 < dadd (dadd (dadd (dadd 0 p1) p2) p3) p4"
    by simp_all
qed

lemma figure_bounds:
  assumes "0 < p" "0 < T"
  shows "p / T * 100 * (rel_lo * rel_lo) \<le> dmul (dbl (p / T)) 100"
    and "dmul (dbl (p / T)) 100 \<le> p / T * 100 * (rel_hi * rel_hi)"
proof -
  have q: "0 < p / T" using assms by simp
  note b = dbl_bounds [OF q]
  have d: "0 < dbl (p / T)" by (rule b(3))
  note m = dmul_bounds [OF d, of 100]
  have "p / T * 100 * (rel_lo * rel_lo) = p / T * rel_lo * 100 * rel_lo" by simp
  also have "\<dots> \<le> dbl (p / T) * 100 * rel_lo"
    using b(1) by (intro mult_right_mono) simp_all
  also have "\<dots> \<le> dmul (dbl (p / T)) 100" using m(1) by simp
  finally show "p / T * 100 * (rel_lo * rel_lo) \<le> dmul (dbl (p / T)) 100" .
  have "dmul (dbl (p / T)) 100 \<le> dbl (p / T) * 100 * rel_hi" using m(2) by simp
  also have "\<dots> \<le> p / T * rel_hi * 100 * rel_hi"
    using b(2) by (intro mult_right_mono) simp_all
  also have "\<dots> = p / T * 100 * (rel_hi * rel_hi)" by simp
  finally show "dmul (dbl (p / T)) 100 \<le> p / T * 100 * (rel_hi * rel_hi)" .
qed

text \<open>
  Four positive numbers, each divided by their running total and multiplied by 100: six
  roundings lie between a figure and the exact share, so the figures sum to 100 up to
  \<open>10 ^ -12\<close>.
\<close>

lemma figures_sum_bound:
  assumes "0 < p1" "0 < p2" "0 < p3" "0 < p4"
    and T: "T = dadd (dadd (dadd (dadd 0 p1) p2) p3) p4"
  shows "\<bar>sum_list (map (\<lambda>p. dmul (dbl (p / T)) 100) [p1, p2, p3, p4]) - 100\<bar>
           \<le> 1 / 10 ^ 12"
proof -
  let ?S = "p1 + p2 + p3 + p4"
  let ?F = "dmul (dbl (p1 / T)) 100 + dmul (dbl (p2 / T)) 100 + dmul (dbl (p3 / T)) 100
          + dmul (dbl (p4 / T)) 100"
  note tb = total_bounds [OF assms(1-4), folded T]
  have S: "0 < ?S" using assms(1-4) by simp
  have Tpos: "0 < T" by (rule tb(3))
  note f1 = figure_bounds [OF assms(1) Tpos]
  note f2 = figure_bounds [OF assms(2) Tpos]
  note f3 = figure_bounds [OF assms(3) Tpos]
  note f4 = figure_bounds [OF assms(4) Tpos]
  have lower: "?S / T * 100 * (rel_lo * rel_lo) \<le> ?F"
    using f1(1) f2(1) f3(1) f4(1) by (simp add: add_divide_distrib distrib_right)
  have upper: "?F \<le> ?S / T * 100 * (rel_hi * rel_hi)"
    using f1(2) f2(2) f3(2) f4(2) by (simp add: add_divide_distrib distrib_right)
  have r1: "1 / (rel_hi * rel_hi * rel_hi * rel_hi) \<le> ?S / T"
    using tb(2) Tpos S by (simp add: field_simps)
  have r2: "?S / T \<le> 1 / (rel_lo * rel_lo * rel_lo * rel_lo)"
    using tb(1) Tpos S by (simp add: field_simps)
  have "100 - 1 / 10 ^ 12 \<le> 1 / (rel_hi * rel_hi * rel_hi * rel_hi) * 100 * (rel_lo * rel_lo)"
    by simp
  also have "\<dots> \<le> ?S / T * 100 * (rel_lo * rel_lo)"
    using r1 by (intro mult_right_mono) simp_all
  finally have lo_ok: "100 - 1 / 10 ^ 12 \<le> ?F" using lower by linarith
  have "?S / T * 100 * (rel_hi * rel_hi)
          \<le> 1 / (rel_lo * rel_lo * rel_lo * rel_lo) * 100 * (rel_hi * rel_hi)"
    using r2 by (intro mult_right_mono) simp_all
  also have "\<dots> \<le> 100 + 1 / 10 ^ 12" by simp
  finally have hi_ok: "?F \<le> 100 + 1 / 10 ^ 12" using upper by linarith
  have "sum_list (map (\<lambda>p. dmul (dbl (p / T)) 100) [p1, p2, p3, p4]) = ?F" by simp
  with lo_ok hi_ok show ?thesis unfolding abs_le_iff by linarith
qed

subsection \<open>The loop and the printed figures\<close>

lemma voter_loop_value:
  "voter_loop c historical_turnout None [] 0 =
     Inr ([(''Hispanic'', \<lparr>eligible = dmul (dbl c) (dbl 0.502),
              potential_turnout = group_potential c 0.502 0.54, turnout_rate = dbl 0.54\<rparr>),
           (''Black'', \<lparr>eligible = dmul (dbl c) (dbl 0.041),
              potential_turnout = group_potential c 0.041 0.63, turnout_rate = dbl 0.63\<rparr>),
           (''Asian'', \<lparr>eligible = dmul (dbl c) (dbl 0.062),
              potential_turnout = group_potential c 0.062 0.59, turnout_rate = dbl 0.59\<rparr>),
           (''White'', \<lparr>eligible = dmul (dbl c) (dbl 0.371),
              potential_turnout = group_potential c 0.371 0.71, turnout_rate = dbl 0.71\<rparr>)],
          running_total c)"
  by (simp add: historical_turnout_def group_pct_def Let_def)

lemma share_figures_append: "share_figures (xs @ ys) = share_figures xs @ share_figures ys"
  by (induction xs rule: share_figures.induct) simp_all

lemma print_group_run:
  "tot \<noteq> 0 \<Longrightarrow> print_group tot gd s = (Returns (), s, group_lines tot gd)"
  by (cases gd) (simp add: print_group_def prog_defs pct_of_def ddiv_def group_lines_def)

lemma group_loop:
  "tot \<noteq> 0 \<Longrightarrow>
   seqs (map (print_group tot) dv) s = (Returns (), s, concat (map (group_lines tot) dv))"
  by (induction dv) (simp_all add: print_group_run do_then_def ret_def)

lemma share_figures_group_lines:
  "share_figures (concat (map (group_lines tot) dv)) =
     map (\<lambda>gd. dmul (dbl (potential_turnout (snd gd) / tot)) 100) dv"
  by (induction dv) (auto simp: group_lines_def)

lemma group_potential_pos:
  assumes "0 < c" "0 < k" "0 < r"
  shows "0 < group_potential c k r"
  using assms by (intro dmul_bounds(3) dbl_bounds(3))

lemma group_potential_minus: "group_potential (- c) k r = - group_potential c k r"
  by (simp add: dmul_def dbl_minus)

lemma dadd_minus: "dadd (- a) (- b) = - dadd a b"
proof -
  have "- a + - b = - (a + b)" by simp
  then show ?thesis unfolding dadd_def by (simp only: dbl_minus)
qed

lemma dadd_zero_minus: "dadd 0 (- b) = - dadd 0 b"
  using dadd_minus [of 0 b] by simp

lemma running_total_minus: "running_total (- c) = - running_total c"
  by (simp only: group_potential_minus dadd_minus dadd_zero_minus)

lemma running_total_nonzero: "c \<noteq> 0 \<Longrightarrow> running_total c \<noteq> 0"
proof -
  have pos: "0 < running_total c" if "0 < c" for c
    using that by (intro total_bounds(3) group_potential_pos) simp_all
  assume "c \<noteq> 0"
  then consider "0 < c" | "0 < - c" by linarith
  then show ?thesis
  proof cases
    case 1 then show ?thesis using pos [of c] by simp
  next
    case 2
    then have "0 < running_total (- c)" by (rule pos)
    then show ?thesis unfolding running_total_minus by simp
  qed
qed

text \<open>The figures a run prints, for any \<open>total_cvap\<close> other than zero.\<close>

lemma run_figures:
  assumes c: "total_cvap self = c" and nz: "c \<noteq> 0"
  shows "share_figures (effects (analyze_voter_potential (Inr txt) plotted opened self)) =
    map (\<lambda>p. dmul (dbl (p / running_total c)) 100)
      [group_potential c 0.502 0.54, group_potential c 0.041 0.63,
       group_potential c 0.062 0.59, group_potential c 0.371 0.71]"
proof -
  have T: "running_total c \<noteq> 0" using nz by (rule running_total_nonzero)
  have d: "dbl c \<noteq> 0" using nz by (simp add: dbl_eq_0_iff)
  show ?thesis
    apply (cases "fst plotted"; cases "snd plotted"; cases opened)
    using T d c
       apply (simp_all add: analyze_voter_potential_def voter_loop_value
        create_turnout_analysis_def create_turnout_visualizations_def
        save_turnout_analysis_def print_group_def write_group_def
        prog_defs pct_of_def ddiv_def effects_def)
    done
qed

lemma figures_minus:
  "map (\<lambda>p. dmul (dbl (p / running_total (- c))) 100)
      [group_potential (- c) 0.502 0.54, group_potential (- c) 0.041 0.63,
       group_potential (- c) 0.062 0.59, group_potential (- c) 0.371 0.71] =
   map (\<lambda>p. dmul (dbl (p / running_total c)) 100)
      [group_potential c 0.502 0.54, group_potential c 0.041 0.63,
       group_potential c 0.062 0.59, group_potential c 0.371 0.71]"
  unfolding group_potential_minus dadd_minus dadd_zero_minus by simp

lemma run_figures_bound:
  assumes c: "total_cvap self = c" and nz: "c \<noteq> 0"
  shows "\<bar>sum_list (share_figures
            (effects (analyze_voter_potential (Inr txt) plotted opened self))) - 100\<bar>
           \<le> 1 / 10 ^ 12"
proof -
  have pos: "\<bar>sum_list (map (\<lambda>p. dmul (dbl (p / running_total c)) 100)
      [group_potential c 0.502 0.54, group_potential c 0.041 0.63,
       group_potential c 0.062 0.59, group_potential c 0.371 0.71]) - 100\<bar> \<le> 1 / 10 ^ 12"
    if "0 < c" for c
    using that by (intro figures_sum_bound group_potential_pos refl) simp_all
  from nz consider "0 < c" | "0 < - c" by linarith
  then have "\<bar>sum_list (map (\<lambda>p. dmul (dbl (p / running_total c)) 100)
      [group_potential c 0.502 0.54, group_potential c 0.041 0.63,
       group_potential c 0.062 0.59, group_potential c 0.371 0.71]) - 100\<bar> \<le> 1 / 10 ^ 12"
  proof cases
    case 1 then show ?thesis by (rule pos)
  next
    case 2
    then show ?thesis using pos [of "- c"] unfolding figures_minus by simp
  qed
  then show ?thesis unfolding run_figures [OF c nz] .
qed

subsection \<open>Two runs, evaluated\<close>

text \<open>
  The doubles of the decimal literals of lines 28-47, and every intermediate result of the
  run with the constructor's \<open>total_cvap = 393416\<close> and of a run with \<open>total_cvap = 1\<close>.
\<close>

lemma literals:
  shows "dbl (0.502) = 2260807012939989 / 2 ^ 52"
    and "dbl (0.041) = 5908722711110091 / 2 ^ 57"
    and "dbl (0.062) = 1116892707587883 / 2 ^ 54"
    and "dbl (0.371) = 835417730877227 / 2 ^ 51"
    and "dbl (0.54) = 607985949695017 / 2 ^ 50"
    and "dbl (0.63) = 5674535530486825 / 2 ^ 53"
    and "dbl (0.59) = 5314247560297185 / 2 ^ 53"
    and "dbl (0.71) = 799388933858263 / 2 ^ 50"
proof -
  show "dbl (0.502) = 2260807012939989 / 2 ^ 52"
    by (rule dbl_eval [where k = "-1" and n = 4521614025879978]) (simp_all add: power_int_minus)
  show "dbl (0.041) = 5908722711110091 / 2 ^ 57"
    by (rule dbl_eval [where k = "-5" and n = 5908722711110091]) (simp_all add: power_int_minus)
  show "dbl (0.062) = 1116892707587883 / 2 ^ 54"
    by (rule dbl_eval [where k = "-5" and n = 8935141660703064]) (simp_all add: power_int_minus)
  show "dbl (0.371) = 835417730877227 / 2 ^ 51"
    by (rule dbl_eval [where k = "-2" and n = 6683341847017816]) (simp_all add: power_int_minus)
  show "dbl (0.54) = 607985949695017 / 2 ^ 50"
    by (rule dbl_eval [where k = "-1" and n = 4863887597560136]) (simp_all add: power_int_minus)
  show "dbl (0.63) = 5674535530486825 / 2 ^ 53"
    by (rule dbl_eval [where k = "-1" and n = 5674535530486825]) (simp_all add: power_int_minus)
  show "dbl (0.59) = 5314247560297185 / 2 ^ 53"
    by (rule dbl_eval [where k = "-1" and n = 5314247560297185]) (simp_all add: power_int_minus)
  show "dbl (0.71) = 799388933858263 / 2 ^ 50"
    by (rule dbl_eval [where k = "-1" and n = 6395111470866104]) (simp_all add: power_int_minus)
qed

lemma constructor_run:
  shows "group_potential 393416 0.502 0.54 = 1832185104269071 / 2 ^ 34"
    and "group_potential 393416 0.041 0.63 = 5586583000533581 / 2 ^ 39"
    and "group_potential 393416 0.062 0.59 = 988952797907077 / 2 ^ 36"
    and "group_potential 393416 0.371 0.71 = 1780344836636845 / 2 ^ 34"
    and "running_total 393416 = 252146803696835 / 2 ^ 30"
    and "dadd (dadd (dadd (dadd 0 (1832185104269071 / 2 ^ 34)) (5586583000533581 / 2 ^ 39)) (988952797907077 / 2 ^ 36)) (1780344836636845 / 2 ^ 34) = 252146803696835 / 2 ^ 30"
    and "map (\<lambda>p. dmul (dbl (p / (252146803696835 / 2 ^ 30))) 100)
           [1832185104269071 / 2 ^ 34, 5586583000533581 / 2 ^ 39, 988952797907077 / 2 ^ 36, 1780344836636845 / 2 ^ 34] =
         [6391542694481875 / 2 ^ 47, 304510749222493 / 2 ^ 46, 1724971460558853 / 2 ^ 48, 6210698912326511 / 2 ^ 47]"
proof -
  have cvap_a: "dbl (393416) = 393416"
    by (rule dbl_eval [where k = "18" and n = 6758835414892544]) (simp_all add: power_int_minus)
  have e1_a: "dbl (393416 * (2260807012939989 / 2 ^ 52)) = 3392935378276057 / 2 ^ 34"
    by (rule dbl_eval [where k = "17" and n = 6785870756552114]) (simp_all add: power_int_minus)
  have p1_a: "dbl ((3392935378276057 / 2 ^ 34) * (607985949695017 / 2 ^ 50)) = 1832185104269071 / 2 ^ 34"
    by (rule dbl_eval [where k = "16" and n = 7328740417076284]) (simp_all add: power_int_minus)
  have e2_a: "dbl (393416 * (5908722711110091 / 2 ^ 57)) = 4433796032169509 / 2 ^ 38"
    by (rule dbl_eval [where k = "13" and n = 8867592064339018]) (simp_all add: power_int_minus)
  have p2_a: "dbl ((4433796032169509 / 2 ^ 38) * (5674535530486825 / 2 ^ 53)) = 5586583000533581 / 2 ^ 39"
    by (rule dbl_eval [where k = "13" and n = 5586583000533581]) (simp_all add: power_int_minus)
  have e3_a: "dbl (393416 * (1116892707587883 / 2 ^ 54)) = 1676191182893351 / 2 ^ 36"
    by (rule dbl_eval [where k = "14" and n = 6704764731573404]) (simp_all add: power_int_minus)
  have p3_a: "dbl ((1676191182893351 / 2 ^ 36) * (5314247560297185 / 2 ^ 53)) = 988952797907077 / 2 ^ 36"
    by (rule dbl_eval [where k = "13" and n = 7911622383256616]) (simp_all add: power_int_minus)
  have e4_a: "dbl (393416 * (835417730877227 / 2 ^ 51)) = 1253763969462567 / 2 ^ 33"
    by (rule dbl_eval [where k = "17" and n = 5015055877850268]) (simp_all add: power_int_minus)
  have p4_a: "dbl ((1253763969462567 / 2 ^ 33) * (799388933858263 / 2 ^ 50)) = 1780344836636845 / 2 ^ 34"
    by (rule dbl_eval [where k = "16" and n = 7121379346547380]) (simp_all add: power_int_minus)
  have t1_a: "dbl (0 + (1832185104269071 / 2 ^ 34)) = 1832185104269071 / 2 ^ 34"
    by (rule dbl_eval [where k = "16" and n = 7328740417076284]) (simp_all add: power_int_minus)
  have t2_a: "dbl ((1832185104269071 / 2 ^ 34) + (5586583000533581 / 2 ^ 39)) = 4013531646071491 / 2 ^ 35"
    by (rule dbl_eval [where k = "16" and n = 8027063292142982]) (simp_all add: power_int_minus)
  have t3_a: "dbl ((4013531646071491 / 2 ^ 35) + (988952797907077 / 2 ^ 36)) = 2254004022512515 / 2 ^ 34"
    by (rule dbl_eval_tie [where k = "17" and n = 4508008045025030]) (simp_all add: power_int_minus)
  have t4_a: "dbl ((2254004022512515 / 2 ^ 34) + (1780344836636845 / 2 ^ 34)) = 252146803696835 / 2 ^ 30"
    by (rule dbl_eval [where k = "17" and n = 8068697718298720]) (simp_all add: power_int_minus)
  have q1_a: "dbl ((1832185104269071 / 2 ^ 34) / (252146803696835 / 2 ^ 30)) = 255661707779275 / 2 ^ 49"
    by (rule dbl_eval [where k = "-2" and n = 8181174648936800]) (simp_all add: power_int_minus)
  have f1_a: "dbl ((255661707779275 / 2 ^ 49) * 100) = 6391542694481875 / 2 ^ 47"
    by (rule dbl_eval [where k = "5" and n = 6391542694481875]) (simp_all add: power_int_minus)
  have q2_a: "dbl ((5586583000533581 / 2 ^ 39) / (252146803696835 / 2 ^ 30)) = 6236380144076657 / 2 ^ 57"
    by (rule dbl_eval [where k = "-5" and n = 6236380144076657]) (simp_all add: power_int_minus)
  have f2_a: "dbl ((6236380144076657 / 2 ^ 57) * 100) = 304510749222493 / 2 ^ 46"
    by (rule dbl_eval [where k = "2" and n = 4872171987559888]) (simp_all add: power_int_minus)
  have q3_a: "dbl ((988952797907077 / 2 ^ 36) / (252146803696835 / 2 ^ 30)) = 551990867378833 / 2 ^ 53"
    by (rule dbl_eval [where k = "-5" and n = 8831853878061328]) (simp_all add: power_int_minus)
  have f3_a: "dbl ((551990867378833 / 2 ^ 53) * 100) = 1724971460558853 / 2 ^ 48"
    by (rule dbl_eval_tie [where k = "2" and n = 6899885842235412]) (simp_all add: power_int_minus)
  have q4_a: "dbl ((1780344836636845 / 2 ^ 34) / (252146803696835 / 2 ^ 30)) = 3974847303888967 / 2 ^ 53"
    by (rule dbl_eval [where k = "-2" and n = 7949694607777934]) (simp_all add: power_int_minus)
  have f4_a: "dbl ((3974847303888967 / 2 ^ 53) * 100) = 6210698912326511 / 2 ^ 47"
    by (rule dbl_eval [where k = "5" and n = 6210698912326511]) (simp_all add: power_int_minus)
  show "group_potential 393416 0.502 0.54 = 1832185104269071 / 2 ^ 34"
    by (simp only: dmul_def dadd_def literals list.map foldl.simps cvap_a e1_a p1_a e2_a p2_a e3_a p3_a e4_a p4_a t1_a t2_a t3_a t4_a q1_a f1_a q2_a f2_a q3_a f3_a q4_a f4_a)
  show "group_potential 393416 0.041 0.63 = 5586583000533581 / 2 ^ 39"
    by (simp only: dmul_def dadd_def literals list.map foldl.simps cvap_a e1_a p1_a e2_a p2_a e3_a p3_a e4_a p4_a t1_a t2_a t3_a t4_a q1_a f1_a q2_a f2_a q3_a f3_a q4_a f4_a)
  show "group_potential 393416 0.062 0.59 = 988952797907077 / 2 ^ 36"
    by (simp only: dmul_def dadd_def literals list.map foldl.simps cvap_a e1_a p1_a e2_a p2_a e3_a p3_a e4_a p4_a t1_a t2_a t3_a t4_a q1_a f1_a q2_a f2_a q3_a f3_a q4_a f4_a)
  show "group_potential 393416 0.371 0.71 = 1780344836636845 / 2 ^ 34"
    by (simp only: dmul_def dadd_def literals list.map foldl.simps cvap_a e1_a p1_a e2_a p2_a e3_a p3_a e4_a p4_a t1_a t2_a t3_a t4_a q1_a f1_a q2_a f2_a q3_a f3_a q4_a f4_a)
  show "running_total 393416 = 252146803696835 / 2 ^ 30"
    by (simp only: dmul_def dadd_def literals list.map foldl.simps cvap_a e1_a p1_a e2_a p2_a e3_a p3_a e4_a p4_a t1_a t2_a t3_a t4_a q1_a f1_a q2_a f2_a q3_a f3_a q4_a f4_a)
  show "dadd (dadd (dadd (dadd 0 (1832185104269071 / 2 ^ 34)) (5586583000533581 / 2 ^ 39)) (988952797907077 / 2 ^ 36)) (1780344836636845 / 2 ^ 34) = 252146803696835 / 2 ^ 30"
    by (simp only: dmul_def dadd_def literals list.map foldl.simps cvap_a e1_a p1_a e2_a p2_a e3_a p3_a e4_a p4_a t1_a t2_a t3_a t4_a q1_a f1_a q2_a f2_a q3_a f3_a q4_a f4_a)
  show "map (\<lambda>p. dmul (dbl (p / (252146803696835 / 2 ^ 30))) 100)
           [1832185104269071 / 2 ^ 34, 5586583000533581 / 2 ^ 39, 988952797907077 / 2 ^ 36, 1780344836636845 / 2 ^ 34] =
         [6391542694481875 / 2 ^ 47, 304510749222493 / 2 ^ 46, 1724971460558853 / 2 ^ 48, 6210698912326511 / 2 ^ 47]"
    by (simp only: dmul_def dadd_def literals list.map foldl.simps cvap_a e1_a p1_a e2_a p2_a e3_a p3_a e4_a p4_a t1_a t2_a t3_a t4_a q1_a f1_a q2_a f2_a q3_a f3_a q4_a f4_a)
qed

lemma unit_run:
  shows "group_potential 1 0.502 0.54 = 4883343147950377 / 2 ^ 54"
    and "group_potential 1 0.041 0.63 = 7444990615998715 / 2 ^ 58"
    and "group_potential 1 0.062 0.59 = 5271733579814807 / 2 ^ 57"
    and "group_potential 1 0.371 0.71 = 4745172711382649 / 2 ^ 54"
    and "running_total 1 = 2688198617577449 / 2 ^ 52"
    and "dadd (dadd (dadd (dadd 0 (4883343147950377 / 2 ^ 54)) (7444990615998715 / 2 ^ 58)) (5271733579814807 / 2 ^ 57)) (4745172711382649 / 2 ^ 54) = 2688198617577449 / 2 ^ 52"
    and "map (\<lambda>p. dmul (dbl (p / (2688198617577449 / 2 ^ 52))) 100)
           [4883343147950377 / 2 ^ 54, 7444990615998715 / 2 ^ 58, 5271733579814807 / 2 ^ 57, 4745172711382649 / 2 ^ 54] =
         [6391542694481877 / 2 ^ 47, 2436085993779945 / 2 ^ 49, 6899885842235413 / 2 ^ 50, 388168682020407 / 2 ^ 43]"
    and "foldl dadd 0 [6391542694481877 / 2 ^ 47, 2436085993779945 / 2 ^ 49, 6899885842235413 / 2 ^ 50, 388168682020407 / 2 ^ 43] = 7036874417766401 / 2 ^ 46"
proof -
  have cvap_b: "dbl (1) = 1"
    by (rule dbl_eval [where k = "0" and n = 4503599627370496]) (simp_all add: power_int_minus)
  have e1_b: "dbl (1 * (2260807012939989 / 2 ^ 52)) = 2260807012939989 / 2 ^ 52"
    by (rule dbl_eval [where k = "-1" and n = 4521614025879978]) (simp_all add: power_int_minus)
  have p1_b: "dbl ((2260807012939989 / 2 ^ 52) * (607985949695017 / 2 ^ 50)) = 4883343147950377 / 2 ^ 54"
    by (rule dbl_eval [where k = "-2" and n = 4883343147950377]) (simp_all add: power_int_minus)
  have e2_b: "dbl (1 * (5908722711110091 / 2 ^ 57)) = 5908722711110091 / 2 ^ 57"
    by (rule dbl_eval [where k = "-5" and n = 5908722711110091]) (simp_all add: power_int_minus)
  have p2_b: "dbl ((5908722711110091 / 2 ^ 57) * (5674535530486825 / 2 ^ 53)) = 7444990615998715 / 2 ^ 58"
    by (rule dbl_eval [where k = "-6" and n = 7444990615998715]) (simp_all add: power_int_minus)
  have e3_b: "dbl (1 * (1116892707587883 / 2 ^ 54)) = 1116892707587883 / 2 ^ 54"
    by (rule dbl_eval [where k = "-5" and n = 8935141660703064]) (simp_all add: power_int_minus)
  have p3_b: "dbl ((1116892707587883 / 2 ^ 54) * (5314247560297185 / 2 ^ 53)) = 5271733579814807 / 2 ^ 57"
    by (rule dbl_eval [where k = "-5" and n = 5271733579814807]) (simp_all add: power_int_minus)
  have e4_b: "dbl (1 * (835417730877227 / 2 ^ 51)) = 835417730877227 / 2 ^ 51"
    by (rule dbl_eval [where k = "-2" and n = 6683341847017816]) (simp_all add: power_int_minus)
  have p4_b: "dbl ((835417730877227 / 2 ^ 51) * (799388933858263 / 2 ^ 50)) = 4745172711382649 / 2 ^ 54"
    by (rule dbl_eval [where k = "-2" and n = 4745172711382649]) (simp_all add: power_int_minus)
  have t1_b: "dbl (0 + (4883343147950377 / 2 ^ 54)) = 4883343147950377 / 2 ^ 54"
    by (rule dbl_eval [where k = "-2" and n = 4883343147950377]) (simp_all add: power_int_minus)
  have t2_b: "dbl ((4883343147950377 / 2 ^ 54) + (7444990615998715 / 2 ^ 58)) = 5348655061450297 / 2 ^ 54"
    by (rule dbl_eval [where k = "-2" and n = 5348655061450297]) (simp_all add: power_int_minus)
  have t3_b: "dbl ((5348655061450297 / 2 ^ 54) + (5271733579814807 / 2 ^ 57)) = 1501905439731787 / 2 ^ 52"
    by (rule dbl_eval [where k = "-2" and n = 6007621758927148]) (simp_all add: power_int_minus)
  have t4_b: "dbl ((1501905439731787 / 2 ^ 52) + (4745172711382649 / 2 ^ 54)) = 2688198617577449 / 2 ^ 52"
    by (rule dbl_eval_tie [where k = "-1" and n = 5376397235154898]) (simp_all add: power_int_minus)
  have q1_b: "dbl ((4883343147950377 / 2 ^ 54) / (2688198617577449 / 2 ^ 52)) = 4090587324468401 / 2 ^ 53"
    by (rule dbl_eval [where k = "-2" and n = 8181174648936802]) (simp_all add: power_int_minus)
  have f1_b: "dbl ((4090587324468401 / 2 ^ 53) * 100) = 6391542694481877 / 2 ^ 47"
    by (rule dbl_eval [where k = "5" and n = 6391542694481877]) (simp_all add: power_int_minus)
  have q2_b: "dbl ((7444990615998715 / 2 ^ 58) / (2688198617577449 / 2 ^ 52)) = 6236380144076659 / 2 ^ 57"
    by (rule dbl_eval [where k = "-5" and n = 6236380144076659]) (simp_all add: power_int_minus)
  have f2_b: "dbl ((6236380144076659 / 2 ^ 57) * 100) = 2436085993779945 / 2 ^ 49"
    by (rule dbl_eval [where k = "2" and n = 4872171987559890]) (simp_all add: power_int_minus)
  have q3_b: "dbl ((5271733579814807 / 2 ^ 57) / (2688198617577449 / 2 ^ 52)) = 8831853878061329 / 2 ^ 57"
    by (rule dbl_eval [where k = "-5" and n = 8831853878061329]) (simp_all add: power_int_minus)
  have f3_b: "dbl ((8831853878061329 / 2 ^ 57) * 100) = 6899885842235413 / 2 ^ 50"
    by (rule dbl_eval [where k = "2" and n = 6899885842235413]) (simp_all add: power_int_minus)
  have q4_b: "dbl ((4745172711382649 / 2 ^ 54) / (2688198617577449 / 2 ^ 52)) = 7949694607777935 / 2 ^ 54"
    by (rule dbl_eval [where k = "-2" and n = 7949694607777935]) (simp_all add: power_int_minus)
  have f4_b: "dbl ((7949694607777935 / 2 ^ 54) * 100) = 388168682020407 / 2 ^ 43"
    by (rule dbl_eval [where k = "5" and n = 6210698912326512]) (simp_all add: power_int_minus)
  have s1_b: "dbl (0 + (6391542694481877 / 2 ^ 47)) = 6391542694481877 / 2 ^ 47"
    by (rule dbl_eval [where k = "5" and n = 6391542694481877]) (simp_all add: power_int_minus)
  have s2_b: "dbl ((6391542694481877 / 2 ^ 47) + (2436085993779945 / 2 ^ 49)) = 7000564192926863 / 2 ^ 47"
    by (rule dbl_eval [where k = "5" and n = 7000564192926863]) (simp_all add: power_int_minus)
  have s3_b: "dbl ((7000564192926863 / 2 ^ 47) + (6899885842235413 / 2 ^ 50)) = 3931524961603145 / 2 ^ 46"
    by (rule dbl_eval [where k = "5" and n = 7863049923206290]) (simp_all add: power_int_minus)
  have s4_b: "dbl ((3931524961603145 / 2 ^ 46) + (388168682020407 / 2 ^ 43)) = 7036874417766401 / 2 ^ 46"
    by (rule dbl_eval [where k = "6" and n = 7036874417766401]) (simp_all add: power_int_minus)
  show "group_potential 1 0.502 0.54 = 4883343147950377 / 2 ^ 54"
    by (simp only: dmul_def dadd_def literals list.map foldl.simps cvap_b e1_b p1_b e2_b p2_b e3_b p3_b e4_b p4_b t1_b t2_b t3_b t4_b q1_b f1_b q2_b f2_b q3_b f3_b q4_b f4_b s1_b s2_b s3_b s4_b)
  show "group_potential 1 0.041 0.63 = 7444990615998715 / 2 ^ 58"
    by (simp only: dmul_def dadd_def literals list.map foldl.simps cvap_b e1_b p1_b e2_b p2_b e3_b p3_b e4_b p4_b t1_b t2_b t3_b t4_b q1_b f1_b q2_b f2_b q3_b f3_b q4_b f4_b s1_b s2_b s3_b s4_b)
  show "group_potential 1 0.062 0.59 = 5271733579814807 / 2 ^ 57"
    by (simp only: dmul_def dadd_def literals list.map foldl.simps cvap_b e1_b p1_b e2_b p2_b e3_b p3_b e4_b p4_b t1_b t2_b t3_b t4_b q1_b f1_b q2_b f2_b q3_b f3_b q4_b f4_b s1_b s2_b s3_b s4_b)
  show "group_potential 1 0.371 0.71 = 4745172711382649 / 2 ^ 54"
    by (simp only: dmul_def dadd_def literals list.map foldl.simps cvap_b e1_b p1_b e2_b p2_b e3_b p3_b e4_b p4_b t1_b t2_b t3_b t4_b q1_b f1_b q2_b f2_b q3_b f3_b q4_b f4_b s1_b s2_b s3_b s4_b)
  show "running_total 1 = 2688198617577449 / 2 ^ 52"
    by (simp only: dmul_def dadd_def literals list.map foldl.simps cvap_b e1_b p1_b e2_b p2_b e3_b p3_b e4_b p4_b t1_b t2_b t3_b t4_b q1_b f1_b q2_b f2_b q3_b f3_b q4_b f4_b s1_b s2_b s3_b s4_b)
  show "dadd (dadd (dadd (dadd 0 (4883343147950377 / 2 ^ 54)) (7444990615998715 / 2 ^ 58)) (5271733579814807 / 2 ^ 57)) (4745172711382649 / 2 ^ 54) = 2688198617577449 / 2 ^ 52"
    by (simp only: dmul_def dadd_def literals list.map foldl.simps cvap_b e1_b p1_b e2_b p2_b e3_b p3_b e4_b p4_b t1_b t2_b t3_b t4_b q1_b f1_b q2_b f2_b q3_b f3_b q4_b f4_b s1_b s2_b s3_b s4_b)
  show "map (\<lambda>p. dmul (dbl (p / (2688198617577449 / 2 ^ 52))) 100)
           [4883343147950377 / 2 ^ 54, 7444990615998715 / 2 ^ 58, 5271733579814807 / 2 ^ 57, 4745172711382649 / 2 ^ 54] =
         [6391542694481877 / 2 ^ 47, 2436085993779945 / 2 ^ 49, 6899885842235413 / 2 ^ 50, 388168682020407 / 2 ^ 43]"
    by (simp only: dmul_def dadd_def literals list.map foldl.simps cvap_b e1_b p1_b e2_b p2_b e3_b p3_b e4_b p4_b t1_b t2_b t3_b t4_b q1_b f1_b q2_b f2_b q3_b f3_b q4_b f4_b s1_b s2_b s3_b s4_b)
  show "foldl dadd 0 [6391542694481877 / 2 ^ 47, 2436085993779945 / 2 ^ 49, 6899885842235413 / 2 ^ 50, 388168682020407 / 2 ^ 43] = 7036874417766401 / 2 ^ 46"
    by (simp only: dmul_def dadd_def literals list.map foldl.simps cvap_b e1_b p1_b e2_b p2_b e3_b p3_b e4_b p4_b t1_b t2_b t3_b t4_b q1_b f1_b q2_b f2_b q3_b f3_b q4_b f4_b s1_b s2_b s3_b s4_b)
qed

lemma constructor_figures:
  "share_figures (effects
      (analyze_voter_potential (Inr txt) plotted opened CA13ElectionAnalyzer_init)) =
     [6391542694481875 / 2 ^ 47, 304510749222493 / 2 ^ 46, 1724971460558853 / 2 ^ 48,
      6210698912326511 / 2 ^ 47]"
proof -
  have "share_figures (effects
      (analyze_voter_potential (Inr txt) plotted opened CA13ElectionAnalyzer_init)) =
    map (\<lambda>p. dmul (dbl (p / running_total 393416)) 100)
      [group_potential 393416 0.502 0.54, group_potential 393416 0.041 0.63,
       group_potential 393416 0.062 0.59, group_potential 393416 0.371 0.71]"
    by (rule run_figures) (simp_all add: CA13ElectionAnalyzer_init_def)
  then show ?thesis by (simp only: constructor_run)
qed

lemma unit_figures:
  "share_figures (effects
      (analyze_voter_potential (Inr txt) plotted opened \<lparr>total_cvap = 1\<rparr>)) =
     [6391542694481877 / 2 ^ 47, 2436085993779945 / 2 ^ 49, 6899885842235413 / 2 ^ 50,
      388168682020407 / 2 ^ 43]"
proof -
  have "share_figures (effects
      (analyze_voter_potential (Inr txt) plotted opened \<lparr>total_cvap = 1\<rparr>)) =
    map (\<lambda>p. dmul (dbl (p / running_total 1)) 100)
      [group_potential 1 0.502 0.54, group_potential 1 0.041 0.63,
       group_potential 1 0.062 0.59, group_potential 1 0.371 0.71]"
    by (rule run_figures) simp_all
  then show ?thesis by (simp only: unit_run)
qed

text \<open>
  C8, counterexample.  The four figures of the run the entry point makes
  (\<open>total_cvap = 393416\<close>) are doubles whose sum is \<open>100 - 3 / 2 ^ 48\<close>, not \<open>100\<close>; and
  for \<open>total_cvap = 1\<close> also the floating-point sum of the four figures, added in the
  order in which they are printed, is not \<open>100\<close> (it is the next double above).
\<close>

theorem C8_shares_do_not_sum_to_100:
  "sum_list (share_figures (effects
      (analyze_voter_potential (Inr ''report'') (Inr (), Inr ()) (Inr ())
        CA13ElectionAnalyzer_init))) \<noteq> 100
   \<and> foldl dadd 0 (share_figures (effects
      (analyze_voter_potential (Inr ''report'') (Inr (), Inr ()) (Inr ())
        \<lparr>total_cvap = 1\<rparr>))) \<noteq> 100"
proof -
  have "sum_list [6391542694481875 / 2 ^ 47, 304510749222493 / 2 ^ 46,
          1724971460558853 / 2 ^ 48, 6210698912326511 / 2 ^ 47] \<noteq> (100::real)"
    by simp
  moreover have "foldl dadd 0 [6391542694481877 / 2 ^ 47, 2436085993779945 / 2 ^ 49,
          6899885842235413 / 2 ^ 50, 388168682020407 / 2 ^ 43] \<noteq> 100"
    unfolding unit_run(8) by simp
  ultimately show ?thesis
    unfolding constructor_figures unit_figures by (rule conjI)
qed

text \<open>
  C8, amended.  In \<open>CA13ElectionAnalyzer.analyze_voter_potential\<close>, for a \<open>total_cvap\<close> of
  magnitude between \<open>1\<close> and \<open>2 ^ 1000\<close> (no operation overflows or underflows there),
  the loop over the four groups (Hispanic, Black, Asian, White) ends with
  \<open>total_potential_voters\<close> equal to the floating-point sum of the four
  \<open>potential_turnout\<close> values, added in that order, and that total is not zero; the four
  figures printed under \<open>% of Total Expected Turnout\<close> are, each,
  \<open>potential_turnout / total_potential_voters * 100\<close> in double arithmetic (the quotient
  rounded, then the product rounded); their sum differs from \<open>100\<close> by at most
  \<open>10 ^ -12\<close>.  It is not exactly \<open>100\<close>: in the run with the constructor's
  \<open>total_cvap = 393416\<close> the four figures sum to \<open>100 - 3 / 2 ^ 48\<close>.  No branch of these
  methods depends on the sum.
\<close>

theorem C8_turnout_shares_sum_to_about_100:
  "(1 \<le> \<bar>total_cvap self\<bar> \<and> \<bar>total_cvap self\<bar> \<le> 2 ^ 1000 \<longrightarrow>
      (\<exists>dv T. voter_loop (total_cvap self) historical_turnout None [] 0 = Inr (dv, T)
         \<and> map fst dv = [''Hispanic'', ''Black'', ''Asian'', ''White'']
         \<and> T = foldl dadd 0 (map (\<lambda>gd. potential_turnout (snd gd)) dv)
         \<and> T \<noteq> 0
         \<and> share_figures
              (effects (analyze_voter_potential (Inr txt) plotted opened self)) =
             map (\<lambda>gd. dmul (dbl (potential_turnout (snd gd) / T)) 100) dv
         \<and> \<bar>sum_list (share_figures
              (effects (analyze_voter_potential (Inr txt) plotted opened self))) - 100\<bar>
             \<le> 1 / 10 ^ 12))
   \<and> sum_list (share_figures (effects
        (analyze_voter_potential (Inr txt) plotted opened CA13ElectionAnalyzer_init))) =
       100 - 3 / 2 ^ 48"
proof (intro conjI impI exI)
  let ?c = "total_cvap self"
  let ?dv = "fst (projr (voter_loop ?c historical_turnout None [] 0))"
  let ?T = "snd (projr (voter_loop ?c historical_turnout None [] 0))"
  assume r: "1 \<le> \<bar>total_cvap self\<bar> \<and> \<bar>total_cvap self\<bar> \<le> 2 ^ 1000"
  then have nz: "total_cvap self \<noteq> 0" by auto
  show "voter_loop ?c historical_turnout None [] 0 = Inr (?dv, ?T)"
    by (simp add: voter_loop_value)
  show "map fst ?dv = [''Hispanic'', ''Black'', ''Asian'', ''White'']"
    by (simp add: voter_loop_value)
  show "?T = foldl dadd 0 (map (\<lambda>gd. potential_turnout (snd gd)) ?dv)"
    by (simp add: voter_loop_value)
  show "?T \<noteq> 0"
    using running_total_nonzero [OF nz] by (simp add: voter_loop_value)
  show "share_figures (effects (analyze_voter_potential (Inr txt) plotted opened self)) =
          map (\<lambda>gd. dmul (dbl (potential_turnout (snd gd) / ?T)) 100) ?dv"
    unfolding run_figures [OF refl nz] by (simp add: voter_loop_value)
  show "\<bar>sum_list (share_figures
              (effects (analyze_voter_potential (Inr txt) plotted opened self))) - 100\<bar>
             \<le> 1 / 10 ^ 12"
    using refl nz by (rule run_figures_bound)
next
  show "sum_list (share_figures (effects
        (analyze_voter_potential (Inr txt) plotted opened CA13ElectionAnalyzer_init))) =
       100 - 3 / 2 ^ 48"
    by (simp add: constructor_figures)
qed

theorem C8_turnout_shares_witness:
  "(\<exists>dv T. voter_loop 393416 historical_turnout None [] 0 = Inr (dv, T)
         \<and> map fst dv = [''Hispanic'', ''Black'', ''Asian'', ''White'']
         \<and> T = foldl dadd 0 (map (\<lambda>gd. potential_turnout (snd gd)) dv)
         \<and> T \<noteq> 0
         \<and> share_figures (effects
              (analyze_voter_potential (Inr ''report'') (Inr (), Inr ()) (Inr ())
                CA13ElectionAnalyzer_init)) =
             map (\<lambda>gd. dmul (dbl (potential_turnout (snd gd) / T)) 100) dv
         \<and> \<bar>sum_list (share_figures (effects
              (analyze_voter_potential (Inr ''report'') (Inr (), Inr ()) (Inr ())
                CA13ElectionAnalyzer_init))) - 100\<bar> \<le> 1 / 10 ^ 12)
   \<and> sum_list (share_figures (effects
        (analyze_voter_potential (Inr ''report'') (Inr (), Inr ()) (Inr ())
          CA13ElectionAnalyzer_init))) = 100 - 3 / 2 ^ 48"
proof -
  have c: "total_cvap CA13ElectionAnalyzer_init = 393416"
    by (simp add: CA13ElectionAnalyzer_init_def)
  have r: "1 \<le> \<bar>393416 :: real\<bar> \<and> \<bar>393416 :: real\<bar> \<le> 2 ^ 1000"
    by simp
  show ?thesis
    using C8_turnout_shares_sum_to_about_100
      [of CA13ElectionAnalyzer_init "''report''" "(Inr (), Inr ())" "Inr ()"] r
    unfolding c by blast
qed

section \<open>Properties of programs, tables, vote shares and the demographic analyzer\<close>

lemmas frame_defs = frame_col_def frame_len_def frame_assign_def frame_select_def
  frame_filter_def series_filter_def series_op_def series_op_scalar_def shift1_def diff1_def
  notna_mask_def dropna_def and_then_def np_op_def to_vector_def to_matrix_def

lemma all_ok_map_Inr: "all_ok (map Inr vs) = Inr vs"
  by (induction vs) simp_all

lemma all_ok_InrD: "all_ok rs = Inr vs \<Longrightarrow> rs = map Inr vs"
  by (induction rs arbitrary: vs) (auto split: sum.splits)

lemma all_ok_Inr: "all_ok rs = Inr vs \<longleftrightarrow> rs = map Inr vs"
  using all_ok_map_Inr all_ok_InrD by metis

lemma np_pct_finite:
  "fl x = Some (VNum a) \<Longrightarrow> fl y = Some (VNum b) \<Longrightarrow> b \<noteq> 0 \<Longrightarrow>
     np_pct x y = Inr (VNum (a / b * 100))"
  by (simp add: np_pct_def np_op_def and_then_def)

lemma np_op_fl: "np_op f x y = Inr q \<Longrightarrow> \<exists>a b. fl x = Some a \<and> fl y = Some b \<and> q = f a b"
  by (auto simp: np_op_def split: option.splits)

lemma series_pct:
  assumes "series_op fdiv dv tv = Inr q" "series_op_scalar fmul q (VInt 100) = Inr sh"
  shows "length sh = min (length dv) (length tv)"
    and "\<forall>i<length sh. np_pct (dv ! i) (tv ! i) = Inr (sh ! i)"
proof -
  have q: "map2 (np_op fdiv) dv tv = map Inr q"
    using assms(1) by (simp add: series_op_def all_ok_Inr)
  have sh: "map (\<lambda>x. np_op fmul x (VInt 100)) q = map Inr sh"
    using assms(2) by (simp add: series_op_scalar_def all_ok_Inr)
  have lq: "length q = min (length dv) (length tv)"
    using arg_cong [OF q, of length] by simp
  have ls: "length sh = length q"
    using arg_cong [OF sh, of length] by simp
  show "length sh = min (length dv) (length tv)" using lq ls by simp
  show "\<forall>i<length sh. np_pct (dv ! i) (tv ! i) = Inr (sh ! i)"
  proof (intro allI impI)
    fix i assume i: "i < length sh"
    then have iq: "i < length q" using ls by simp
    have "map2 (np_op fdiv) dv tv ! i = map Inr q ! i" using q by simp
    then have a: "np_op fdiv (dv ! i) (tv ! i) = Inr (q ! i)"
      using iq lq by simp
    have "map (\<lambda>x. np_op fmul x (VInt 100)) q ! i = map Inr sh ! i" using sh by simp
    then have b: "np_op fmul (q ! i) (VInt 100) = Inr (sh ! i)"
      using iq i by simp
    show "np_pct (dv ! i) (tv ! i) = Inr (sh ! i)"
      using a b by (simp add: np_pct_def and_then_def)
  qed
qed

lemma frame_col_assign:
  "frame_col (frame_assign c vs df) c' = (if c' = c then Inr vs else frame_col df c')"
  by (simp add: frame_col_def frame_assign_def update_conv')


lemma and_then_Inr_iff: "and_then r f = Inr v \<longleftrightarrow> (\<exists>x. r = Inr x \<and> f x = Inr v)"
  by (cases r) (simp_all add: and_then_def)

lemma series_shares_ok:
  "series_op fdiv dv tv = Inr q \<Longrightarrow> series_op_scalar fmul q (VInt 100) = Inr sh \<Longrightarrow>
     shares_ok dv tv sh"
  using series_pct [of dv tv q sh] by (simp add: shares_ok_def)

lemma add_vote_shares_columns:
  assumes "add_vote_shares df = Inr t"
  shows "\<exists>dv rv tv ds rs.
           t = frame_assign ''republican_vote_share'' rs
                 (frame_assign ''democratic_vote_share'' ds df)
         \<and> frame_col df ''democratic_votes'' = Inr dv
         \<and> frame_col df ''republican_votes'' = Inr rv
         \<and> frame_col df ''total_votes'' = Inr tv
         \<and> shares_ok dv tv ds \<and> shares_ok rv tv rs"
  using assms unfolding add_vote_shares_def Let_def
  by (clarsimp simp: and_then_Inr_iff frame_col_assign) (blast intro: series_shares_ok)

lemma map_of_map_values:
  "map_of (map (\<lambda>(k, v). (k, f v)) xs) k = map_option f (map_of xs k)"
  by (induction xs) auto

lemma frame_col_filter:
  "frame_col (frame_filter msk df) c =
     (case frame_col df c of Inl e \<Rightarrow> Inl e | Inr vs \<Rightarrow> Inr (series_filter msk vs))"
  by (simp add: frame_col_def frame_filter_def map_of_map_values split: option.splits)

lemma filter_by_own_mask_l:
  "v \<in> set (series_filter (map2 (\<and>) (map f xs) bs) xs) \<Longrightarrow> f v"
proof (induction xs arbitrary: bs)
  case Nil
  then show ?case by (simp add: series_filter_def)
next
  case (Cons x xs)
  then show ?case by (cases bs) (auto simp: series_filter_def split: if_splits)
qed

lemma filter_by_own_mask_r:
  "v \<in> set (series_filter (map2 (\<and>) as (map g ys)) ys) \<Longrightarrow> g v"
proof (induction ys arbitrary: as)
  case Nil
  then show ?case by (simp add: series_filter_def)
next
  case (Cons y ys)
  then show ?case by (cases as) (auto simp: series_filter_def split: if_splits)
qed

lemma eq_str_iff: "eq_str c v \<longleftrightarrow> v = VStr c"
  by (cases v) auto

lemma state_filter:
  "v \<in> set (series_filter (map2 (\<and>) (map (eq_str c) xs) bs) xs) \<Longrightarrow> v = VStr c"
  using filter_by_own_mask_l [of v "eq_str c" xs bs] by (simp add: eq_str_iff)

lemma district_filter:
  "v \<in> set (series_filter (map2 (\<and>) as (map (eq_num c) ys)) ys) \<Longrightarrow> fl v = Some (VNum c)"
  using filter_by_own_mask_r [of v as "eq_num c" ys] by (simp add: eq_num_def)

lemma ca13_rows_only:
  assumes "ca13_rows df = Inr c13"
  shows "\<exists>st di. frame_col c13 ''state'' = Inr st \<and> (\<forall>v\<in>set st. v = VStr ''CALIFORNIA'')
           \<and> frame_col c13 ''district'' = Inr di \<and> (\<forall>v\<in>set di. fl v = Some (VNum 13))"
  using assms
  by (auto simp: ca13_rows_def and_then_Inr_iff frame_col_filter
      dest: state_filter district_filter)

lemma get_election_data_Some:
  assumes "fst (get_election_data got read_csv ()) = Returns (Some t)"
  shows "\<exists>response df c13. got = Inr response \<and> raise_for_status response = Inr ()
           \<and> read_csv (body_text response) = Inr df
           \<and> ca13_rows df = Inr c13 \<and> add_vote_shares c13 = Inr t"
proof (cases got)
  case (Inl e)
  then show ?thesis using assms
    by (simp add: get_election_data_def ret_def raise_def emit_def lib_def do_then_def
        try_except_def)
next
  case got: (Inr response)
  show ?thesis
  proof (cases "raise_for_status response")
    case (Inl e)
    then show ?thesis using assms got
      by (simp add: get_election_data_def ret_def raise_def emit_def lib_def do_then_def
        try_except_def)
  next
    case rfs: (Inr u)
    show ?thesis
    proof (cases "read_csv (body_text response)")
      case (Inl e)
      then show ?thesis using assms got rfs
        by (simp add: get_election_data_def ret_def raise_def emit_def lib_def do_then_def
          try_except_def)
    next
      case df: (Inr df)
      show ?thesis
      proof (cases "ca13_rows df")
        case (Inl e)
        then show ?thesis using assms got rfs df
          by (simp add: get_election_data_def ret_def raise_def emit_def lib_def do_then_def
            try_except_def)
      next
        case c13: (Inr c13)
        show ?thesis
        proof (cases "add_vote_shares c13")
          case (Inl e)
          then show ?thesis using assms got rfs df c13
            by (simp add: get_election_data_def ret_def raise_def emit_def lib_def do_then_def
              try_except_def)
        next
          case (Inr t')
          then show ?thesis using assms got rfs df c13
            by (simp add: get_election_data_def ret_def raise_def emit_def lib_def do_then_def
              try_except_def)
        qed
      qed
    qed
  qed
qed


lemma run_ret: "result (ret a s) = Returns a" "self_after (ret a s) = s" "effects (ret a s) = []"
  by (simp_all add: ret_def result_def self_after_def effects_def)

lemma run_emit:
  "result (emit ev s) = Returns ()" "self_after (emit ev s) = s" "effects (emit ev s) = [ev]"
  by (simp_all add: emit_def result_def self_after_def effects_def)

lemma run_raise:
  "result (raise e s) = Raises e" "self_after (raise e s) = s" "effects (raise e s) = []"
  by (simp_all add: raise_def result_def self_after_def effects_def)

lemma run_lib:
  "result (lib r s) = (case r of Inl e \<Rightarrow> Raises e | Inr v \<Rightarrow> Returns v)"
  "self_after (lib r s) = s" "effects (lib r s) = []"
  by (simp_all add: lib_def result_def self_after_def effects_def split: sum.splits)

lemma run_do_then:
  "result (do_then m f s) =
     (case result (m s) of Raises e \<Rightarrow> Raises e | Returns a \<Rightarrow> result (f a (self_after (m s))))"
  "self_after (do_then m f s) =
     (case result (m s) of Raises e \<Rightarrow> self_after (m s)
      | Returns a \<Rightarrow> self_after (f a (self_after (m s))))"
  "effects (do_then m f s) =
     (case result (m s) of Raises e \<Rightarrow> effects (m s)
      | Returns a \<Rightarrow> effects (m s) @ effects (f a (self_after (m s))))"
  by (simp_all add: do_then_def result_def self_after_def effects_def
      split: prod.splits outcome.splits)

lemma run_try_except:
  "result (try_except m h s) =
     (case result (m s) of Raises e \<Rightarrow> result (h e (self_after (m s))) | Returns a \<Rightarrow> Returns a)"
  "self_after (try_except m h s) =
     (case result (m s) of Raises e \<Rightarrow> self_after (h e (self_after (m s)))
      | Returns a \<Rightarrow> self_after (m s))"
  "effects (try_except m h s) =
     (case result (m s) of Raises e \<Rightarrow> effects (m s) @ effects (h e (self_after (m s)))
      | Returns a \<Rightarrow> effects (m s))"
  by (simp_all add: try_except_def result_def self_after_def effects_def
      split: prod.splits outcome.splits)

lemma run_get_self:
  "result (get_self s) = Returns s" "self_after (get_self s) = s" "effects (get_self s) = []"
  by (simp_all add: get_self_def result_def self_after_def effects_def)

lemma run_set_self:
  "result (set_self g s) = Returns ()" "self_after (set_self g s) = g s"
  "effects (set_self g s) = []"
  by (simp_all add: set_self_def result_def self_after_def effects_def)

lemma run_print_f:
  "result (print_f t vs v s) =
     (case fl v of None \<Rightarrow> Raises (Exn ''TypeError'' ''unsupported format string'')
      | Some _ \<Rightarrow> Returns ())"
  "self_after (print_f t vs v s) = s"
  "effects (print_f t vs v s) = (case fl v of None \<Rightarrow> [] | Some _ \<Rightarrow> [Print t (vs @ [v])])"
  by (simp_all add: print_f_def run_raise run_emit split: option.splits)

lemmas run_simps = run_ret run_emit run_raise run_lib run_do_then run_try_except run_get_self
  run_set_self run_print_f

lemma fl_is_float: "fl x = Some a \<Longrightarrow> is_float a"
  by (cases x) auto

lemma is_float_fl: "is_float q \<Longrightarrow> fl q = Some q"
  by (cases q) auto

lemma is_float_fdiv: "is_float (fdiv a b)"
  by (cases "(a, b)" rule: fdiv.cases) auto

lemma is_float_fmul: "is_float (fmul a b)"
  by (cases "(a, b)" rule: fmul.cases) auto

lemma np_pct_numeric: "np_pct x y = Inr q \<Longrightarrow> fl q = Some q \<and> fl x \<noteq> None \<and> fl y \<noteq> None"
  by (auto simp: np_pct_def np_op_def and_then_Inr_iff is_float_fmul is_float_fl
      split: option.splits)

lemma analyze_prints:
  assumes "da_district_data self = Some df" "extract_demographics df = Inr d"
    "demographic_pcts d = Inr [(''Hispanic'', h), (''Black'', b), (''Asian'', a), (''White'', w)]"
    "fl (dm_population d) = Some pv" "fl (dm_cvap d) = Some cv"
    "fl h = Some h'" "fl b = Some b'" "fl a = Some a'" "fl w = Some w'"
  shows "\<exists>rest. effects (analyze_demographics plotted opened self) =
     [Print ''CA-13 Demographic Analysis'' [],
      Print (replicate 50 CHR ''='') [],
      Print ''Total Population: {:,.0f}'' [dm_population d],
      Print ''Citizen Voting Age Population: {:,.0f}'' [dm_cvap d],
      Print ''CVAP Demographic Breakdown:'' [],
      Print ''{}: {:.1f}%'' [VStr ''Hispanic'', h],
      Print ''{}: {:.1f}%'' [VStr ''Black'', b],
      Print ''{}: {:.1f}%'' [VStr ''Asian'', a],
      Print ''{}: {:.1f}%'' [VStr ''White'', w]] @ rest"
  using assms
  by (simp add: analyze_demographics_def run_simps)


lemma get_election_data_table:
  assumes "result (get_election_data got read_csv ()) = Returns (Some t)"
  shows "\<exists>st di dv rv tv ds rs.
           frame_col t ''state'' = Inr st \<and> (\<forall>v\<in>set st. v = VStr ''CALIFORNIA'')
         \<and> frame_col t ''district'' = Inr di \<and> (\<forall>v\<in>set di. fl v = Some (VNum 13))
         \<and> frame_col t ''democratic_votes'' = Inr dv
         \<and> frame_col t ''republican_votes'' = Inr rv
         \<and> frame_col t ''total_votes'' = Inr tv
         \<and> frame_col t ''democratic_vote_share'' = Inr ds
         \<and> frame_col t ''republican_vote_share'' = Inr rs
         \<and> shares_ok dv tv ds \<and> shares_ok rv tv rs"
proof -
  obtain df c13 where c13: "ca13_rows df = Inr c13" and t: "add_vote_shares c13 = Inr t"
    using get_election_data_Some [of got read_csv t] assms by (auto simp: result_def)
  obtain dv rv tv ds rs where
    t_eq: "t = frame_assign ''republican_vote_share'' rs
                 (frame_assign ''democratic_vote_share'' ds c13)"
    and cols: "frame_col c13 ''democratic_votes'' = Inr dv"
      "frame_col c13 ''republican_votes'' = Inr rv" "frame_col c13 ''total_votes'' = Inr tv"
    and ok: "shares_ok dv tv ds" "shares_ok rv tv rs"
    using add_vote_shares_columns [OF t] by blast
  obtain st di where
    rows: "frame_col c13 ''state'' = Inr st" "\<forall>v\<in>set st. v = VStr ''CALIFORNIA''"
      "frame_col c13 ''district'' = Inr di" "\<forall>v\<in>set di. fl v = Some (VNum 13)"
    using ca13_rows_only [OF c13] by blast
  have "frame_col t ''state'' = Inr st" "frame_col t ''district'' = Inr di"
    "frame_col t ''democratic_votes'' = Inr dv" "frame_col t ''republican_votes'' = Inr rv"
    "frame_col t ''total_votes'' = Inr tv" "frame_col t ''democratic_vote_share'' = Inr ds"
    "frame_col t ''republican_vote_share'' = Inr rs"
    using cols rows(1,3) by (simp_all add: t_eq frame_col_assign)
  with ok rows(2,4) show ?thesis by blast
qed

lemma demographic_pcts_structure:
  assumes "demographic_pcts d = Inr pcts"
  shows "\<exists>h b a w. pcts = [(''Hispanic'', h), (''Black'', b), (''Asian'', a), (''White'', w)]
      \<and> np_pct (dm_hispanic d) (dm_cvap d) = Inr h \<and> np_pct (dm_black d) (dm_cvap d) = Inr b
      \<and> np_pct (dm_asian d) (dm_cvap d) = Inr a \<and> np_pct (dm_white d) (dm_cvap d) = Inr w"
  using assms unfolding demographic_pcts_def Let_def
  by (auto simp: and_then_Inr_iff)

lemma extract_demographics_cells:
  assumes "extract_demographics df = Inr d"
  shows "first_cell df ''POPULATION'' = Inr (dm_population d)
       \<and> first_cell df ''CVAP_19'' = Inr (dm_cvap d)
       \<and> first_cell df ''HSP_CVAP_1'' = Inr (dm_hispanic d)
       \<and> first_cell df ''DOJ_NH_BLK'' = Inr (dm_black d)
       \<and> first_cell df ''DOJ_NH_ASN'' = Inr (dm_asian d)
       \<and> first_cell df ''NH_WHT_CVA'' = Inr (dm_white d)"
  using assms unfolding extract_demographics_def
  by (auto simp: and_then_Inr_iff)

lemma analyze_prints_pcts:
  assumes "da_district_data self = Some df" "extract_demographics df = Inr d"
    "demographic_pcts d = Inr pcts" "fl (dm_population d) \<noteq> None"
  shows "\<forall>x\<in>set pcts. Print ''{}: {:.1f}%'' [VStr (fst x), snd x]
           \<in> set (effects (analyze_demographics plotted opened self))"
proof -
  obtain h b a w where p: "pcts = [(''Hispanic'', h), (''Black'', b), (''Asian'', a), (''White'', w)]"
    and n: "np_pct (dm_hispanic d) (dm_cvap d) = Inr h" "np_pct (dm_black d) (dm_cvap d) = Inr b"
       "np_pct (dm_asian d) (dm_cvap d) = Inr a" "np_pct (dm_white d) (dm_cvap d) = Inr w"
    using demographic_pcts_structure [OF assms(3)] by blast
  obtain pv where pv: "fl (dm_population d) = Some pv" using assms(4) by auto
  have f: "fl h = Some h" "fl b = Some b" "fl a = Some a" "fl w = Some w"
    using n np_pct_numeric by blast+
  obtain cv where cv: "fl (dm_cvap d) = Some cv" using n(1) np_pct_numeric by blast
  obtain rest where "effects (analyze_demographics plotted opened self) =
     [Print ''CA-13 Demographic Analysis'' [],
      Print (replicate 50 CHR ''='') [],
      Print ''Total Population: {:,.0f}'' [dm_population d],
      Print ''Citizen Voting Age Population: {:,.0f}'' [dm_cvap d],
      Print ''CVAP Demographic Breakdown:'' [],
      Print ''{}: {:.1f}%'' [VStr ''Hispanic'', h],
      Print ''{}: {:.1f}%'' [VStr ''Black'', b],
      Print ''{}: {:.1f}%'' [VStr ''Asian'', a],
      Print ''{}: {:.1f}%'' [VStr ''White'', w]] @ rest"
    using analyze_prints [OF assms(1,2) assms(3) [unfolded p] pv cv f] by blast
  then show ?thesis by (simp add: p)
qed

lemma run_script_alt:
  "run_script m s =
     (case result (m s) of
        Returns _ \<Rightarrow> (0, effects (m s))
      | Raises e \<Rightarrow> (1, effects (m s) @ [Traceback e]))"
  by (simp add: run_script_def result_def effects_def split: prod.splits outcome.splits)

lemma frame_col_missing:
  "c \<notin> set (frame_columns df) \<Longrightarrow> frame_col df c = Inl (Exn ''KeyError'' c)"
  by (simp add: frame_col_def frame_columns_def map_of_eq_None_iff split: option.splits)

lemma first_cell_missing:
  "c \<notin> set (frame_columns df) \<Longrightarrow> first_cell df c = Inl (Exn ''KeyError'' c)"
  by (simp add: first_cell_def frame_col_missing and_then_def)

lemma first_cell_error_class:
  "first_cell df c = Inl e \<Longrightarrow> exn_class e = ''KeyError'' \<or> exn_class e = ''IndexError''"
  by (auto simp: first_cell_def frame_col_def iloc0_def and_then_def
      split: option.splits list.splits)

lemma extract_demographics_missing:
  assumes "c \<in> set required_columns" "c \<notin> set (frame_columns df)"
  shows "\<exists>e. extract_demographics df = Inl e
           \<and> (exn_class e = ''KeyError'' \<or> exn_class e = ''IndexError'')"
proof -
  have m: "first_cell df c = Inl (Exn ''KeyError'' c)"
    using assms(2) by (rule first_cell_missing)
  show ?thesis
    using assms(1) m first_cell_error_class [of df]
    by (auto simp: extract_demographics_def required_columns_def and_then_def
        split: sum.splits)
qed

lemma analyze_demographics_missing:
  assumes "da_district_data self = Some df"
    and "c \<in> set required_columns" "c \<notin> set (frame_columns df)"
  shows "\<exists>e. analyze_demographics plotted opened self = (Raises e, self, [])
           \<and> (exn_class e = ''KeyError'' \<or> exn_class e = ''IndexError'')"
proof -
  obtain e where e: "extract_demographics df = Inl e"
      "exn_class e = ''KeyError'' \<or> exn_class e = ''IndexError''"
    using extract_demographics_missing [OF assms(2,3)] by blast
  have "analyze_demographics plotted opened self = (Raises e, self, [])"
    using assms(1) e(1)
    by (simp add: analyze_demographics_def prog_defs)
  with e(2) show ?thesis by blast
qed


text \<open>
  C3.  Whenever \<open>get_election_data\<close> returns a table, every row of it is a row of
  California's district 13, and its columns \<open>democratic_vote_share\<close> and
  \<open>republican_vote_share\<close> are, row by row, \<open>democratic_votes / total_votes * 100\<close> and
  \<open>republican_votes / total_votes * 100\<close> as numpy divides and multiplies; on finite numbers
  with a total that is not zero this is the real number \<open>votes / total * 100\<close>.
  \<open>CA13DemographicAnalyzer.analyze_demographics\<close> reads the total CVAP and the four group
  counts from the first row of the loaded table, computes for exactly the four groups
  Hispanic, Black, Asian and White the group's count divided by the total CVAP times 100
  in the same arithmetic, and prints each of these percentages.
\<close>

theorem C3_shares_are_votes_over_total:
  "(result (get_election_data got read_csv ()) = Returns (Some t) \<longrightarrow>
      (\<exists>st di dv rv tv ds rs.
           frame_col t ''state'' = Inr st \<and> (\<forall>v\<in>set st. v = VStr ''CALIFORNIA'')
         \<and> frame_col t ''district'' = Inr di \<and> (\<forall>v\<in>set di. fl v = Some (VNum 13))
         \<and> frame_col t ''democratic_votes'' = Inr dv
         \<and> frame_col t ''republican_votes'' = Inr rv
         \<and> frame_col t ''total_votes'' = Inr tv
         \<and> frame_col t ''democratic_vote_share'' = Inr ds
         \<and> frame_col t ''republican_vote_share'' = Inr rs
         \<and> shares_ok dv tv ds \<and> shares_ok rv tv rs))
   \<and> (fl x = Some (VNum p) \<and> fl y = Some (VNum q) \<and> q \<noteq> 0 \<longrightarrow>
        np_pct x y = Inr (VNum (p / q * 100)))
   \<and> (da_district_data self = Some df \<and> extract_demographics df = Inr d
        \<and> demographic_pcts d = Inr pcts \<and> fl (dm_population d) \<noteq> None \<longrightarrow>
          first_cell df ''CVAP_19'' = Inr (dm_cvap d)
        \<and> first_cell df ''HSP_CVAP_1'' = Inr (dm_hispanic d)
        \<and> first_cell df ''DOJ_NH_BLK'' = Inr (dm_black d)
        \<and> first_cell df ''DOJ_NH_ASN'' = Inr (dm_asian d)
        \<and> first_cell df ''NH_WHT_CVA'' = Inr (dm_white d)
        \<and> (\<exists>h b a w.
              pcts = [(''Hispanic'', h), (''Black'', b), (''Asian'', a), (''White'', w)]
            \<and> np_pct (dm_hispanic d) (dm_cvap d) = Inr h
            \<and> np_pct (dm_black d) (dm_cvap d) = Inr b
            \<and> np_pct (dm_asian d) (dm_cvap d) = Inr a
            \<and> np_pct (dm_white d) (dm_cvap d) = Inr w)
        \<and> (\<forall>x\<in>set pcts. Print ''{}: {:.1f}%'' [VStr (fst x), snd x]
              \<in> set (effects (analyze_demographics plotted opened self))))"
proof (intro conjI impI)
  assume "result (get_election_data got read_csv ()) = Returns (Some t)"
  then show "\<exists>st di dv rv tv ds rs.
           frame_col t ''state'' = Inr st \<and> (\<forall>v\<in>set st. v = VStr ''CALIFORNIA'')
         \<and> frame_col t ''district'' = Inr di \<and> (\<forall>v\<in>set di. fl v = Some (VNum 13))
         \<and> frame_col t ''democratic_votes'' = Inr dv
         \<and> frame_col t ''republican_votes'' = Inr rv
         \<and> frame_col t ''total_votes'' = Inr tv
         \<and> frame_col t ''democratic_vote_share'' = Inr ds
         \<and> frame_col t ''republican_vote_share'' = Inr rs
         \<and> shares_ok dv tv ds \<and> shares_ok rv tv rs"
    by (rule get_election_data_table)
next
  assume "fl x = Some (VNum p) \<and> fl y = Some (VNum q) \<and> q \<noteq> 0"
  then show "np_pct x y = Inr (VNum (p / q * 100))"
    by (simp add: np_pct_finite)
next
  assume a: "da_district_data self = Some df \<and> extract_demographics df = Inr d
        \<and> demographic_pcts d = Inr pcts \<and> fl (dm_population d) \<noteq> None"
  show "first_cell df ''CVAP_19'' = Inr (dm_cvap d)"
    "first_cell df ''HSP_CVAP_1'' = Inr (dm_hispanic d)"
    "first_cell df ''DOJ_NH_BLK'' = Inr (dm_black d)"
    "first_cell df ''DOJ_NH_ASN'' = Inr (dm_asian d)"
    "first_cell df ''NH_WHT_CVA'' = Inr (dm_white d)"
    using a extract_demographics_cells [of df d] by simp_all
  show "\<exists>h b a w.
              pcts = [(''Hispanic'', h), (''Black'', b), (''Asian'', a), (''White'', w)]
            \<and> np_pct (dm_hispanic d) (dm_cvap d) = Inr h
            \<and> np_pct (dm_black d) (dm_cvap d) = Inr b
            \<and> np_pct (dm_asian d) (dm_cvap d) = Inr a
            \<and> np_pct (dm_white d) (dm_cvap d) = Inr w"
    using a demographic_pcts_structure [of d pcts] by simp
  show "\<forall>x\<in>set pcts. Print ''{}: {:.1f}%'' [VStr (fst x), snd x]
              \<in> set (effects (analyze_demographics plotted opened self))"
    using a analyze_prints_pcts [of self df d pcts plotted opened] by simp
qed

theorem C3_shares_witness:
  "result (get_election_data
      (Inr \<lparr>status_code = 200, body_text = ''csv'', body_json = Inr VNone\<rparr>)
      (\<lambda>_. Inr [(''state'', [VStr ''CALIFORNIA'', VStr ''TEXAS'']),
                 (''district'', [VInt 13, VInt 13]),
                 (''democratic_votes'', [VInt 30, VInt 1]),
                 (''republican_votes'', [VInt 10, VInt 1]),
                 (''total_votes'', [VInt 40, VInt 2])]) ()) =
     Returns (Some [(''state'', [VStr ''CALIFORNIA'']), (''district'', [VInt 13]),
                 (''democratic_votes'', [VInt 30]), (''republican_votes'', [VInt 10]),
                 (''total_votes'', [VInt 40]), (''democratic_vote_share'', [VNum 75]),
                 (''republican_vote_share'', [VNum 25])])
   \<and> np_pct (VInt 30) (VInt 40) = Inr (VNum 75)
   \<and> extract_demographics
        [(''POPULATION'', [VInt 1000]), (''CVAP_19'', [VInt 500]), (''HSP_CVAP_1'', [VInt 250]),
         (''DOJ_NH_BLK'', [VInt 50]), (''DOJ_NH_ASN'', [VInt 100]), (''NH_WHT_CVA'', [VInt 100])]
      = Inr \<lparr>dm_population = VInt 1000, dm_cvap = VInt 500, dm_hispanic = VInt 250,
             dm_black = VInt 50, dm_asian = VInt 100, dm_white = VInt 100\<rparr>
   \<and> demographic_pcts \<lparr>dm_population = VInt 1000, dm_cvap = VInt 500, dm_hispanic = VInt 250,
             dm_black = VInt 50, dm_asian = VInt 100, dm_white = VInt 100\<rparr>
      = Inr [(''Hispanic'', VNum 50), (''Black'', VNum 10), (''Asian'', VNum 20),
             (''White'', VNum 20)]
   \<and> Print ''{}: {:.1f}%'' [VStr ''Hispanic'', VNum 50]
        \<in> set (effects (analyze_demographics (Inr (), Inr ()) (Inr ())
              \<lparr>da_district_data = Some
                [(''POPULATION'', [VInt 1000]), (''CVAP_19'', [VInt 500]),
                 (''HSP_CVAP_1'', [VInt 250]), (''DOJ_NH_BLK'', [VInt 50]),
                 (''DOJ_NH_ASN'', [VInt 100]), (''NH_WHT_CVA'', [VInt 100])]\<rparr>))"
  using C3_shares_are_votes_over_total
    [of "Inr \<lparr>status_code = 200, body_text = ''csv'', body_json = Inr VNone\<rparr>"
      "\<lambda>_. Inr [(''state'', [VStr ''CALIFORNIA'', VStr ''TEXAS'']),
                 (''district'', [VInt 13, VInt 13]),
                 (''democratic_votes'', [VInt 30, VInt 1]),
                 (''republican_votes'', [VInt 10, VInt 1]),
                 (''total_votes'', [VInt 40, VInt 2])]"
      "[(''state'', [VStr ''CALIFORNIA'']), (''district'', [VInt 13]),
                 (''democratic_votes'', [VInt 30]), (''republican_votes'', [VInt 10]),
                 (''total_votes'', [VInt 40]), (''democratic_vote_share'', [VNum 75]),
                 (''republican_vote_share'', [VNum 25])]"
      "VInt 30" 30 "VInt 40" 40
      "\<lparr>da_district_data = Some
                [(''POPULATION'', [VInt 1000]), (''CVAP_19'', [VInt 500]),
                 (''HSP_CVAP_1'', [VInt 250]), (''DOJ_NH_BLK'', [VInt 50]),
                 (''DOJ_NH_ASN'', [VInt 100]), (''NH_WHT_CVA'', [VInt 100])]\<rparr>"
      "[(''POPULATION'', [VInt 1000]), (''CVAP_19'', [VInt 500]), (''HSP_CVAP_1'', [VInt 250]),
         (''DOJ_NH_BLK'', [VInt 50]), (''DOJ_NH_ASN'', [VInt 100]), (''NH_WHT_CVA'', [VInt 100])]"
      "\<lparr>dm_population = VInt 1000, dm_cvap = VInt 500, dm_hispanic = VInt 250,
             dm_black = VInt 50, dm_asian = VInt 100, dm_white = VInt 100\<rparr>"
      "[(''Hispanic'', VNum 50), (''Black'', VNum 10), (''Asian'', VNum 20),
             (''White'', VNum 20)]"
      "(Inr (), Inr ())" "Inr ()"]
  by (simp add: get_election_data_def run_simps raise_for_status_def ca13_rows_def
        add_vote_shares_def frame_defs eq_num_def extract_demographics_def first_cell_def
        iloc0_def demographic_pcts_def np_pct_def Let_def)

lemma first_cell_nonempty:
  assumes "\<forall>cv\<in>set df. snd cv \<noteq> []"
  shows "first_cell df c =
     (if c \<in> set (frame_columns df) then Inr (hd (the (map_of df c)))
      else Inl (Exn ''KeyError'' c))"
proof (cases "c \<in> set (frame_columns df)")
  case False
  then show ?thesis by (simp add: first_cell_missing)
next
  case True
  then obtain vs where vs: "map_of df c = Some vs"
    by (cases "map_of df c") (auto simp: frame_columns_def map_of_eq_None_iff)
  then have "(c, vs) \<in> set df" by (rule map_of_SomeD)
  then have "vs \<noteq> []" using assms by auto
  then show ?thesis using vs True
    by (cases vs) (simp_all add: first_cell_def frame_col_def iloc0_def and_then_def)
qed

lemma extract_demographics_first_missing:
  assumes "\<forall>cv\<in>set df. snd cv \<noteq> []"
    and "find (\<lambda>c. c \<notin> set (frame_columns df)) required_columns = Some c"
  shows "extract_demographics df = Inl (Exn ''KeyError'' c)"
  using assms(2)
  by (simp add: extract_demographics_def required_columns_def and_then_def
      first_cell_nonempty [OF assms(1)] split: if_splits)

lemma main_missing_column:
  assumes "fs ''data/processed/CA13_boundary.geojson'' = Some (Inr df)"
    and "analyze_demographics plotted opened \<lparr>da_district_data = Some df\<rparr> =
           (Raises e, \<lparr>da_district_data = Some df\<rparr>, [])"
  shows "CA13DemographicAnalyzer_main (Inr ()) fs plotted opened =
     (1, [Mkdir ''data/analysis'', Print ''Entry'' [],
          Print ''Successfully loaded CA-13 data'' [], Traceback e])"
proof -
  have r: "result (analyze_demographics plotted opened \<lparr>da_district_data = Some df\<rparr>) = Raises e"
    and ef: "effects (analyze_demographics plotted opened \<lparr>da_district_data = Some df\<rparr>) = []"
    using assms(2) by (simp_all add: result_def effects_def)
  show ?thesis
    using assms(1) r ef
    by (simp add: CA13DemographicAnalyzer_main_def run_script_alt run_simps
      CA13DemographicAnalyzer_init_def CA13DemographicAnalyzer_load_data_def gpd_read_file_def)
qed

text \<open>
  C5.  \<open>analyze_demographics\<close> looks its columns up without checking that they exist.  Run
  on a loaded table that lacks one of \<open>POPULATION\<close>, \<open>CVAP_19\<close>, \<open>HSP_CVAP_1\<close>,
  \<open>DOJ_NH_BLK\<close>, \<open>DOJ_NH_ASN\<close>, \<open>NH_WHT_CVA\<close>, it aborts: it ends with an exception
  (\<open>KeyError\<close>, or \<open>IndexError\<close> when the table has no rows) before it has printed, plotted
  or written anything and without changing the analyzer; when every column has a row, the
  exception is the \<open>KeyError\<close> naming the first of the six columns that is absent.  The
  method and its caller catch nothing, so in the script the exception reaches the top
  level: the traceback, which describes the error, is written and the script exits with
  status 1.
\<close>

theorem C5_missing_column_aborts:
  "da_district_data self = Some df \<and> c \<in> set required_columns
     \<and> c \<notin> set (frame_columns df) \<longrightarrow>
     (\<exists>e. result (analyze_demographics plotted opened self) = Raises e
        \<and> (exn_class e = ''KeyError'' \<or> exn_class e = ''IndexError'')
        \<and> effects (analyze_demographics plotted opened self) = []
        \<and> self_after (analyze_demographics plotted opened self) = self
        \<and> ((\<forall>cv\<in>set df. snd cv \<noteq> []) \<longrightarrow>
              (\<exists>c'. find (\<lambda>c. c \<notin> set (frame_columns df)) required_columns = Some c'
                 \<and> e = Exn ''KeyError'' c'))
        \<and> (fs ''data/processed/CA13_boundary.geojson'' = Some (Inr df) \<longrightarrow>
              CA13DemographicAnalyzer_main (Inr ()) fs plotted opened =
                (1, [Mkdir ''data/analysis'', Print ''Entry'' [],
                     Print ''Successfully loaded CA-13 data'' [], Traceback e])))"
proof (intro impI)
  assume a: "da_district_data self = Some df \<and> c \<in> set required_columns
     \<and> c \<notin> set (frame_columns df)"
  then have self: "self = \<lparr>da_district_data = Some df\<rparr>" by (cases self) simp
  obtain e where x: "extract_demographics df = Inl e"
    and cl: "exn_class e = ''KeyError'' \<or> exn_class e = ''IndexError''"
    using extract_demographics_missing [of c df] a by blast
  have e: "analyze_demographics plotted opened self = (Raises e, self, [])"
    using a x by (simp add: analyze_demographics_def prog_defs)
  have first: "(\<forall>cv\<in>set df. snd cv \<noteq> []) \<longrightarrow>
              (\<exists>c'. find (\<lambda>c. c \<notin> set (frame_columns df)) required_columns = Some c'
                 \<and> e = Exn ''KeyError'' c')"
  proof
    assume ne: "\<forall>cv\<in>set df. snd cv \<noteq> []"
    obtain c' where c': "find (\<lambda>c. c \<notin> set (frame_columns df)) required_columns = Some c'"
      using a by (cases "find (\<lambda>c. c \<notin> set (frame_columns df)) required_columns")
        (auto simp: find_None_iff)
    then have "extract_demographics df = Inl (Exn ''KeyError'' c')"
      using ne by (simp add: extract_demographics_first_missing)
    with x c' show "\<exists>c'. find (\<lambda>c. c \<notin> set (frame_columns df)) required_columns = Some c'
                 \<and> e = Exn ''KeyError'' c'" by simp
  qed
  have main: "fs ''data/processed/CA13_boundary.geojson'' = Some (Inr df) \<longrightarrow>
              CA13DemographicAnalyzer_main (Inr ()) fs plotted opened =
                (1, [Mkdir ''data/analysis'', Print ''Entry'' [],
                     Print ''Successfully loaded CA-13 data'' [], Traceback e])"
    using main_missing_column [of fs df plotted opened e] e self by simp
  show "\<exists>e. result (analyze_demographics plotted opened self) = Raises e
        \<and> (exn_class e = ''KeyError'' \<or> exn_class e = ''IndexError'')
        \<and> effects (analyze_demographics plotted opened self) = []
        \<and> self_after (analyze_demographics plotted opened self) = self
        \<and> ((\<forall>cv\<in>set df. snd cv \<noteq> []) \<longrightarrow>
              (\<exists>c'. find (\<lambda>c. c \<notin> set (frame_columns df)) required_columns = Some c'
                 \<and> e = Exn ''KeyError'' c'))
        \<and> (fs ''data/processed/CA13_boundary.geojson'' = Some (Inr df) \<longrightarrow>
              CA13DemographicAnalyzer_main (Inr ()) fs plotted opened =
                (1, [Mkdir ''data/analysis'', Print ''Entry'' [],
                     Print ''Successfully loaded CA-13 data'' [], Traceback e]))"
    using e cl first main
    by (intro exI [of _ e]) (simp add: result_def effects_def self_after_def)
qed

theorem C5_missing_column_witness:
  "result (analyze_demographics (Inr (), Inr ()) (Inr ())
      \<lparr>da_district_data = Some [(''POPULATION'', [VInt 1000]), (''HSP_CVAP_1'', [VInt 250])]\<rparr>)
     = Raises (Exn ''KeyError'' ''CVAP_19'')
   \<and> effects (analyze_demographics (Inr (), Inr ()) (Inr ())
      \<lparr>da_district_data = Some [(''POPULATION'', [VInt 1000]), (''HSP_CVAP_1'', [VInt 250])]\<rparr>)
     = []
   \<and> CA13DemographicAnalyzer_main (Inr ())
        [''data/processed/CA13_boundary.geojson'' \<mapsto>
           Inr [(''POPULATION'', [VInt 1000]), (''HSP_CVAP_1'', [VInt 250])]]
        (Inr (), Inr ()) (Inr ()) =
       (1, [Mkdir ''data/analysis'', Print ''Entry'' [],
            Print ''Successfully loaded CA-13 data'' [],
            Traceback (Exn ''KeyError'' ''CVAP_19'')])"
  using C5_missing_column_aborts
    [of "\<lparr>da_district_data = Some [(''POPULATION'', [VInt 1000]), (''HSP_CVAP_1'', [VInt 250])]\<rparr>"
      "[(''POPULATION'', [VInt 1000]), (''HSP_CVAP_1'', [VInt 250])]" "''CVAP_19''"
      "(Inr (), Inr ())" "Inr ()"
      "[''data/processed/CA13_boundary.geojson'' \<mapsto>
           Inr [(''POPULATION'', [VInt 1000]), (''HSP_CVAP_1'', [VInt 250])]]"]
  by (auto simp: required_columns_def frame_columns_def)


section \<open>Properties of the loaders, the district processor and the FEC fetcher\<close>

lemma silent_ret: "silent P (ret a)"
  and silent_raise: "silent P (raise e)"
  and silent_lib: "silent P (lib r)"
  and silent_get_self: "silent P get_self"
  and silent_set_self: "silent P (set_self g)"
  by (simp_all add: silent_def run_simps)

lemma silent_emit: "\<not> P ev \<Longrightarrow> silent P (emit ev)"
  by (simp add: silent_def run_simps)

lemma silent_do_then: "silent P m \<Longrightarrow> (\<And>a. silent P (f a)) \<Longrightarrow> silent P (do_then m f)"
  by (simp add: silent_def run_simps split: outcome.splits)

lemma silent_try_except: "silent P m \<Longrightarrow> (\<And>e. silent P (h e)) \<Longrightarrow> silent P (try_except m h)"
  by (simp add: silent_def run_simps split: outcome.splits)

lemma silent_seqs: "(\<And>m. m \<in> set ms \<Longrightarrow> silent P m) \<Longrightarrow> silent P (seqs ms)"
  by (induction ms) (simp_all add: silent_ret silent_do_then)

lemma silent_if: "(c \<Longrightarrow> silent P a) \<Longrightarrow> (\<not> c \<Longrightarrow> silent P b) \<Longrightarrow> silent P (if c then a else b)"
  by simp

lemma silent_print_f: "\<not> P (Print t (vs @ [v])) \<Longrightarrow> silent P (print_f t vs v)"
  by (simp add: silent_def run_simps split: option.splits)

lemma silent_print_candidate: "silent is_http_get (print_candidate c)"
  unfolding print_candidate_def
  by (intro silent_do_then silent_lib silent_emit) simp_all

lemma fetch_ca13_gets:
  "filter is_http_get (effects (fetch_ca13_candidates env self)) =
     [HttpGet (base_url @ ''/candidates/search'') (candidates_params self)]"
proof -
  let ?rest = "\<lambda>response.
        if status_code response = 200 then
          do_then (lib (body_json response)) (\<lambda>data.
          do_then (lib (fec_saved env)) (\<lambda>_.
          do_then (emit (WriteFile ''data/campaign_finance/ca13_candidates_raw.json'')) (\<lambda>_.
          do_then (emit (Print ''Found Candidates:'' [])) (\<lambda>_.
          do_then (emit (Print (replicate 50 CHR ''-'') [])) (\<lambda>_.
          do_then (lib (py_getitem data ''results'')) (\<lambda>results.
          do_then (lib (py_iter results)) (\<lambda>candidates.
          do_then (seqs (map print_candidate candidates)) (\<lambda>_.
          lib (py_getitem data ''results'')))))))))
        else
          do_then (emit (Print ''Error fetching candidates: {}'' [VInt (status_code response)]))
            (\<lambda>_.
          do_then (emit (Print ''{}'' [VStr (body_text response)])) (\<lambda>_.
          (ret VNone :: (FECDataFetcher, pyval) prog)))"
  have rest: "silent is_http_get (?rest r)" for r
    by (intro silent_if silent_do_then silent_lib silent_emit silent_ret silent_seqs)
       (auto simp: silent_print_candidate)
  have tail: "silent is_http_get
     (do_then (lib (fec_get env (base_url @ ''/candidates/search'') (candidates_params self)))
        ?rest :: (FECDataFetcher, pyval) prog)"
    by (intro silent_do_then silent_lib rest)
  have h: "silent is_http_get
     (\<lambda>s. do_then (emit (Print ''Error: {}'' [VStr (exn_str e)])) (\<lambda>_. ret VNone) (s::FECDataFetcher))" for e
    by (intro silent_do_then silent_emit silent_ret) simp
  show ?thesis
    using tail [unfolded silent_def, rule_format, of self] h [unfolded silent_def, rule_format]
    by (simp add: fetch_ca13_candidates_def run_simps split: outcome.splits)
qed


lemma fetch_financials_gets:
  "filter is_http_get (effects (fetch_candidate_financials env cid self)) =
     [HttpGet (base_url @ ''/candidate/'' @ cid @ ''/totals'') (financials_params self cid)]"
proof -
  let ?rest = "\<lambda>response.
        if status_code response = 200 then
          do_then (lib (body_json response)) (\<lambda>data.
          lib (py_getitem data ''results''))
        else
          do_then (emit (Print ''Error fetching financials for candidate {}: {}''
                           [VStr cid, VInt (status_code response)])) (\<lambda>_.
          (ret VNone :: (FECDataFetcher, pyval) prog))"
  have rest: "silent is_http_get (?rest r)" for r
    by (intro silent_if silent_do_then silent_lib silent_emit silent_ret) simp_all
  have tail: "silent is_http_get
     (do_then (lib (fec_get env (base_url @ ''/candidate/'' @ cid @ ''/totals'')
                        (financials_params self cid)))
        ?rest :: (FECDataFetcher, pyval) prog)"
    by (intro silent_do_then silent_lib rest)
  have h: "silent is_http_get
     (\<lambda>s. do_then (emit (Print ''Error: {}'' [VStr (exn_str e)])) (\<lambda>_. ret VNone) (s::FECDataFetcher))" for e
    by (intro silent_do_then silent_emit silent_ret) simp
  show ?thesis
    using tail [unfolded silent_def, rule_format, of self] h [unfolded silent_def, rule_format]
    by (simp add: fetch_candidate_financials_def run_simps split: outcome.splits)
qed

lemma try_except_returns:
  "(\<And>e s. \<exists>v. result (h e s) = Returns v) \<Longrightarrow> \<exists>v. result (try_except m h s) = Returns v"
  by (simp add: run_simps split: outcome.splits)

lemma fetch_ca13_returns: "\<exists>v. result (fetch_ca13_candidates env self) = Returns v"
  unfolding fetch_ca13_candidates_def
  by (rule try_except_returns) (simp add: run_simps)

lemma fetch_financials_returns: "\<exists>v. result (fetch_candidate_financials env cid self) = Returns v"
  unfolding fetch_candidate_financials_def
  by (rule try_except_returns) (simp add: run_simps)

lemma fetch_ca13_request_raises:
  "fec_get env (base_url @ ''/candidates/search'') (candidates_params self) = Inl e \<Longrightarrow>
     result (fetch_ca13_candidates env self) = Returns VNone
     \<and> effects (fetch_ca13_candidates env self) =
         [Print ''Fetching CA-13 candidates...'' [],
          HttpGet (base_url @ ''/candidates/search'') (candidates_params self),
          Print ''Error: {}'' [VStr (exn_str e)]]
     \<and> self_after (fetch_ca13_candidates env self) = self"
  by (simp add: fetch_ca13_candidates_def run_simps)

lemma fetch_ca13_not_200:
  "fec_get env (base_url @ ''/candidates/search'') (candidates_params self) = Inr r \<Longrightarrow>
   status_code r \<noteq> 200 \<Longrightarrow>
     result (fetch_ca13_candidates env self) = Returns VNone"
  by (simp add: fetch_ca13_candidates_def run_simps)

lemma fetch_financials_request_raises:
  "fec_get env (base_url @ ''/candidate/'' @ cid @ ''/totals'') (financials_params self cid) = Inl e
   \<Longrightarrow> result (fetch_candidate_financials env cid self) = Returns VNone"
  by (simp add: fetch_candidate_financials_def run_simps)

lemma fetch_financials_not_200:
  "fec_get env (base_url @ ''/candidate/'' @ cid @ ''/totals'') (financials_params self cid) = Inr r
   \<Longrightarrow> status_code r \<noteq> 200
   \<Longrightarrow> result (fetch_candidate_financials env cid self) = Returns VNone"
  by (simp add: fetch_candidate_financials_def run_simps)

lemma print_candidate_dict:
  "result (print_candidate (VDict kvs) s) = Returns ()" "self_after (print_candidate (VDict kvs) s) = s"
  by (simp_all add: print_candidate_def run_simps split: option.splits)

lemma print_candidates_dicts:
  "\<forall>c\<in>set cs. \<exists>kvs. c = VDict kvs \<Longrightarrow>
     result (seqs (map print_candidate cs) s) = Returns ()
     \<and> self_after (seqs (map print_candidate cs) s) = s"
  by (induction cs) (auto simp: run_simps print_candidate_dict)

lemma fetch_ca13_success:
  assumes "fec_get env (base_url @ ''/candidates/search'') (candidates_params self) = Inr r"
    "status_code r = 200" "body_json r = Inr data" "fec_saved env = Inr ()"
    "py_getitem data ''results'' = Inr results" "py_iter results = Inr cs"
    "\<forall>c\<in>set cs. \<exists>kvs. c = VDict kvs"
  shows "result (fetch_ca13_candidates env self) = Returns results"
  using assms print_candidates_dicts [of cs self]
  by (simp add: fetch_ca13_candidates_def run_simps)

lemma load_census_data_cases:
  "result (load_census_data (Inl e) self) = Returns (VBool False)"
  "effects (load_census_data (Inl e) self) = [Print ''Error loading census data: {}'' [VStr (exn_str e)]]"
  "self_after (load_census_data (Inl e) self) = self"
  "result (load_census_data (Inr df) self) = Returns (VBool True)"
  "self_after (load_census_data (Inr df) self) = self\<lparr>census_data := Some df\<rparr>"
  by (simp_all add: load_census_data_def run_simps)


lemma process_returns: "\<exists>v. result (process_district_data env self) = Returns v"
  unfolding process_district_data_def
  by (rule try_except_returns) (simp add: run_simps)

lemma process_missing_file:
  assumes "\<not> path_exists (pe_files env) shapefile_path"
  shows "result (process_district_data env self) = Returns (VBool False)"
    "self_after (process_district_data env self) = self"
    "effects (process_district_data env self) =
       [Print ''Error: Shapefile not found at {}'' [VStr shapefile_path]]"
  using assms by (simp_all add: process_district_data_def run_simps)

lemma process_read_raises:
  assumes "pe_files env shapefile_path = Some (Inl e)"
  shows "result (process_district_data env self) = Returns (VBool False)"
    "self_after (process_district_data env self) = self"
    "effects (process_district_data env self) =
       [Print ''Loading district data...'' [],
        Print ''Error processing district data: {}'' [VStr (exn_str e)]]"
  using assms
  by (simp_all add: process_district_data_def run_simps path_exists_def gpd_read_file_def)

lemma silent_create_district_maps: "(\<And>t vs. \<not> P (Print t vs)) \<Longrightarrow>
   (\<And>p. \<not> P (Mkdir p)) \<Longrightarrow> (\<And>p. \<not> P (Plot p)) \<Longrightarrow> silent P (create_district_maps env)"
  unfolding create_district_maps_def
  by (intro silent_do_then silent_get_self)
     (auto intro!: silent_try_except silent_do_then silent_emit silent_lib silent_ret
        split: option.splits)

lemma silent_extract_ca13: "silent is_input (extract_ca13 env df c)"
  unfolding extract_ca13_def
  by (intro silent_do_then silent_if silent_emit silent_lib silent_set_self silent_ret
        silent_create_district_maps) simp_all

lemma run_seqs_emits:
  "result (seqs (map emit evs) s) = Returns ()"
  "self_after (seqs (map emit evs) s) = s"
  "effects (seqs (map emit evs) s) = evs"
  by (induction evs) (simp_all add: run_simps)

lemma run_ask_for_column:
  "result (ask_for_column df s) = Returns ()"
  "self_after (ask_for_column df s) = s"
  "filter is_input (effects (ask_for_column df s)) = [Input ''Enter column number: '']"
proof -
  have e: "[emit (Print ''Could not automatically find district column.'' []),
              emit (Print ''Please select the column containing district numbers:'' [])]
             @ map (\<lambda>(i, col). emit (Print ''{}: {}'' [VInt (int i), VStr col]))
                 (enumerate 0 (frame_columns df))
             @ [emit (Input ''Enter column number: '')]
       = map emit ([Print ''Could not automatically find district column.'' [],
              Print ''Please select the column containing district numbers:'' []]
             @ map (\<lambda>(i, col). Print ''{}: {}'' [VInt (int i), VStr col])
                 (enumerate 0 (frame_columns df))
             @ [Input ''Enter column number: ''])"
    by (simp add: case_prod_beta comp_def)
  have f: "filter is_input (map (\<lambda>(i, col). Print ''{}: {}'' [VInt (int i), VStr col]) xs) = []"
    for xs :: "(nat \<times> string) list"
    by (induction xs) auto
  show "result (ask_for_column df s) = Returns ()" "self_after (ask_for_column df s) = s"
    unfolding ask_for_column_def e by (rule run_seqs_emits)+
  show "filter is_input (effects (ask_for_column df s)) = [Input ''Enter column number: '']"
    unfolding ask_for_column_def e run_seqs_emits by (simp add: f)
qed

lemma choose_inputs:
  "filter is_input (effects (choose_district_column env df s)) =
     (if find (\<lambda>col. col \<in> set (frame_columns df)) district_cols = None
      then [Input ''Enter column number: ''] else [])"
  unfolding choose_district_column_def
  by (simp add: run_simps run_ask_for_column split: option.splits sum.splits)

lemma process_inputs_loaded:
  assumes "pe_files env shapefile_path = Some (Inr df)"
  shows "filter is_input (effects (process_district_data env self)) =
     (if find (\<lambda>col. col \<in> set (frame_columns df)) district_cols = None
      then [Input ''Enter column number: ''] else [])"
  using assms choose_inputs [of env df "self\<lparr>cp_district_data := Some df\<rparr>"]
    silent_extract_ca13 [unfolded silent_def, rule_format, of env df]
  by (simp add: process_district_data_def run_simps path_exists_def gpd_read_file_def
      split: outcome.splits)

lemma process_inputs_not_loaded:
  assumes "pe_files env shapefile_path = None \<or> (\<exists>e. pe_files env shapefile_path = Some (Inl e))"
  shows "filter is_input (effects (process_district_data env self)) = []"
  using assms
  by (auto simp: process_district_data_def run_simps path_exists_def gpd_read_file_def)


lemma run_create_district_maps:
  "result (create_district_maps env s) = Returns ()"
  "self_after (create_district_maps env s) = s"
  by (simp_all add: create_district_maps_def run_simps split: option.splits sum.splits)

lemma process_success:
  assumes "pe_files env shapefile_path = Some (Inr df)"
    "find (\<lambda>col. col \<in> set (frame_columns df)) district_cols = Some col"
    "frame_col df col = Inr vals"
    "frame_len (frame_filter (map str_strip_is_13 vals) df) \<noteq> 0"
    "pe_mkdir env = Inr ()" "pe_to_file env = Inr ()"
  shows "result (process_district_data env self) = Returns (VBool True)"
    "self_after (process_district_data env self) =
       self\<lparr>cp_district_data := Some df,
            cp_ca13_data := Some (frame_filter (map str_strip_is_13 vals) df)\<rparr>"
    "WriteFile ''data/processed/CA13_boundary.geojson''
       \<in> set (effects (process_district_data env self))"
  using assms
  by (simp_all add: process_district_data_def choose_district_column_def extract_ca13_def
      run_simps run_create_district_maps path_exists_def gpd_read_file_def)

lemma silent_analyze_district_data: "silent is_input (analyze_district_data env)"
  unfolding analyze_district_data_def
  by (intro silent_do_then silent_get_self)
     (auto intro!: silent_seqs silent_emit silent_ret silent_print_f silent_do_then silent_lib
        split: option.splits)

lemma main_inputs:
  "filter is_input (snd (CA13Processor_main env)) =
     filter is_input (effects (process_district_data env CA13Processor_init))"
  using silent_analyze_district_data [unfolded silent_def, rule_format, of env]
  by (simp add: CA13Processor_main_def run_script_alt run_simps split: outcome.splits)

lemma load_data_missing_file:
  assumes "fs ''data/processed/CA13_boundary.geojson'' = None"
  shows "result (CA13DemographicAnalyzer_load_data fs self) = Returns (VBool False)"
    "self_after (CA13DemographicAnalyzer_load_data fs self) = self"
    "effects (CA13DemographicAnalyzer_load_data fs self) =
       [Print ''Error loading data: {}''
          [VStr (''data/processed/CA13_boundary.geojson'' @ '': No such file or directory'')]]"
  using assms
  by (simp_all add: CA13DemographicAnalyzer_load_data_def run_simps gpd_read_file_def)

lemma load_data_failed:
  assumes "result (CA13DemographicAnalyzer_load_data fs self) = Returns (VBool False)"
  shows "self_after (CA13DemographicAnalyzer_load_data fs self) = self"
    "\<exists>t vs. effects (CA13DemographicAnalyzer_load_data fs self) = [Print t vs]"
  using assms
  by (simp_all add: CA13DemographicAnalyzer_load_data_def run_simps split: sum.splits)

text \<open>
  C1.  Each of the three loading operations has its whole body in one \<open>try\<close> whose handler
  prints and returns a sentinel, so none of them ever ends with an exception.  When the
  read (\<open>gpd.read_file\<close>, \<open>pd.read_csv\<close>) or the request (\<open>requests.get\<close>) raises, the
  operation prints a message with the text of the exception, returns \<open>False\<close>
  (\<open>process_district_data\<close>, \<open>load_census_data\<close>) or \<open>None\<close> (\<open>fetch_ca13_candidates\<close>) and
  leaves the attributes as they were.  When every step succeeds, \<open>process_district_data\<close>
  and \<open>load_census_data\<close> return \<open>True\<close> and \<open>fetch_ca13_candidates\<close> returns the list under
  \<open>results\<close> of the response.
\<close>

theorem C1_load_errors_are_caught:
  "(\<exists>v. result (process_district_data env self) = Returns v)
   \<and> (pe_files env shapefile_path = Some (Inl e) \<longrightarrow>
        result (process_district_data env self) = Returns (VBool False)
      \<and> effects (process_district_data env self) =
          [Print ''Loading district data...'' [],
           Print ''Error processing district data: {}'' [VStr (exn_str e)]]
      \<and> self_after (process_district_data env self) = self)
   \<and> (pe_files env shapefile_path = Some (Inr df)
        \<and> find (\<lambda>col. col \<in> set (frame_columns df)) district_cols = Some col
        \<and> frame_col df col = Inr vals
        \<and> frame_len (frame_filter (map str_strip_is_13 vals) df) \<noteq> 0
        \<and> pe_mkdir env = Inr () \<and> pe_to_file env = Inr () \<longrightarrow>
        result (process_district_data env self) = Returns (VBool True))
   \<and> result (load_census_data (Inl e) an) = Returns (VBool False)
   \<and> effects (load_census_data (Inl e) an) =
        [Print ''Error loading census data: {}'' [VStr (exn_str e)]]
   \<and> self_after (load_census_data (Inl e) an) = an
   \<and> result (load_census_data (Inr df) an) = Returns (VBool True)
   \<and> self_after (load_census_data (Inr df) an) = an\<lparr>census_data := Some df\<rparr>
   \<and> (\<exists>v. result (fetch_ca13_candidates fenv fetcher) = Returns v)
   \<and> (fec_get fenv (base_url @ ''/candidates/search'') (candidates_params fetcher) = Inl e \<longrightarrow>
        result (fetch_ca13_candidates fenv fetcher) = Returns VNone
      \<and> effects (fetch_ca13_candidates fenv fetcher) =
          [Print ''Fetching CA-13 candidates...'' [],
           HttpGet (base_url @ ''/candidates/search'') (candidates_params fetcher),
           Print ''Error: {}'' [VStr (exn_str e)]]
      \<and> self_after (fetch_ca13_candidates fenv fetcher) = fetcher)
   \<and> (fec_get fenv (base_url @ ''/candidates/search'') (candidates_params fetcher) = Inr r
        \<and> status_code r = 200 \<and> body_json r = Inr data \<and> fec_saved fenv = Inr ()
        \<and> py_getitem data ''results'' = Inr results \<and> py_iter results = Inr cs
        \<and> (\<forall>c\<in>set cs. \<exists>kvs. c = VDict kvs) \<longrightarrow>
        result (fetch_ca13_candidates fenv fetcher) = Returns results)"
proof (intro conjI impI)
  show "\<exists>v. result (process_district_data env self) = Returns v"
    by (rule process_returns)
  show "\<exists>v. result (fetch_ca13_candidates fenv fetcher) = Returns v"
    by (rule fetch_ca13_returns)
  show "result (load_census_data (Inl e) an) = Returns (VBool False)"
    "effects (load_census_data (Inl e) an) =
        [Print ''Error loading census data: {}'' [VStr (exn_str e)]]"
    "self_after (load_census_data (Inl e) an) = an"
    "result (load_census_data (Inr df) an) = Returns (VBool True)"
    "self_after (load_census_data (Inr df) an) = an\<lparr>census_data := Some df\<rparr>"
    by (simp_all add: load_census_data_cases)
next
  assume a: "pe_files env shapefile_path = Some (Inl e)"
  show "result (process_district_data env self) = Returns (VBool False)"
    "effects (process_district_data env self) =
          [Print ''Loading district data...'' [],
           Print ''Error processing district data: {}'' [VStr (exn_str e)]]"
    "self_after (process_district_data env self) = self"
    using a by (simp_all add: process_read_raises)
next
  assume "pe_files env shapefile_path = Some (Inr df)
        \<and> find (\<lambda>col. col \<in> set (frame_columns df)) district_cols = Some col
        \<and> frame_col df col = Inr vals
        \<and> frame_len (frame_filter (map str_strip_is_13 vals) df) \<noteq> 0
        \<and> pe_mkdir env = Inr () \<and> pe_to_file env = Inr ()"
  then show "result (process_district_data env self) = Returns (VBool True)"
    by (elim conjE) (rule process_success(1))
next
  assume a: "fec_get fenv (base_url @ ''/candidates/search'') (candidates_params fetcher) = Inl e"
  show "result (fetch_ca13_candidates fenv fetcher) = Returns VNone"
    "effects (fetch_ca13_candidates fenv fetcher) =
          [Print ''Fetching CA-13 candidates...'' [],
           HttpGet (base_url @ ''/candidates/search'') (candidates_params fetcher),
           Print ''Error: {}'' [VStr (exn_str e)]]"
    "self_after (fetch_ca13_candidates fenv fetcher) = fetcher"
    using fetch_ca13_request_raises [OF a] by simp_all
next
  assume "fec_get fenv (base_url @ ''/candidates/search'') (candidates_params fetcher) = Inr r
        \<and> status_code r = 200 \<and> body_json r = Inr data \<and> fec_saved fenv = Inr ()
        \<and> py_getitem data ''results'' = Inr results \<and> py_iter results = Inr cs
        \<and> (\<forall>c\<in>set cs. \<exists>kvs. c = VDict kvs)"
  then show "result (fetch_ca13_candidates fenv fetcher) = Returns results"
    by (elim conjE) (rule fetch_ca13_success)
qed

text \<open>
  C4.  When the shapefile does not exist, \<open>process_district_data\<close> prints that it was not
  found and returns \<open>False\<close>; the attributes are unchanged (on a new processor
  \<open>district_data\<close> and \<open>ca13_data\<close> are still \<open>None\<close>) and nothing is written.  When the
  processed boundary file does not exist, \<open>CA13DemographicAnalyzer.load_data\<close> prints the
  error and returns \<open>False\<close>; and whenever \<open>load_data\<close> returns \<open>False\<close>, it has printed one
  message and left \<open>district_data\<close> as it was.
\<close>

theorem C4_missing_file_leaves_state:
  "(\<not> path_exists (pe_files env) shapefile_path \<longrightarrow>
        result (process_district_data env self) = Returns (VBool False)
      \<and> effects (process_district_data env self) =
          [Print ''Error: Shapefile not found at {}'' [VStr shapefile_path]]
      \<and> self_after (process_district_data env self) = self
      \<and> self_after (process_district_data env CA13Processor_init) =
          \<lparr>cp_district_data = None, cp_ca13_data = None\<rparr>
      \<and> filter is_write (effects (process_district_data env self)) = [])
   \<and> (fs ''data/processed/CA13_boundary.geojson'' = None \<longrightarrow>
        result (CA13DemographicAnalyzer_load_data fs da) = Returns (VBool False)
      \<and> effects (CA13DemographicAnalyzer_load_data fs da) =
          [Print ''Error loading data: {}''
            [VStr (''data/processed/CA13_boundary.geojson'' @ '': No such file or directory'')]]
      \<and> self_after (CA13DemographicAnalyzer_load_data fs da) = da)
   \<and> (result (CA13DemographicAnalyzer_load_data fs da) = Returns (VBool False) \<longrightarrow>
        self_after (CA13DemographicAnalyzer_load_data fs da) = da
      \<and> (\<exists>t vs. effects (CA13DemographicAnalyzer_load_data fs da) = [Print t vs]))"
proof (intro conjI impI)
  assume a: "\<not> path_exists (pe_files env) shapefile_path"
  show "result (process_district_data env self) = Returns (VBool False)"
    "effects (process_district_data env self) =
          [Print ''Error: Shapefile not found at {}'' [VStr shapefile_path]]"
    "self_after (process_district_data env self) = self"
    "self_after (process_district_data env CA13Processor_init) =
          \<lparr>cp_district_data = None, cp_ca13_data = None\<rparr>"
    "filter is_write (effects (process_district_data env self)) = []"
    using a by (simp_all add: process_missing_file CA13Processor_init_def)
next
  assume a: "fs ''data/processed/CA13_boundary.geojson'' = None"
  show "result (CA13DemographicAnalyzer_load_data fs da) = Returns (VBool False)"
    "effects (CA13DemographicAnalyzer_load_data fs da) =
          [Print ''Error loading data: {}''
            [VStr (''data/processed/CA13_boundary.geojson'' @ '': No such file or directory'')]]"
    "self_after (CA13DemographicAnalyzer_load_data fs da) = da"
    using a by (simp_all add: load_data_missing_file)
next
  assume a: "result (CA13DemographicAnalyzer_load_data fs da) = Returns (VBool False)"
  show "self_after (CA13DemographicAnalyzer_load_data fs da) = da"
    "\<exists>t vs. effects (CA13DemographicAnalyzer_load_data fs da) = [Print t vs]"
    using a load_data_failed [of fs da] by simp_all
qed

theorem C1_load_errors_witness:
  "result (process_district_data
      (example_env [shapefile_path \<mapsto> Inl (Exn ''DriverError'' ''not a shapefile'')])
      CA13Processor_init) = Returns (VBool False)
   \<and> result (process_district_data (example_env [shapefile_path \<mapsto> Inr example_table])
      CA13Processor_init) = Returns (VBool True)
   \<and> result (load_census_data (Inl (Exn ''FileNotFoundError'' ''census.csv''))
        \<lparr>district_boundary = None, precinct_data = None, census_data = None,
         election_data = None\<rparr>) = Returns (VBool False)
   \<and> result (fetch_ca13_candidates (example_fec (Inl (Exn ''ConnectionError'' ''down'')))
        \<lparr>api_key = ''k''\<rparr>) = Returns VNone
   \<and> result (fetch_ca13_candidates
        (example_fec (Inr \<lparr>status_code = 200, body_text = [], body_json = Inr example_body\<rparr>))
        \<lparr>api_key = ''k''\<rparr>) = Returns (VList [VDict [(''name'', VStr ''A'')]])"
  using
    C1_load_errors_are_caught
      [where env = "example_env [shapefile_path \<mapsto> Inl (Exn ''DriverError'' ''not a shapefile'')]"
        and self = CA13Processor_init and e = "Exn ''DriverError'' ''not a shapefile''"
        and fenv = "example_fec (Inl (Exn ''DriverError'' ''not a shapefile''))"
        and fetcher = "\<lparr>api_key = ''k''\<rparr>"]
    C1_load_errors_are_caught
      [where env = "example_env [shapefile_path \<mapsto> Inr example_table]"
        and self = CA13Processor_init and e = "Exn ''ConnectionError'' ''down''"
        and df = example_table and col = "''DISTRICT''" and vals = "[VInt 12, VInt 13]"
        and fenv = "example_fec (Inl (Exn ''ConnectionError'' ''down''))"
        and fetcher = "\<lparr>api_key = ''k''\<rparr>"]
    C1_load_errors_are_caught
      [where e = "Exn ''FileNotFoundError'' ''census.csv''"
        and an = "\<lparr>district_boundary = None, precinct_data = None, census_data = None,
         election_data = None\<rparr>"
        and fenv = "example_fec
          (Inr \<lparr>status_code = 200, body_text = [], body_json = Inr example_body\<rparr>)"
        and fetcher = "\<lparr>api_key = ''k''\<rparr>"
        and r = "\<lparr>status_code = 200, body_text = [], body_json = Inr example_body\<rparr>"
        and data = example_body and results = "VList [VDict [(''name'', VStr ''A'')]]"
        and cs = "[VDict [(''name'', VStr ''A'')]]"]
  by (simp add: example_env_def example_fec_def example_body_def example_table_def
        district_cols_def frame_columns_def frame_col_def frame_len_def frame_filter_def
        series_filter_def)

theorem C4_missing_file_witness:
  "result (process_district_data (example_env Map.empty) CA13Processor_init) =
     Returns (VBool False)
   \<and> self_after (process_district_data (example_env Map.empty) CA13Processor_init) =
     \<lparr>cp_district_data = None, cp_ca13_data = None\<rparr>
   \<and> filter is_write (effects (process_district_data (example_env Map.empty)
        CA13Processor_init)) = []
   \<and> result (CA13DemographicAnalyzer_load_data Map.empty \<lparr>da_district_data = None\<rparr>) =
     Returns (VBool False)
   \<and> self_after (CA13DemographicAnalyzer_load_data Map.empty \<lparr>da_district_data = None\<rparr>) =
     \<lparr>da_district_data = None\<rparr>"
  using C4_missing_file_leaves_state
    [where env = "example_env Map.empty" and self = CA13Processor_init and fs = Map.empty
      and da = "\<lparr>da_district_data = None\<rparr>"]
  by (simp add: example_env_def path_exists_def CA13Processor_init_def)

text \<open>
  C6.  A call of \<open>fetch_ca13_candidates\<close> or of \<open>fetch_candidate_financials\<close> issues exactly
  one GET request, whatever the network answers, and its parameters carry under \<open>api_key\<close>
  the key the fetcher was constructed with; the entry point constructs the fetcher with
  the literal bound to \<open>API_KEY\<close>.  When the request raises or the status is not 200 the
  call returns \<open>None\<close>: there is no second request and no exception leaves the method.
\<close>

theorem C6_one_get_with_api_key:
  "filter is_http_get (effects (fetch_ca13_candidates env self)) =
     [HttpGet (base_url @ ''/candidates/search'') (candidates_params self)]
   \<and> map_of (candidates_params self) ''api_key'' = Some (VStr (api_key self))
   \<and> filter is_http_get (effects (fetch_candidate_financials env cid self)) =
     [HttpGet (base_url @ ''/candidate/'' @ cid @ ''/totals'') (financials_params self cid)]
   \<and> map_of (financials_params self cid) ''api_key'' = Some (VStr (api_key self))
   \<and> FECDataFetcher_init (Inr ()) API_KEY =
       (Returns \<lparr>api_key = API_KEY\<rparr>, [Mkdir ''data/campaign_finance''])
   \<and> (\<exists>v. result (fetch_ca13_candidates env self) = Returns v)
   \<and> (\<exists>v. result (fetch_candidate_financials env cid self) = Returns v)
   \<and> (fec_get env (base_url @ ''/candidates/search'') (candidates_params self) = Inl e \<longrightarrow>
        result (fetch_ca13_candidates env self) = Returns VNone)
   \<and> (fec_get env (base_url @ ''/candidates/search'') (candidates_params self) = Inr r
        \<and> status_code r \<noteq> 200 \<longrightarrow>
        result (fetch_ca13_candidates env self) = Returns VNone)
   \<and> (fec_get env (base_url @ ''/candidate/'' @ cid @ ''/totals'') (financials_params self cid)
          = Inl e \<longrightarrow>
        result (fetch_candidate_financials env cid self) = Returns VNone)
   \<and> (fec_get env (base_url @ ''/candidate/'' @ cid @ ''/totals'') (financials_params self cid)
          = Inr r \<and> status_code r \<noteq> 200 \<longrightarrow>
        result (fetch_candidate_financials env cid self) = Returns VNone)"
proof (intro conjI impI)
  show "filter is_http_get (effects (fetch_ca13_candidates env self)) =
     [HttpGet (base_url @ ''/candidates/search'') (candidates_params self)]"
    by (rule fetch_ca13_gets)
  show "filter is_http_get (effects (fetch_candidate_financials env cid self)) =
     [HttpGet (base_url @ ''/candidate/'' @ cid @ ''/totals'') (financials_params self cid)]"
    by (rule fetch_financials_gets)
  show "map_of (candidates_params self) ''api_key'' = Some (VStr (api_key self))"
    by (simp add: candidates_params_def)
  show "map_of (financials_params self cid) ''api_key'' = Some (VStr (api_key self))"
    by (simp add: financials_params_def)
  show "FECDataFetcher_init (Inr ()) API_KEY =
       (Returns \<lparr>api_key = API_KEY\<rparr>, [Mkdir ''data/campaign_finance''])"
    by (simp add: FECDataFetcher_init_def)
  show "\<exists>v. result (fetch_ca13_candidates env self) = Returns v"
    by (rule fetch_ca13_returns)
  show "\<exists>v. result (fetch_candidate_financials env cid self) = Returns v"
    by (rule fetch_financials_returns)
next
  assume "fec_get env (base_url @ ''/candidates/search'') (candidates_params self) = Inl e"
  then show "result (fetch_ca13_candidates env self) = Returns VNone"
    by (simp add: fetch_ca13_request_raises)
next
  assume "fec_get env (base_url @ ''/candidates/search'') (candidates_params self) = Inr r
        \<and> status_code r \<noteq> 200"
  then show "result (fetch_ca13_candidates env self) = Returns VNone"
    by (elim conjE) (rule fetch_ca13_not_200)
next
  assume "fec_get env (base_url @ ''/candidate/'' @ cid @ ''/totals'')
            (financials_params self cid) = Inl e"
  then show "result (fetch_candidate_financials env cid self) = Returns VNone"
    by (rule fetch_financials_request_raises)
next
  assume "fec_get env (base_url @ ''/candidate/'' @ cid @ ''/totals'')
            (financials_params self cid) = Inr r \<and> status_code r \<noteq> 200"
  then show "result (fetch_candidate_financials env cid self) = Returns VNone"
    by (elim conjE) (rule fetch_financials_not_200)
qed

theorem C6_one_get_witness:
  "result (fetch_ca13_candidates (example_fec (Inl (Exn ''Timeout'' ''timed out'')))
      \<lparr>api_key = API_KEY\<rparr>) = Returns VNone
   \<and> result (fetch_candidate_financials (example_fec (Inl (Exn ''Timeout'' ''timed out'')))
      ''H0CA13'' \<lparr>api_key = API_KEY\<rparr>) = Returns VNone
   \<and> result (fetch_ca13_candidates
      (example_fec (Inr \<lparr>status_code = 429, body_text = ''slow down'', body_json = Inr VNone\<rparr>))
      \<lparr>api_key = API_KEY\<rparr>) = Returns VNone
   \<and> result (fetch_candidate_financials
      (example_fec (Inr \<lparr>status_code = 429, body_text = ''slow down'', body_json = Inr VNone\<rparr>))
      ''H0CA13'' \<lparr>api_key = API_KEY\<rparr>) = Returns VNone
   \<and> filter is_http_get (effects (fetch_candidate_financials
      (example_fec (Inr \<lparr>status_code = 429, body_text = ''slow down'', body_json = Inr VNone\<rparr>))
      ''H0CA13'' \<lparr>api_key = API_KEY\<rparr>)) =
     [HttpGet (base_url @ ''/candidate/H0CA13/totals'')
        [(''api_key'', VStr API_KEY), (''candidate_id'', VStr ''H0CA13''),
         (''per_page'', VInt 100)]]"
  using
    C6_one_get_with_api_key
      [where env = "example_fec (Inl (Exn ''Timeout'' ''timed out''))"
        and self = "\<lparr>api_key = API_KEY\<rparr>" and cid = "''H0CA13''"
        and e = "Exn ''Timeout'' ''timed out''"]
    C6_one_get_with_api_key
      [where env = "example_fec
          (Inr \<lparr>status_code = 429, body_text = ''slow down'', body_json = Inr VNone\<rparr>)"
        and self = "\<lparr>api_key = API_KEY\<rparr>" and cid = "''H0CA13''"
        and r = "\<lparr>status_code = 429, body_text = ''slow down'', body_json = Inr VNone\<rparr>"]
  by (simp add: example_fec_def financials_params_def)

text \<open>
  C7.  Once the shapefile has been read, \<open>process_district_data\<close> calls \<open>input()\<close> if and
  only if none of \<open>DISTRICT\<close>, \<open>District\<close>, \<open>CD\<close>, \<open>CD_NUM\<close>, \<open>CONG_DIST\<close> is a column of the
  table, and then exactly once; when one of them is a column, neither the method nor the
  rest of the script asks for input, and the method returns.  When the shapefile is
  missing or cannot be read there is no table and no input is asked for.
\<close>

theorem C7_input_iff_no_district_column:
  "(pe_files env shapefile_path = Some (Inr df) \<longrightarrow>
        ((\<exists>ev\<in>set (effects (process_district_data env self)). is_input ev)
           \<longleftrightarrow> (\<forall>col\<in>set district_cols. col \<notin> set (frame_columns df)))
      \<and> filter is_input (effects (process_district_data env self)) =
          (if \<forall>col\<in>set district_cols. col \<notin> set (frame_columns df)
           then [Input ''Enter column number: ''] else [])
      \<and> filter is_input (snd (CA13Processor_main env)) =
          (if \<forall>col\<in>set district_cols. col \<notin> set (frame_columns df)
           then [Input ''Enter column number: ''] else []))
   \<and> (pe_files env shapefile_path = None \<or> pe_files env shapefile_path = Some (Inl e) \<longrightarrow>
        filter is_input (effects (process_district_data env self)) = []
      \<and> filter is_input (snd (CA13Processor_main env)) = [])
   \<and> (\<exists>v. result (process_district_data env self) = Returns v)"
proof (intro conjI impI)
  show "\<exists>v. result (process_district_data env self) = Returns v"
    by (rule process_returns)
next
  assume a: "pe_files env shapefile_path = Some (Inr df)"
  have n: "find (\<lambda>col. col \<in> set (frame_columns df)) district_cols = None
             \<longleftrightarrow> (\<forall>col\<in>set district_cols. col \<notin> set (frame_columns df))"
    by (auto simp: find_None_iff)
  show f: "filter is_input (effects (process_district_data env self)) =
          (if \<forall>col\<in>set district_cols. col \<notin> set (frame_columns df)
           then [Input ''Enter column number: ''] else [])"
    using process_inputs_loaded [OF a, of self] n by simp
  show "filter is_input (snd (CA13Processor_main env)) =
          (if \<forall>col\<in>set district_cols. col \<notin> set (frame_columns df)
           then [Input ''Enter column number: ''] else [])"
    using process_inputs_loaded [OF a, of CA13Processor_init] n by (simp add: main_inputs)
  have "(\<exists>ev\<in>set (effects (process_district_data env self)). is_input ev)
          \<longleftrightarrow> filter is_input (effects (process_district_data env self)) \<noteq> []"
    by (simp add: filter_empty_conv)
  then show "(\<exists>ev\<in>set (effects (process_district_data env self)). is_input ev)
           \<longleftrightarrow> (\<forall>col\<in>set district_cols. col \<notin> set (frame_columns df))"
    unfolding f by simp
next
  assume a: "pe_files env shapefile_path = None \<or> pe_files env shapefile_path = Some (Inl e)"
  then have b: "pe_files env shapefile_path = None
      \<or> (\<exists>e. pe_files env shapefile_path = Some (Inl e))" by blast
  show "filter is_input (effects (process_district_data env self)) = []"
    using b by (rule process_inputs_not_loaded)
  show "filter is_input (snd (CA13Processor_main env)) = []"
    using process_inputs_not_loaded [OF b, of CA13Processor_init] by (simp add: main_inputs)
qed

theorem C7_input_witness:
  "filter is_input (effects (process_district_data
      (example_env [shapefile_path \<mapsto> Inr example_table]) CA13Processor_init)) = []
   \<and> filter is_input (snd (CA13Processor_main
      (example_env [shapefile_path \<mapsto> Inr example_table]))) = []
   \<and> filter is_input (effects (process_district_data
      (example_env [shapefile_path \<mapsto> Inr example_table_unnamed]) CA13Processor_init)) =
       [Input ''Enter column number: '']
   \<and> filter is_input (snd (CA13Processor_main
      (example_env [shapefile_path \<mapsto> Inr example_table_unnamed]))) =
       [Input ''Enter column number: '']
   \<and> filter is_input (snd (CA13Processor_main (example_env Map.empty))) = []"
  using
    C7_input_iff_no_district_column
      [where env = "example_env [shapefile_path \<mapsto> Inr example_table]"
        and self = CA13Processor_init and df = example_table]
    C7_input_iff_no_district_column
      [where env = "example_env [shapefile_path \<mapsto> Inr example_table_unnamed]"
        and self = CA13Processor_init and df = example_table_unnamed]
    C7_input_iff_no_district_column
      [where env = "example_env Map.empty" and self = CA13Processor_init]
  by (simp add: example_env_def example_table_def example_table_unnamed_def district_cols_def
        frame_columns_def)


section \<open>Properties of the model scripts\<close>




subsection \<open>The tables\<close>








subsection \<open>The splits\<close>





subsection \<open>The three leave-one-out scripts\<close>




subsection \<open>The three predictors of 2024\<close>




subsection \<open>The folds of \<open>cross_val_score\<close>\<close>














subsection \<open>congressional-model-v1.py\<close>







subsection \<open>electoral-strategy-model.py\<close>



subsection \<open>The claim\<close>









end
